theory Spec2Isabelle
  imports Main "HOL-Library.Word" "HOL-Library.Monad_Syntax"
begin

section \<open>Machine integers and type descriptors\<close>

text \<open>
  A C \<^verbatim>\<open>int\<close> is a 32-bit word read in two's complement (\<open>sint\<close>).  The
  conversion \<^verbatim>\<open>(int)v.size()\<close> of a \<^verbatim>\<open>size_t\<close> keeps the low 32 bits.
\<close>

type_synonym c_int = "32 word"

definition int_of_size :: "nat \<Rightarrow> c_int" where
  "int_of_size n = word_of_nat n"

text \<open>
  A \<^verbatim>\<open>float\<close> is carried as its 32-bit pattern: the code modelled here only
  copies and compares floats bytewise (\<^verbatim>\<open>memcpy\<close>, \<^verbatim>\<open>memcmp\<close>).  A
  \<^verbatim>\<open>ustring\<close> is an interned string, so two of them are the same pointer exactly when
  they are the same characters; it is modelled by its characters.
\<close>

type_synonym float_bits = "32 word"
type_synonym ustring = string

datatype BASETYPE = UNKNOWN | NONE | UINT8 | INT8 | UINT16 | INT16 | UINT32 | INT32
  | UINT64 | INT64 | HALF | FLOAT | DOUBLE | STRING | PTR

text \<open>\<^verbatim>\<open>TypeDesc::INT\<close> is the library's alias of \<^verbatim>\<open>INT32\<close>.\<close>

datatype VECSEMANTICS = NOSEMANTICS | COLOR | POINT | VECTOR | NORMAL

text \<open>
  \<^verbatim>\<open>TypeDesc\<close> (of the image library the shading system builds on): the base
  type, the aggregate arity (1 for a scalar, 3 for a triple, 16 for a 4x4 matrix), the
  semantic hint, and the array length (0: not an array, negative: an array of
  indefinite length).
\<close>

record typedesc =
  basetype :: BASETYPE
  aggregate :: nat
  vecsemantics :: VECSEMANTICS
  arraylen :: int

definition numelements :: "typedesc \<Rightarrow> nat" where
  "numelements t = (if arraylen t \<ge> 1 then nat (arraylen t) else 1)"

definition basevalues :: "typedesc \<Rightarrow> nat" where
  "basevalues t = numelements t * aggregate t"

definition basesize :: "BASETYPE \<Rightarrow> nat" where
  "basesize b = (case b of UNKNOWN \<Rightarrow> 0 | NONE \<Rightarrow> 0 | UINT8 \<Rightarrow> 1 | INT8 \<Rightarrow> 1
     | UINT16 \<Rightarrow> 2 | INT16 \<Rightarrow> 2 | UINT32 \<Rightarrow> 4 | INT32 \<Rightarrow> 4 | UINT64 \<Rightarrow> 8 | INT64 \<Rightarrow> 8
     | HALF \<Rightarrow> 2 | FLOAT \<Rightarrow> 4 | DOUBLE \<Rightarrow> 8 | STRING \<Rightarrow> 8 | PTR \<Rightarrow> 8)"

text \<open>\<^verbatim>\<open>TypeDesc::size()\<close>, in bytes.\<close>

definition typedesc_size :: "typedesc \<Rightarrow> nat" where
  "typedesc_size t = numelements t * aggregate t * basesize (basetype t)"

definition is_unsized_array :: "typedesc \<Rightarrow> bool" where
  "is_unsized_array t \<longleftrightarrow> arraylen t < 0"

definition is_sized_array :: "typedesc \<Rightarrow> bool" where
  "is_sized_array t \<longleftrightarrow> arraylen t > 0"

text \<open>
  The library's \<^verbatim>\<open>equivalent\<close> of two type descriptors: the same base type and
  aggregate (the semantic hint is ignored, so all triples are alike), and the same array
  length or one length still undetermined.
\<close>

definition equivalent :: "typedesc \<Rightarrow> typedesc \<Rightarrow> bool" where
  "equivalent a b \<longleftrightarrow>
     basetype a = basetype b \<and> aggregate a = aggregate b
     \<and> (arraylen a = arraylen b \<or> (is_unsized_array a \<and> is_sized_array b)
          \<or> (is_sized_array a \<and> is_unsized_array b))"

section \<open>The attribute dictionary (dictionary.cpp)\<close>

text \<open>
  The XML library is external.  A node is modelled by what \<^verbatim>\<open>dict_value\<close>
  reads of it: its text value and its attributes in document order.
\<close>

record xml_node =
  node_value :: string
  node_attributes :: "(string \<times> string) list"

record Query =
  q_document :: c_int
  q_node :: c_int
  q_name :: ustring
  q_type :: typedesc

record QueryResult =
  valueoffset :: c_int
  is_valid :: bool

record Node =
  document :: c_int
  node :: xml_node
  "next" :: c_int

record Dictionary =
  m_cache :: "(c_int \<times> c_int \<times> ustring \<times> typedesc) \<rightharpoonup> QueryResult"
  m_nodes :: "Node list"
  m_floatdata :: "float_bits list"
  m_intdata :: "c_int list"
  m_stringdata :: "ustring list"

text \<open>The caller's buffer behind \<^verbatim>\<open>void* data\<close>, cell by cell.\<close>

datatype data_cell = Int_cell c_int | Float_cell float_bits | Ustring_cell ustring
  | Hash_cell "64 word" | Unwritten

type_synonym data_buffer = "nat \<Rightarrow> data_cell"

text \<open>
  The string utilities and the string hash are library code outside the repository; they are
  parameters of the model.  \<open>parse_int s\<close> gives the value left in \<^verbatim>\<open>v\<close> and the
  rest of the string, and so does \<open>parse_float\<close>; \<open>parse_char s c\<close> gives the rest.
\<close>

record strutil =
  parse_int :: "string \<Rightarrow> c_int \<times> string"
  parse_float :: "string \<Rightarrow> float_bits \<times> string"
  parse_char :: "string \<Rightarrow> char \<Rightarrow> string"
  ustring_hash :: "ustring \<Rightarrow> 64 word"

definition invalid_node_ID :: "Dictionary \<Rightarrow> c_int \<Rightarrow> bool" where
  "invalid_node_ID d nodeID \<longleftrightarrow>
     sint nodeID \<le> 0 \<or> sint nodeID \<ge> sint (int_of_size (length (m_nodes d)))"

definition dict_next :: "Dictionary \<Rightarrow> c_int \<Rightarrow> c_int" where
  "dict_next d nodeID =
     (if invalid_node_ID d nodeID then 0
      else Node.next (m_nodes d ! nat (sint nodeID)))"

text \<open>
  Reading \<open>k\<close> cached values from \<open>offset\<close> on into the buffer
  (\<^verbatim>\<open>data[i] = vec[offset++]\<close>); \<open>None\<close> when the read leaves the vector or the
  \<^verbatim>\<open>int\<close> offset overflows (undefined behaviour in the source).
\<close>

fun copy_cached :: "('a \<Rightarrow> data_cell) \<Rightarrow> 'a list \<Rightarrow> int \<Rightarrow> nat \<Rightarrow> nat \<Rightarrow> data_buffer
    \<Rightarrow> data_buffer option" where
  "copy_cached mk vec offset i 0 data = Some data"
| "copy_cached mk vec offset i (Suc k) data =
     (if 0 \<le> offset \<and> offset < int (length vec) \<and> offset < 2 ^ 31 - 1
      then copy_cached mk vec (offset + 1) (Suc i) k (data(i := mk (vec ! nat offset)))
      else None)"

text \<open>The decoding loops: parse, skip a comma, append to the cache vector, write the cell.\<close>

fun decode_ints :: "strutil \<Rightarrow> string \<Rightarrow> nat \<Rightarrow> nat \<Rightarrow> c_int list \<Rightarrow> data_buffer
    \<Rightarrow> c_int list \<times> data_buffer" where
  "decode_ints su valstr i 0 vec data = (vec, data)"
| "decode_ints su valstr i (Suc k) vec data =
     (let (v, rest) = parse_int su valstr;
          rest' = parse_char su rest (CHR '','')
      in decode_ints su rest' (Suc i) k (vec @ [v]) (data(i := Int_cell v)))"

fun decode_floats :: "strutil \<Rightarrow> string \<Rightarrow> nat \<Rightarrow> nat \<Rightarrow> float_bits list \<Rightarrow> data_buffer
    \<Rightarrow> float_bits list \<times> data_buffer" where
  "decode_floats su valstr i 0 vec data = (vec, data)"
| "decode_floats su valstr i (Suc k) vec data =
     (let (v, rest) = parse_float su valstr;
          rest' = parse_char su rest (CHR '','')
      in decode_floats su rest' (Suc i) k (vec @ [v]) (data(i := Float_cell v)))"

definition find_attribute_value :: "xml_node \<Rightarrow> ustring \<Rightarrow> string option" where
  "find_attribute_value nd attribname =
     (if attribname = [] then Some (node_value nd)
      else map_of (node_attributes nd) attribname)"

definition dict_value_cached :: "strutil \<Rightarrow> Dictionary \<Rightarrow> QueryResult \<Rightarrow> typedesc
    \<Rightarrow> data_buffer \<Rightarrow> bool \<Rightarrow> (c_int \<times> data_buffer \<times> Dictionary) option" where
  "dict_value_cached su d qr type data treat_ustrings_as_hash =
     (let offset = sint (valueoffset qr);
          n = nat (sint (int_of_size (basevalues type))) in
      if basetype type = STRING then
        (if 0 \<le> offset \<and> offset < int (length (m_stringdata d)) then
           (let s = m_stringdata d ! nat offset in
            Some (1, data(0 := (if treat_ustrings_as_hash then Hash_cell (ustring_hash su s)
                                else Ustring_cell s)), d))
         else None)
      else if basetype type = INT32 then
        map_option (\<lambda>data'. (1, data', d))
          (copy_cached Int_cell (m_intdata d) offset 0 n data)
      else if basetype type = FLOAT then
        map_option (\<lambda>data'. (1, data', d))
          (copy_cached Float_cell (m_floatdata d) offset 0 n data)
      else Some (0, data, d))"

definition dict_value_decode :: "strutil \<Rightarrow> Dictionary \<Rightarrow> Node \<Rightarrow> c_int \<Rightarrow> ustring
    \<Rightarrow> typedesc \<Rightarrow> data_buffer \<Rightarrow> bool \<Rightarrow> c_int \<times> data_buffer \<times> Dictionary" where
  "dict_value_decode su d nd nodeID attribname type data treat_ustrings_as_hash =
     (case find_attribute_value (node nd) attribname of
        None \<Rightarrow> (0, data, d)
      | Some val \<Rightarrow>
         (let q = (document nd, nodeID, attribname, type);
              n = sint (int_of_size (basevalues type)) in
          if basetype type = STRING \<and> n = 1 then
            (let r = \<lparr>valueoffset = int_of_size (length (m_stringdata d)), is_valid = True\<rparr>
             in (1,
                 data(0 := (if treat_ustrings_as_hash then Hash_cell (ustring_hash su val)
                            else Ustring_cell val)),
                 d\<lparr>m_stringdata := m_stringdata d @ [val], m_cache := (m_cache d)(q \<mapsto> r)\<rparr>))
          else if basetype type = INT32 then
            (let r = \<lparr>valueoffset = int_of_size (length (m_intdata d)), is_valid = True\<rparr>;
                 (vec, data') = decode_ints su val 0 (nat n) (m_intdata d) data
             in (1, data', d\<lparr>m_intdata := vec, m_cache := (m_cache d)(q \<mapsto> r)\<rparr>))
          else if basetype type = FLOAT then
            (let r = \<lparr>valueoffset = int_of_size (length (m_floatdata d)), is_valid = True\<rparr>;
                 (vec, data') = decode_floats su val 0 (nat n) (m_floatdata d) data
             in (1, data', d\<lparr>m_floatdata := vec, m_cache := (m_cache d)(q \<mapsto> r)\<rparr>))
          else (0, data, d)))"

definition dict_value :: "strutil \<Rightarrow> Dictionary \<Rightarrow> c_int \<Rightarrow> ustring \<Rightarrow> typedesc
    \<Rightarrow> data_buffer \<Rightarrow> bool \<Rightarrow> (c_int \<times> data_buffer \<times> Dictionary) option" where
  "dict_value su d nodeID attribname type data treat_ustrings_as_hash =
     (if invalid_node_ID d nodeID then Some (0, data, d)
      else
        (let nd = m_nodes d ! nat (sint nodeID) in
         case m_cache d (document nd, nodeID, attribname, type) of
           Some qr \<Rightarrow> dict_value_cached su d qr type data treat_ustrings_as_hash
         | None \<Rightarrow>
             Some (dict_value_decode su d nd nodeID attribname type data
                     treat_ustrings_as_hash)))"

section \<open>Type specifications and symbols\<close>

definition TypeFloat :: typedesc where
  "TypeFloat = \<lparr>basetype = FLOAT, aggregate = 1, vecsemantics = NOSEMANTICS, arraylen = 0\<rparr>"

definition TypeString :: typedesc where
  "TypeString = \<lparr>basetype = STRING, aggregate = 1, vecsemantics = NOSEMANTICS, arraylen = 0\<rparr>"

definition TypeMatrix :: typedesc where
  "TypeMatrix = \<lparr>basetype = FLOAT, aggregate = 16, vecsemantics = NOSEMANTICS, arraylen = 0\<rparr>"

text \<open>
  \<^verbatim>\<open>TypeSpec\<close> wraps a \<^verbatim>\<open>TypeDesc\<close> with a structure id and a closure flag.
  Its declaration is in a header that is not among the source files; the fields and the
  queries below follow that class as the generators use it.
\<close>

record typespec =
  m_simple :: typedesc
  m_structure :: int
  m_closure :: bool

definition simpletype :: "typespec \<Rightarrow> typedesc" where
  "simpletype t = m_simple t"

definition is_array :: "typespec \<Rightarrow> bool" where
  "is_array t \<longleftrightarrow> arraylen (m_simple t) \<noteq> 0"

definition is_closure :: "typespec \<Rightarrow> bool" where
  "is_closure t \<longleftrightarrow> m_closure t \<and> \<not> is_array t"

definition is_closure_array :: "typespec \<Rightarrow> bool" where
  "is_closure_array t \<longleftrightarrow> m_closure t \<and> is_array t"

definition is_closure_based :: "typespec \<Rightarrow> bool" where
  "is_closure_based t \<longleftrightarrow> m_closure t"

definition is_structure :: "typespec \<Rightarrow> bool" where
  "is_structure t \<longleftrightarrow> m_structure t > 0 \<and> \<not> is_array t"

definition is_float :: "typespec \<Rightarrow> bool" where
  "is_float t \<longleftrightarrow> m_simple t = TypeFloat \<and> \<not> is_closure t"

definition is_string :: "typespec \<Rightarrow> bool" where
  "is_string t \<longleftrightarrow> m_simple t = TypeString \<and> \<not> is_closure t"

definition is_matrix :: "typespec \<Rightarrow> bool" where
  "is_matrix t \<longleftrightarrow> m_simple t = TypeMatrix \<and> \<not> is_closure t"

definition is_float_based :: "typespec \<Rightarrow> bool" where
  "is_float_based t \<longleftrightarrow> basetype (m_simple t) = FLOAT \<and> \<not> is_closure t"

datatype ValueSource = DefaultVal | InstanceVal | GeomVal | ConnectedVal

datatype SymType = SymTypeParam | SymTypeOutputParam | SymTypeLocal | SymTypeTemp
  | SymTypeGlobal | SymTypeConst | SymTypeType

text \<open>
  The bytes behind a symbol or a parameter value: 32-bit cells for \<^verbatim>\<open>int\<close> and
  \<^verbatim>\<open>float\<close> data, interned strings for \<^verbatim>\<open>ustring\<close> data.
\<close>

datatype value_data = Words "32 word list" | Ustrings "ustring list"

text \<open>A \<^verbatim>\<open>Symbol\<close>, by the attributes the modelled code reads.\<close>

record symbol =
  name :: ustring
  unmangled :: string
  typespec :: typespec
  symtype :: SymType
  has_derivs :: bool
  valuesource :: ValueSource
  interpolated :: bool
  interactive :: bool
  lockgeom :: bool
  dataoffset :: int
  everused :: bool
  everused_in_group :: bool
  fieldid :: int
  initbegin :: int
  initend :: int
  data :: value_data

definition is_constant :: "symbol \<Rightarrow> bool" where
  "is_constant s \<longleftrightarrow> symtype s = SymTypeConst"

definition has_init_ops :: "symbol \<Rightarrow> bool" where
  "has_init_ops s \<longleftrightarrow> initbegin s \<noteq> initend s"

text \<open>\<^verbatim>\<open>get_string\<close> reads the first string behind the symbol; anything else is undefined.\<close>

definition get_string :: "symbol \<Rightarrow> ustring option" where
  "get_string s = (case data s of Ustrings (x # xs) \<Rightarrow> Some x | _ \<Rightarrow> None)"

section \<open>The code generators (llvm\_gen.cpp)\<close>

subsection \<open>Emitted code\<close>

text \<open>
  The IR builder is external.  A value it returns (\<^verbatim>\<open>llvm::Value*\<close>) is the term
  of the builder calls that made it; \<open>Load_value s d c t\<close> is what
  \<^verbatim>\<open>llvm_load_value\<close> returned for symbol \<open>s\<close>, derivative channel \<open>d\<close> (0 the value,
  1 dx, 2 dy), component \<open>c\<close> and cast type \<open>t\<close>.  A call whose result is used is a
  term too.  Stores, calls made for their effect and branches are recorded in emission
  order.
\<close>

datatype llvalue =
    Load_value nat nat nat typedesc
  | Constant_float float_bits
  | Constant_int int
  | Constant_ptr nat
  | Void_ptr_null
  | Sg_void_ptr
  | Llvm_void_ptr nat
  | Op_add llvalue llvalue
  | Op_sub llvalue llvalue
  | Op_mul llvalue llvalue
  | Op_div llvalue llvalue
  | Op_le llvalue llvalue
  | Op_gt llvalue llvalue
  | Op_ne llvalue llvalue
  | Op_select llvalue llvalue llvalue
  | Ptr_cast llvalue
  | GEP llvalue int int
  | Offset_ptr llvalue int
  | Call_function string "llvalue list"

datatype instr =
    Store_value llvalue nat nat nat
  | Zero_derivs nat
  | Llvm_call_function string "nat list"
  | Call_pointer llvalue "llvalue list"
  | Op_memset llvalue int int int
  | Op_memcpy llvalue llvalue int int
  | New_basic_block nat string
  | Op_branch_cond llvalue nat nat
  | Op_branch nat

datatype fmt_arg = Arg_string string | Arg_int int | Arg_float float_bits
  | Arg_typespec typespec | Arg_typedesc typedesc

datatype diagnostic = Errorfmt string "fmt_arg list" | Warningfmt string "fmt_arg list"

record gen_state =
  emitted :: "instr list"
  diagnostics :: "diagnostic list"
  nblocks :: nat

definition emit :: "instr \<Rightarrow> gen_state \<Rightarrow> gen_state" where
  "emit i st = st\<lparr>emitted := emitted st @ [i]\<rparr>"

definition errorfmt :: "string \<Rightarrow> fmt_arg list \<Rightarrow> gen_state \<Rightarrow> gen_state" where
  "errorfmt f args st = st\<lparr>diagnostics := diagnostics st @ [Errorfmt f args]\<rparr>"

definition warningfmt :: "string \<Rightarrow> fmt_arg list \<Rightarrow> gen_state \<Rightarrow> gen_state" where
  "warningfmt f args st = st\<lparr>diagnostics := diagnostics st @ [Warningfmt f args]\<rparr>"

definition new_basic_block :: "string \<Rightarrow> gen_state \<Rightarrow> nat \<times> gen_state" where
  "new_basic_block nm st =
     (nblocks st, (emit (New_basic_block (nblocks st) nm) st)\<lparr>nblocks := Suc (nblocks st)\<rparr>)"

subsection \<open>Opcodes, closure registry, backend\<close>

record opcode =
  opname :: ustring
  opargs :: "nat list"
  sourcefile :: ustring
  sourceline :: int

record ClosureParam =
  cp_type :: typedesc
  cp_offset :: int
  cp_key :: "string option"
  cp_field_size :: int

record ClosureEntry =
  ce_id :: int
  ce_nformal :: int
  ce_nkeyword :: int
  ce_params :: "ClosureParam list"
  ce_struct_size :: int
  ce_prepare :: "nat option"
  ce_setup :: "nat option"

text \<open>
  What a generator reads of the backend: the instance's symbols and opcodes, the names
  used in messages, the renderer's closure registry, and two facts computed by code
  outside the source files, taken as they come: whether a load yields the null pointer
  (\<open>load_null\<close>) and whether a symbol is a zero constant (\<open>is_zero\<close>).
\<close>

record BackendLLVM =
  inst_symbols :: "symbol list"
  inst_ops :: "opcode list"
  load_null :: "nat \<Rightarrow> nat \<Rightarrow> nat \<Rightarrow> bool"
  is_zero :: "symbol \<Rightarrow> bool"
  find_closure :: "ustring \<rightharpoonup> ClosureEntry"
  renderer :: nat
  shadername :: string
  layer :: int
  layername :: ustring
  group_name :: ustring

text \<open>
  \<open>None\<close> stands for a crash of the generator: an \<^verbatim>\<open>OSL_ASSERT\<close> that fails, a null
  pointer handed to the builder, an index outside a vector.  (\<^verbatim>\<open>OSL_DASSERT\<close> checks
  nothing in a release build and is left out.)
\<close>

definition opcode_at :: "BackendLLVM \<Rightarrow> nat \<Rightarrow> opcode option" where
  "opcode_at rop opnum =
     (if opnum < length (inst_ops rop) then Some (inst_ops rop ! opnum) else None)"

definition opargsym :: "BackendLLVM \<Rightarrow> opcode \<Rightarrow> nat \<Rightarrow> nat option" where
  "opargsym rop op n =
     (if n < length (opargs op) \<and> opargs op ! n < length (inst_symbols rop)
      then Some (opargs op ! n) else None)"

definition symbol_of :: "BackendLLVM \<Rightarrow> nat \<Rightarrow> symbol" where
  "symbol_of rop k = inst_symbols rop ! k"

definition llvm_load_value :: "BackendLLVM \<Rightarrow> nat \<Rightarrow> nat \<Rightarrow> nat \<Rightarrow> typedesc
    \<Rightarrow> llvalue option" where
  "llvm_load_value rop s deriv component cast =
     (if load_null rop s deriv component then None
      else Some (Load_value s deriv component cast))"

definition llvm_store_value :: "llvalue \<Rightarrow> nat \<Rightarrow> nat \<Rightarrow> nat \<Rightarrow> gen_state \<Rightarrow> gen_state" where
  "llvm_store_value v s deriv component st = emit (Store_value v s deriv component) st"

text \<open>The older pair of helpers takes the component before the derivative.\<close>

definition loadLLVMValue :: "BackendLLVM \<Rightarrow> nat \<Rightarrow> nat \<Rightarrow> nat \<Rightarrow> typedesc
    \<Rightarrow> llvalue option" where
  "loadLLVMValue rop s component deriv cast = llvm_load_value rop s deriv component cast"

definition storeLLVMValue :: "llvalue \<Rightarrow> nat \<Rightarrow> nat \<Rightarrow> nat \<Rightarrow> gen_state \<Rightarrow> gen_state" where
  "storeLLVMValue v s component deriv st = llvm_store_value v s deriv component st"

definition llvm_zero_derivs :: "nat \<Rightarrow> gen_state \<Rightarrow> gen_state" where
  "llvm_zero_derivs s st = emit (Zero_derivs s) st"

definition TypeUnknown :: typedesc where
  "TypeUnknown = \<lparr>basetype = UNKNOWN, aggregate = 1, vecsemantics = NOSEMANTICS, arraylen = 0\<rparr>"

text \<open>
  A \<^verbatim>\<open>for\<close> loop over components whose body may \<^verbatim>\<open>return false\<close>: the body gives
  \<open>Some (False, st)\<close> to leave the generator with \<open>false\<close>, \<open>Some (True, st)\<close> to go
  on, \<open>None\<close> when it crashes.
\<close>

fun for_components :: "(nat \<Rightarrow> gen_state \<Rightarrow> (bool \<times> gen_state) option) \<Rightarrow> nat list
    \<Rightarrow> gen_state \<Rightarrow> (bool \<times> gen_state) option" where
  "for_components body [] st = Some (True, st)"
| "for_components body (i # cs) st =
     (case body i st of
        None \<Rightarrow> None
      | Some (ok, st') \<Rightarrow> if ok then for_components body cs st' else Some (False, st'))"

subsection \<open>add and sub\<close>

text \<open>The value pass of \<^verbatim>\<open>llvm_gen_add\<close> and \<^verbatim>\<open>llvm_gen_sub\<close>, one component.\<close>

definition addsub_value :: "(llvalue \<Rightarrow> llvalue \<Rightarrow> llvalue) \<Rightarrow> BackendLLVM \<Rightarrow> nat \<Rightarrow> nat
    \<Rightarrow> nat \<Rightarrow> typedesc \<Rightarrow> nat \<Rightarrow> gen_state \<Rightarrow> (bool \<times> gen_state) option" where
  "addsub_value opr rop Result A B type i st =
     (case (loadLLVMValue rop A i 0 type, loadLLVMValue rop B i 0 type) of
        (Some a, Some b) \<Rightarrow> Some (True, storeLLVMValue (opr a b) Result i 0 st)
      | _ \<Rightarrow> Some (False, st))"

text \<open>The derivative pass, one component of channel \<open>d\<close>; the loads are not checked.\<close>

definition addsub_deriv :: "(llvalue \<Rightarrow> llvalue \<Rightarrow> llvalue) \<Rightarrow> BackendLLVM \<Rightarrow> nat \<Rightarrow> nat
    \<Rightarrow> nat \<Rightarrow> typedesc \<Rightarrow> nat \<Rightarrow> nat \<Rightarrow> gen_state \<Rightarrow> (bool \<times> gen_state) option" where
  "addsub_deriv opr rop Result A B type d i st =
     do {
       a \<leftarrow> loadLLVMValue rop A i d type;
       b \<leftarrow> loadLLVMValue rop B i d type;
       Some (True, storeLLVMValue (opr a b) Result i d st)
     }"

definition addsub_derivs :: "(llvalue \<Rightarrow> llvalue \<Rightarrow> llvalue) \<Rightarrow> BackendLLVM \<Rightarrow> nat \<Rightarrow> nat
    \<Rightarrow> nat \<Rightarrow> typedesc \<Rightarrow> nat \<Rightarrow> gen_state \<Rightarrow> (bool \<times> gen_state) option" where
  "addsub_derivs opr rop Result A B type num_components st =
     do {
       (ok1, st1) \<leftarrow> for_components (addsub_deriv opr rop Result A B type 1)
                       [0..<num_components] st;
       for_components (addsub_deriv opr rop Result A B type 2) [0..<num_components] st1
     }"

definition addsub_tail :: "(llvalue \<Rightarrow> llvalue \<Rightarrow> llvalue) \<Rightarrow> BackendLLVM \<Rightarrow> nat \<Rightarrow> nat
    \<Rightarrow> nat \<Rightarrow> gen_state \<Rightarrow> (bool \<times> gen_state) option" where
  "addsub_tail opr rop Result A B st =
     (let type = simpletype (typespec (symbol_of rop Result));
          num_components = aggregate type in
      do {
        (ok, st1) \<leftarrow> for_components (addsub_value opr rop Result A B type)
                       [0..<num_components] st;
        if \<not> ok then Some (False, st1)
        else if has_derivs (symbol_of rop Result) then
          (if has_derivs (symbol_of rop A) \<or> has_derivs (symbol_of rop B) then
             do {
               (ok2, st2) \<leftarrow> addsub_derivs opr rop Result A B type num_components st1;
               Some (True, st2)
             }
           else Some (True, llvm_zero_derivs Result st1))
        else Some (True, st1)
      })"

definition llvm_gen_add :: "BackendLLVM \<Rightarrow> nat \<Rightarrow> gen_state \<Rightarrow> (bool \<times> gen_state) option" where
  "llvm_gen_add rop opnum st =
     do {
       op \<leftarrow> opcode_at rop opnum;
       Result \<leftarrow> opargsym rop op 0;
       A \<leftarrow> opargsym rop op 1;
       B \<leftarrow> opargsym rop op 2;
       if is_closure (typespec (symbol_of rop Result)) then
         do {
           a \<leftarrow> llvm_load_value rop A 0 0 TypeUnknown;
           b \<leftarrow> llvm_load_value rop B 0 0 TypeUnknown;
           Some (True, llvm_store_value
                         (Call_function ''osl_add_closure_closure'' [Sg_void_ptr, a, b])
                         Result 0 0 st)
         }
       else addsub_tail Op_add rop Result A B st
     }"

definition llvm_gen_sub :: "BackendLLVM \<Rightarrow> nat \<Rightarrow> gen_state \<Rightarrow> (bool \<times> gen_state) option" where
  "llvm_gen_sub rop opnum st =
     do {
       op \<leftarrow> opcode_at rop opnum;
       Result \<leftarrow> opargsym rop op 0;
       A \<leftarrow> opargsym rop op 1;
       B \<leftarrow> opargsym rop op 2;
       addsub_tail Op_sub rop Result A B st
     }"

subsection \<open>mul\<close>

definition mul_component :: "BackendLLVM \<Rightarrow> nat \<Rightarrow> nat \<Rightarrow> nat \<Rightarrow> typedesc \<Rightarrow> nat
    \<Rightarrow> gen_state \<Rightarrow> (bool \<times> gen_state) option" where
  "mul_component rop Result A B type i st =
     (case (llvm_load_value rop A 0 i type, llvm_load_value rop B 0 i type) of
        (Some a, Some b) \<Rightarrow>
          (let st1 = llvm_store_value (Op_mul a b) Result 0 i st in
           if has_derivs (symbol_of rop Result) \<and> (has_derivs (symbol_of rop A) \<or> has_derivs (symbol_of rop B))
           then
             do {
               ax \<leftarrow> llvm_load_value rop A 1 i type;
               bx \<leftarrow> llvm_load_value rop B 1 i type;
               let rx = Op_add (Op_mul a bx) (Op_mul ax b);
               ay \<leftarrow> llvm_load_value rop A 2 i type;
               by \<leftarrow> llvm_load_value rop B 2 i type;
               let ry = Op_add (Op_mul a by) (Op_mul ay b);
               Some (True, llvm_store_value ry Result 2 i (llvm_store_value rx Result 1 i st1))
             }
           else Some (True, st1))
      | _ \<Rightarrow> Some (False, st))"

definition mul_closure :: "BackendLLVM \<Rightarrow> nat \<Rightarrow> nat \<Rightarrow> nat \<Rightarrow> gen_state
    \<Rightarrow> (bool \<times> gen_state) option" where
  "mul_closure rop Result A B st =
     (let (c, w) = (if is_closure (typespec (symbol_of rop A)) then (A, B) else (B, A));
          tfloat = is_float (typespec (symbol_of rop w)) in
      do {
        v1 \<leftarrow> llvm_load_value rop c 0 0 TypeUnknown;
        v2 \<leftarrow> (if tfloat then llvm_load_value rop w 0 0 TypeUnknown
                else Some (Llvm_void_ptr w));
        Some (True, llvm_store_value
               (Call_function (if tfloat then ''osl_mul_closure_float''
                               else ''osl_mul_closure_color'') [Sg_void_ptr, v1, v2])
               Result 0 0 st)
      })"

definition mul_matrix :: "BackendLLVM \<Rightarrow> nat \<Rightarrow> nat \<Rightarrow> nat \<Rightarrow> gen_state
    \<Rightarrow> (bool \<times> gen_state) option" where
  "mul_matrix rop Result A B st =
     do {
       st1 \<leftarrow>
         (if is_float (typespec (symbol_of rop A)) then
            (if is_matrix (typespec (symbol_of rop B))
             then Some (emit (Llvm_call_function ''osl_mul_mmf'' [Result, B, A]) st)
             else None)
          else if is_matrix (typespec (symbol_of rop A)) then
            (if is_float (typespec (symbol_of rop B))
             then Some (emit (Llvm_call_function ''osl_mul_mmf'' [Result, A, B]) st)
             else if is_matrix (typespec (symbol_of rop B))
             then Some (emit (Llvm_call_function ''osl_mul_mmm'' [Result, A, B]) st)
             else None)
          else None);
       Some (True, if has_derivs (symbol_of rop Result) then llvm_zero_derivs Result st1 else st1)
     }"

definition llvm_gen_mul :: "BackendLLVM \<Rightarrow> nat \<Rightarrow> gen_state \<Rightarrow> (bool \<times> gen_state) option" where
  "llvm_gen_mul rop opnum st =
     do {
       op \<leftarrow> opcode_at rop opnum;
       Result \<leftarrow> opargsym rop op 0;
       A \<leftarrow> opargsym rop op 1;
       B \<leftarrow> opargsym rop op 2;
       let type = simpletype (typespec (symbol_of rop Result));
       let num_components = aggregate type;
       if is_closure (typespec (symbol_of rop Result)) then mul_closure rop Result A B st
       else if is_matrix (typespec (symbol_of rop Result)) then mul_matrix rop Result A B st
       else
         do {
           (ok, st1) \<leftarrow> for_components (mul_component rop Result A B type)
                          [0..<num_components] st;
           if \<not> ok then Some (False, st1)
           else if has_derivs (symbol_of rop Result)
                   \<and> \<not> (has_derivs (symbol_of rop A) \<or> has_derivs (symbol_of rop B))
           then Some (True, llvm_zero_derivs Result st1)
           else Some (True, st1)
         }
     }"

subsection \<open>div\<close>

text \<open>1.0f as a bit pattern.\<close>

definition float_one :: float_bits where
  "float_one = 0x3F800000"

text \<open>
  The quotient of two loaded values: a plain divide when the divisor symbol is a constant
  that is not zero, else a call of the safe divide named by \<open>safe_div\<close>.
\<close>

definition div_value :: "BackendLLVM \<Rightarrow> nat \<Rightarrow> string \<Rightarrow> llvalue \<Rightarrow> llvalue \<Rightarrow> llvalue" where
  "div_value rop B safe_div a b =
     (if is_constant (symbol_of rop B) \<and> \<not> is_zero rop (symbol_of rop B) then Op_div a b
      else Call_function safe_div [a, b])"

definition div_component :: "BackendLLVM \<Rightarrow> nat \<Rightarrow> nat \<Rightarrow> nat \<Rightarrow> typedesc \<Rightarrow> string \<Rightarrow> bool
    \<Rightarrow> nat \<Rightarrow> gen_state \<Rightarrow> (bool \<times> gen_state) option" where
  "div_component rop Result A B type safe_div deriv i st =
     (case (llvm_load_value rop A 0 i type, llvm_load_value rop B 0 i type) of
        (Some a, Some b) \<Rightarrow>
          (let a_div_b = div_value rop B safe_div a b in
           if deriv then
             do {
               let binv = div_value rop B safe_div (Constant_float float_one) b;
               ax \<leftarrow> llvm_load_value rop A 1 i type;
               bx \<leftarrow> llvm_load_value rop B 1 i type;
               let rx = Op_mul binv (Op_sub ax (Op_mul a_div_b bx));
               ay \<leftarrow> llvm_load_value rop A 2 i type;
               by \<leftarrow> llvm_load_value rop B 2 i type;
               let ry = Op_mul binv (Op_sub ay (Op_mul a_div_b by));
               Some (True, llvm_store_value ry Result 2 i
                             (llvm_store_value rx Result 1 i
                               (llvm_store_value a_div_b Result 0 i st)))
             }
           else Some (True, llvm_store_value a_div_b Result 0 i st))
      | _ \<Rightarrow> Some (False, st))"

definition div_matrix :: "BackendLLVM \<Rightarrow> nat \<Rightarrow> nat \<Rightarrow> nat \<Rightarrow> gen_state
    \<Rightarrow> (bool \<times> gen_state) option" where
  "div_matrix rop Result A B st =
     do {
       st1 \<leftarrow>
         (if is_float (typespec (symbol_of rop A)) then
            (if is_float (typespec (symbol_of rop B)) then None
             else if is_matrix (typespec (symbol_of rop B))
             then Some (emit (Llvm_call_function ''osl_div_mfm'' [Result, A, B]) st)
             else None)
          else if is_matrix (typespec (symbol_of rop A)) then
            (if is_float (typespec (symbol_of rop B))
             then Some (emit (Llvm_call_function ''osl_div_mmf'' [Result, A, B]) st)
             else if is_matrix (typespec (symbol_of rop B))
             then Some (emit (Llvm_call_function ''osl_div_mmm'' [Result, A, B]) st)
             else None)
          else None);
       Some (True, if has_derivs (symbol_of rop Result) then llvm_zero_derivs Result st1 else st1)
     }"

definition llvm_gen_div :: "BackendLLVM \<Rightarrow> nat \<Rightarrow> gen_state \<Rightarrow> (bool \<times> gen_state) option" where
  "llvm_gen_div rop opnum st =
     do {
       op \<leftarrow> opcode_at rop opnum;
       Result \<leftarrow> opargsym rop op 0;
       A \<leftarrow> opargsym rop op 1;
       B \<leftarrow> opargsym rop op 2;
       let type = simpletype (typespec (symbol_of rop Result));
       let is_float = is_float_based (typespec (symbol_of rop Result));
       let num_components = aggregate type;
       if is_matrix (typespec (symbol_of rop Result)) then div_matrix rop Result A B st
       else
         do {
           let safe_div = (if is_float then ''osl_safe_div_fff'' else ''osl_safe_div_iii'');
           let deriv = (has_derivs (symbol_of rop Result)
                        \<and> (has_derivs (symbol_of rop A) \<or> has_derivs (symbol_of rop B)));
           (ok, st1) \<leftarrow> for_components (div_component rop Result A B type safe_div deriv)
                          [0..<num_components] st;
           if \<not> ok then Some (False, st1)
           else if has_derivs (symbol_of rop Result)
                   \<and> \<not> (has_derivs (symbol_of rop A) \<or> has_derivs (symbol_of rop B))
           then Some (True, llvm_zero_derivs Result st1)
           else Some (True, st1)
         }
     }"

subsection \<open>What a lowering needs in order to return true\<close>

text \<open>
  The componentwise generators return false when a load of the value channel of an operand
  gives the null pointer; the matrix branches of \<^verbatim>\<open>llvm_gen_mul\<close> and
  \<^verbatim>\<open>llvm_gen_div\<close> assert the operand types the front end allows.
\<close>

definition operand_loads :: "BackendLLVM \<Rightarrow> nat \<Rightarrow> nat \<Rightarrow> nat \<Rightarrow> bool" where
  "operand_loads rop A B n \<longleftrightarrow>
     list_all (\<lambda>i. \<not> load_null rop A 0 i \<and> \<not> load_null rop B 0 i) [0..<n]"

definition derivative_loads :: "BackendLLVM \<Rightarrow> nat \<Rightarrow> nat \<Rightarrow> nat \<Rightarrow> bool" where
  "derivative_loads rop A B n \<longleftrightarrow>
     list_all (\<lambda>i. \<not> load_null rop A 1 i \<and> \<not> load_null rop B 1 i
                   \<and> \<not> load_null rop A 2 i \<and> \<not> load_null rop B 2 i) [0..<n]"

definition matrix_operands :: "BackendLLVM \<Rightarrow> nat \<Rightarrow> nat \<Rightarrow> bool" where
  "matrix_operands rop A B \<longleftrightarrow>
     (is_float (typespec (symbol_of rop A)) \<and> is_matrix (typespec (symbol_of rop B)))
     \<or> (is_matrix (typespec (symbol_of rop A))
         \<and> (is_float (typespec (symbol_of rop B)) \<or> is_matrix (typespec (symbol_of rop B))))"

subsection \<open>min and max\<close>

definition op_min :: ustring where
  "op_min = ''min''"

definition minmax_component :: "BackendLLVM \<Rightarrow> opcode \<Rightarrow> nat \<Rightarrow> nat \<Rightarrow> nat \<Rightarrow> typedesc
    \<Rightarrow> nat \<Rightarrow> gen_state \<Rightarrow> (bool \<times> gen_state) option" where
  "minmax_component rop op Result x y type i st =
     do {
       x_val \<leftarrow> llvm_load_value rop x 0 i type;
       y_val \<leftarrow> llvm_load_value rop y 0 i type;
       let cond = (if opname op = op_min then Op_le x_val y_val else Op_gt x_val y_val);
       let res_val = Op_select cond x_val y_val;
       let st1 = llvm_store_value res_val Result 0 i st;
       if has_derivs (symbol_of rop Result) then
         do {
           x_dx \<leftarrow> llvm_load_value rop x 1 i type;
           x_dy \<leftarrow> llvm_load_value rop x 2 i type;
           y_dx \<leftarrow> llvm_load_value rop y 1 i type;
           y_dy \<leftarrow> llvm_load_value rop y 2 i type;
           Some (True, llvm_store_value (Op_select cond x_dy y_dy) Result 2 i
                         (llvm_store_value (Op_select cond x_dx y_dx) Result 1 i st1))
         }
       else Some (True, st1)
     }"

definition llvm_gen_minmax :: "BackendLLVM \<Rightarrow> nat \<Rightarrow> gen_state \<Rightarrow> (bool \<times> gen_state) option" where
  "llvm_gen_minmax rop opnum st =
     do {
       op \<leftarrow> opcode_at rop opnum;
       Result \<leftarrow> opargsym rop op 0;
       x \<leftarrow> opargsym rop op 1;
       y \<leftarrow> opargsym rop op 2;
       let type = simpletype (typespec (symbol_of rop Result));
       let num_components = aggregate type;
       (ok, st1) \<leftarrow> for_components (minmax_component rop op Result x y type)
                      [0..<num_components] st;
       Some (True, st1)
     }"

subsection \<open>Closures\<close>

text \<open>
  The search of \<^verbatim>\<open>llvm_gen_keyword_fill\<close> for a keyword parameter with the name and
  type of the argument: the copy to emit for the first match, \<open>Some None\<close> when there is
  none.
\<close>

fun keyword_search :: "ClosureEntry \<Rightarrow> ustring \<Rightarrow> typedesc \<Rightarrow> llvalue \<Rightarrow> nat \<Rightarrow> nat list
    \<Rightarrow> instr option option" where
  "keyword_search clentry key ValueType mem_void_ptr Value [] = Some None"
| "keyword_search clentry key ValueType mem_void_ptr Value (t # ts) =
     (let k = ce_nformal clentry + int t in
      if k < 0 \<or> k \<ge> int (length (ce_params clentry)) then None
      else
        (let p = ce_params clentry ! nat k in
         if equivalent (cp_type p) ValueType then
           (case cp_key p of
              None \<Rightarrow> None
            | Some pkey \<Rightarrow>
                if key = pkey
                then Some (Some (Op_memcpy (Offset_ptr mem_void_ptr (cp_offset p))
                                   (Llvm_void_ptr Value)
                                   (sint (int_of_size (typedesc_size (cp_type p)))) 4))
                else keyword_search clentry key ValueType mem_void_ptr Value ts)
         else keyword_search clentry key ValueType mem_void_ptr Value ts))"

definition keyword_attr :: "BackendLLVM \<Rightarrow> opcode \<Rightarrow> ClosureEntry \<Rightarrow> ustring \<Rightarrow> llvalue \<Rightarrow> int
    \<Rightarrow> nat \<Rightarrow> gen_state \<Rightarrow> (bool \<times> gen_state) option" where
  \<open>keyword_attr rop op clentry clname mem_void_ptr argsoffset attr_i st =
     (let argno = int attr_i * 2 + argsoffset in
      if argno < 0 then None
      else
        do {
          Key \<leftarrow> opargsym rop op (nat argno);
          Value \<leftarrow> opargsym rop op (nat argno + 1);
          if \<not> is_constant (symbol_of rop Key) then None
          else
            do {
              key \<leftarrow> get_string (symbol_of rop Key);
              let ValueType = simpletype (typespec (symbol_of rop Value));
              found \<leftarrow> keyword_search clentry key ValueType mem_void_ptr Value
                         [0..<nat (ce_nkeyword clentry)];
              (case found of
                 Some copy \<Rightarrow> Some (True, emit copy st)
               | None \<Rightarrow>
                   Some (True, warningfmt
                     ''Unsupported closure keyword arg "{}" for {} ({}:{})''
                     [Arg_string key, Arg_string clname, Arg_string (sourcefile op),
                      Arg_int (sourceline op)] st))
            }
        })\<close>

text \<open>C's integer division truncates towards zero.\<close>

definition c_div :: "int \<Rightarrow> int \<Rightarrow> int" where
  "c_div a b = sgn a * sgn b * (\<bar>a\<bar> div \<bar>b\<bar>)"

definition llvm_gen_keyword_fill :: "BackendLLVM \<Rightarrow> opcode \<Rightarrow> ClosureEntry \<Rightarrow> ustring
    \<Rightarrow> llvalue \<Rightarrow> int \<Rightarrow> gen_state \<Rightarrow> gen_state option" where
  "llvm_gen_keyword_fill rop op clentry clname mem_void_ptr argsoffset st =
     (let Nattrs = c_div (int (length (opargs op)) - argsoffset) 2 in
      map_option snd
        (for_components (keyword_attr rop op clentry clname mem_void_ptr argsoffset)
           [0..<nat Nattrs] st))"

text \<open>
  The loop over the formal parameters; it stops at the first parameter that has a key.
\<close>

fun closure_formals :: "BackendLLVM \<Rightarrow> opcode \<Rightarrow> ClosureEntry \<Rightarrow> ustring \<Rightarrow> llvalue \<Rightarrow> nat
    \<Rightarrow> nat list \<Rightarrow> gen_state \<Rightarrow> gen_state option" where
  \<open>closure_formals rop op clentry closure_name mem_void_ptr weighted [] st = Some st\<close>
| \<open>closure_formals rop op clentry closure_name mem_void_ptr weighted (carg # cs) st =
     (if carg \<ge> length (ce_params clentry) then None
      else
        (let p = ce_params clentry ! carg in
         if cp_key p \<noteq> None then Some st
         else
           (case opargsym rop op (carg + 2 + weighted) of
              None \<Rightarrow> None
            | Some s \<Rightarrow>
               (let ts = typespec (symbol_of rop s); t = simpletype ts in
                closure_formals rop op clentry closure_name mem_void_ptr weighted cs
                  (if \<not> is_closure_array ts \<and> \<not> is_structure ts \<and> equivalent t (cp_type p)
                   then emit (Op_memcpy (Offset_ptr mem_void_ptr (cp_offset p))
                                (Llvm_void_ptr s)
                                (sint (int_of_size (typedesc_size (cp_type p)))) 4) st
                   else errorfmt
                     ''Incompatible formal argument {} to '{}' closure ({} {}, expected {}). Prototypes don't match renderer registry ({}:{}).''
                     [Arg_int (int carg + 1), Arg_string closure_name, Arg_typespec ts,
                      Arg_string (unmangled (symbol_of rop s)), Arg_typedesc (cp_type p),
                      Arg_string (sourcefile op), Arg_int (sourceline op)] st)))))\<close>

text \<open>What \<^verbatim>\<open>llvm_gen_closure\<close> does once the registry entry is found.\<close>

definition closure_build :: "BackendLLVM \<Rightarrow> opcode \<Rightarrow> nat \<Rightarrow> nat \<Rightarrow> nat \<Rightarrow> ustring
    \<Rightarrow> ClosureEntry \<Rightarrow> gen_state \<Rightarrow> (bool \<times> gen_state) option" where
  "closure_build rop op Result weighted weight closure_name clentry st =
     (let render_ptr = Constant_ptr (renderer rop);
          sg_ptr = Sg_void_ptr;
          id_int = Constant_int (ce_id clentry);
          size_int = Constant_int (ce_struct_size clentry);
          return_ptr =
            (if weighted \<noteq> 0
             then Call_function ''osl_allocate_weighted_closure_component''
                    [sg_ptr, id_int, size_int, Llvm_void_ptr weight]
             else Call_function ''osl_allocate_closure_component'' [sg_ptr, id_int, size_int]);
          guarded = (weighted \<noteq> 0
                     \<and> \<not> (is_constant (symbol_of rop weight)
                           \<and> \<not> is_zero rop (symbol_of rop weight)));
          (next_block, st1) =
            (if guarded then
               (let (notnull_block, sa) = new_basic_block ''non_null_closure'' st;
                    (nb, sb) = new_basic_block [] sa
                in (Some nb,
                    emit (Op_branch_cond (Op_ne return_ptr Void_ptr_null) notnull_block nb) sb))
             else (None, st));
          mem_void_ptr = Ptr_cast (GEP (Ptr_cast return_ptr) 0 2);
          st2 = (case ce_prepare clentry of
                   Some f \<Rightarrow> emit (Call_pointer (Constant_ptr f)
                                     [render_ptr, id_int, mem_void_ptr]) st1
                 | None \<Rightarrow> emit (Op_memset mem_void_ptr 0 (ce_struct_size clentry) 4) st1)
      in do {
        st3 \<leftarrow> closure_formals rop op clentry closure_name mem_void_ptr weighted
                 [0..<nat (ce_nformal clentry)] st2;
        let st4 = (case ce_setup clentry of
                     Some f \<Rightarrow> emit (Call_pointer (Constant_ptr f)
                                       [render_ptr, id_int, mem_void_ptr]) st3
                   | None \<Rightarrow> st3);
        st5 \<leftarrow> llvm_gen_keyword_fill rop op clentry closure_name mem_void_ptr
                 (2 + int weighted + ce_nformal clentry) st4;
        let st6 = (case next_block of Some nb \<Rightarrow> emit (Op_branch nb) st5 | None \<Rightarrow> st5);
        Some (True, llvm_store_value return_ptr Result 0 0 st6)
      })"

definition llvm_gen_closure :: "BackendLLVM \<Rightarrow> nat \<Rightarrow> gen_state
    \<Rightarrow> (bool \<times> gen_state) option" where
  \<open>llvm_gen_closure rop opnum st =
     do {
       op \<leftarrow> opcode_at rop opnum;
       Result \<leftarrow> opargsym rop op 0;
       arg1 \<leftarrow> opargsym rop op 1;
       let weighted = (if is_string (typespec (symbol_of rop arg1)) then 0 else 1);
       Id \<leftarrow> opargsym rop op (1 + weighted);
       closure_name \<leftarrow> get_string (symbol_of rop Id);
       (case find_closure rop closure_name of
          None \<Rightarrow>
            Some (False, errorfmt
              ''Closure '{}' is not supported by the current renderer, called from {}:{} in shader "{}", layer {} "{}", group "{}"''
              [Arg_string closure_name, Arg_string (sourcefile op), Arg_int (sourceline op),
               Arg_string (shadername rop), Arg_int (layer rop), Arg_string (layername rop),
               Arg_string (group_name rop)] st)
        | Some clentry \<Rightarrow>
            closure_build rop op Result weighted arg1 closure_name clentry st)
     }\<close>

subsection \<open>What the emitted stores leave in a symbol\<close>

text \<open>
  A channel is a symbol, a derivative channel and a component.  Running over the emitted
  code, the last store to a channel decides its content.  \<^verbatim>\<open>llvm_zero_derivs\<close> is
  a helper of the backend outside the source files; by the specification it zero-fills the
  derivative channels of its symbol.  A runtime call through \<^verbatim>\<open>llvm_call_function\<close>
  writes its first argument, the result, in a way this model does not look into.
\<close>

datatype content = Untouched | Stored llvalue | Zeroed | Written_by string

type_synonym channel = "nat \<times> nat \<times> nat"

fun exec_instr :: "instr \<Rightarrow> (channel \<Rightarrow> content) \<Rightarrow> (channel \<Rightarrow> content)" where
  "exec_instr (Store_value v s d c) m = m((s, d, c) := Stored v)"
| "exec_instr (Zero_derivs s) m =
     (\<lambda>(s', d, c). if s' = s \<and> d \<noteq> 0 then Zeroed else m (s', d, c))"
| "exec_instr (Llvm_call_function f args) m =
     (case args of [] \<Rightarrow> m
      | r # _ \<Rightarrow> (\<lambda>(s', d, c). if s' = r then Written_by f else m (s', d, c)))"
| "exec_instr _ m = m"

definition channels_after :: "instr list \<Rightarrow> (channel \<Rightarrow> content) \<Rightarrow> channel \<Rightarrow> content" where
  "channels_after code m = fold exec_instr code m"

text \<open>The stores of one component: value alone, or value with dx and dy.\<close>

definition value_block :: "(nat \<Rightarrow> llvalue) \<Rightarrow> nat \<Rightarrow> nat \<Rightarrow> instr list" where
  "value_block v R i = [Store_value (v i) R 0 i]"

definition dual_block :: "(nat \<Rightarrow> llvalue) \<Rightarrow> (nat \<Rightarrow> llvalue) \<Rightarrow> (nat \<Rightarrow> llvalue) \<Rightarrow> nat
    \<Rightarrow> nat \<Rightarrow> instr list" where
  "dual_block v vx vy R i =
     [Store_value (v i) R 0 i, Store_value (vx i) R 1 i, Store_value (vy i) R 2 i]"

subsection \<open>What the emitted values compute\<close>

text \<open>
  The arithmetic of the target is not fixed here: a runtime gives the loaded values and
  the meaning of the builder's operations over some type of numbers, with \<open>rt_is_zero\<close>
  the test \<^verbatim>\<open>b == 0\<close>.
\<close>

datatype 'a rtval = Num 'a | Cond bool

record 'a runtime =
  rt_load :: "nat \<Rightarrow> nat \<Rightarrow> nat \<Rightarrow> typedesc \<Rightarrow> 'a"
  rt_float :: "float_bits \<Rightarrow> 'a"
  rt_int :: "int \<Rightarrow> 'a"
  rt_add :: "'a \<Rightarrow> 'a \<Rightarrow> 'a"
  rt_sub :: "'a \<Rightarrow> 'a \<Rightarrow> 'a"
  rt_mul :: "'a \<Rightarrow> 'a \<Rightarrow> 'a"
  rt_div :: "'a \<Rightarrow> 'a \<Rightarrow> 'a"
  rt_le :: "'a \<Rightarrow> 'a \<Rightarrow> bool"
  rt_gt :: "'a \<Rightarrow> 'a \<Rightarrow> bool"
  rt_ne :: "'a \<Rightarrow> 'a \<Rightarrow> bool"
  rt_is_zero :: "'a \<Rightarrow> bool"
  rt_zero :: 'a

text \<open>
  Modelled from the spec: the runtime functions \<^verbatim>\<open>osl_safe_div_fff\<close> and
  \<^verbatim>\<open>osl_safe_div_iii\<close> are not among the source files.  The specification asks of
  the safe divide that it does not trap on zero; it is taken to divide when the divisor is
  not zero and to give zero when it is.
\<close>

definition safe_div :: "'a runtime \<Rightarrow> 'a \<Rightarrow> 'a \<Rightarrow> 'a" where
  "safe_div rt a b = (if rt_is_zero rt b then rt_zero rt else rt_div rt a b)"

definition num2 :: "('a \<Rightarrow> 'a \<Rightarrow> 'a) \<Rightarrow> 'a rtval option \<Rightarrow> 'a rtval option
    \<Rightarrow> 'a rtval option" where
  "num2 f x y =
     (case (x, y) of (Some (Num a), Some (Num b)) \<Rightarrow> Some (Num (f a b)) | _ \<Rightarrow> None)"

definition cmp2 :: "('a \<Rightarrow> 'a \<Rightarrow> bool) \<Rightarrow> 'a rtval option \<Rightarrow> 'a rtval option
    \<Rightarrow> 'a rtval option" where
  "cmp2 f x y =
     (case (x, y) of (Some (Num a), Some (Num b)) \<Rightarrow> Some (Cond (f a b)) | _ \<Rightarrow> None)"

definition select3 :: "'a rtval option \<Rightarrow> 'a rtval option \<Rightarrow> 'a rtval option
    \<Rightarrow> 'a rtval option" where
  "select3 c x y =
     (case (c, x, y) of
        (Some (Cond b), Some u, Some v) \<Rightarrow> Some (if b then u else v)
      | _ \<Rightarrow> None)"

fun eval :: "'a runtime \<Rightarrow> llvalue \<Rightarrow> 'a rtval option" where
  "eval rt (Load_value s d c t) = Some (Num (rt_load rt s d c t))"
| "eval rt (Constant_float f) = Some (Num (rt_float rt f))"
| "eval rt (Constant_int n) = Some (Num (rt_int rt n))"
| "eval rt (Op_add x y) = num2 (rt_add rt) (eval rt x) (eval rt y)"
| "eval rt (Op_sub x y) = num2 (rt_sub rt) (eval rt x) (eval rt y)"
| "eval rt (Op_mul x y) = num2 (rt_mul rt) (eval rt x) (eval rt y)"
| "eval rt (Op_div x y) = num2 (rt_div rt) (eval rt x) (eval rt y)"
| "eval rt (Op_le x y) = cmp2 (rt_le rt) (eval rt x) (eval rt y)"
| "eval rt (Op_gt x y) = cmp2 (rt_gt rt) (eval rt x) (eval rt y)"
| "eval rt (Op_ne x y) = cmp2 (rt_ne rt) (eval rt x) (eval rt y)"
| "eval rt (Op_select c x y) = select3 (eval rt c) (eval rt x) (eval rt y)"
| "eval rt (Call_function f [x, y]) =
     (if f = ''osl_safe_div_fff'' \<or> f = ''osl_safe_div_iii''
      then num2 (safe_div rt) (eval rt x) (eval rt y) else None)"
| "eval rt _ = None"

section \<open>Shader instances (instance.cpp)\<close>

subsection \<open>Masters, overrides, instances\<close>

text \<open>
  The per-parameter override record kept by an instance before it has its own symbols.
  A fresh record has the value source \<open>DefaultVal\<close>, no flags, array length 0 and
  offset 0.
\<close>

record SymOverrideInfo =
  so_valuesource :: ValueSource
  so_connected_down :: bool
  so_interpolated :: bool
  so_interactive :: bool
  so_arraylen :: int
  so_dataoffset :: int

definition default_override :: SymOverrideInfo where
  "default_override = \<lparr>so_valuesource = DefaultVal, so_connected_down = False,
     so_interpolated = False, so_interactive = False, so_arraylen = 0, so_dataoffset = 0\<rparr>"

record ConnectedParam =
  con_param :: int
  con_arrayindex :: int
  con_channel :: int
  con_type :: typespec

record Connection =
  srclayer :: int
  src :: ConnectedParam
  dst :: ConnectedParam

text \<open>
  A master is shared by its instances, which compare it by address; \<open>master_address\<close>
  is that identity.
\<close>

record ShaderMaster =
  master_address :: nat
  m_symbols :: "symbol list"
  m_idefaults :: "32 word list"
  m_fdefaults :: "32 word list"
  m_sdefaults :: "ustring list"

record ShaderInstance =
  m_master :: ShaderMaster
  m_instsymbols :: "symbol list"
  m_instops :: "opcode list"
  m_instargs :: "int list"
  m_instoverrides :: "SymOverrideInfo list"
  m_iparams :: "32 word list"
  m_fparams :: "32 word list"
  m_sparams :: "ustring list"
  m_connections :: "Connection list"
  m_renderer_outputs :: bool
  m_run_lazily :: bool
  m_userdata_params :: bool
  m_firstparam :: int
  m_lastparam :: int
  m_maincodebegin :: int
  m_maincodeend :: int
  m_Psym :: int
  m_Nsym :: int

text \<open>
  What the instance code reads of the shading system: two options, and the functions
  declared outside the source files, taken as they come: the relaxed type check, the
  equivalence of two override records and of two opcodes, and the conversions between
  \<^verbatim>\<open>int\<close> and \<^verbatim>\<open>float\<close>.
\<close>

record ShadingSystem =
  relaxed_param_typecheck :: bool
  m_opt_merge_instances_with_userdata :: bool
  relaxed_equivalent :: "typespec \<Rightarrow> typedesc \<Rightarrow> bool"
  equivalent_override :: "SymOverrideInfo \<Rightarrow> SymOverrideInfo \<Rightarrow> bool"
  equivalent_opcode :: "opcode \<Rightarrow> opcode \<Rightarrow> bool"
  float_of_int :: "c_int \<Rightarrow> float_bits"
  int_of_float :: "float_bits \<Rightarrow> c_int"

record ParamHints =
  hint_interpolated :: bool
  hint_interactive :: bool

record ParamValue =
  pv_name :: ustring
  pv_type :: typedesc
  pv_data :: value_data

text \<open>
  In this part \<open>None\<close> stands for a run the model does not follow: an \<^verbatim>\<open>OSL_ASSERT\<close>
  that fails, a null pointer followed, an access outside a vector, or bytes of one kind
  read as another.
\<close>

definition symbol :: "ShaderInstance \<Rightarrow> int \<Rightarrow> symbol option" where
  "symbol inst index =
     (if 0 \<le> index \<and> index < int (length (m_instsymbols inst))
      then Some (m_instsymbols inst ! nat index) else None)"

definition master_symbol :: "ShaderMaster \<Rightarrow> int \<Rightarrow> symbol option" where
  "master_symbol m index =
     (if 0 \<le> index \<and> index < int (length (m_symbols m))
      then Some (m_symbols m ! nat index) else None)"

definition mastersymbol :: "ShaderInstance \<Rightarrow> int \<Rightarrow> symbol option" where
  "mastersymbol inst index = master_symbol (m_master inst) index"

definition instoverride :: "ShaderInstance \<Rightarrow> int \<Rightarrow> SymOverrideInfo option" where
  "instoverride inst index =
     (if 0 \<le> index \<and> index < int (length (m_instoverrides inst))
      then Some (m_instoverrides inst ! nat index) else None)"

subsection \<open>Parameter storage\<close>

text \<open>A pointer into one of the three pools, by element offset, or the null pointer.\<close>

datatype storage_ptr = Int_ptr int | Float_ptr int | String_ptr int | Null_ptr

definition pool_ptr :: "typedesc \<Rightarrow> int \<Rightarrow> storage_ptr" where
  "pool_ptr t offset =
     (if basetype t = INT32 then Int_ptr offset
      else if basetype t = FLOAT then Float_ptr offset
      else if basetype t = STRING then String_ptr offset
      else Null_ptr)"

definition param_storage :: "ShaderInstance \<Rightarrow> int \<Rightarrow> storage_ptr option" where
  "param_storage inst index =
     do {
       s \<leftarrow> (if m_instsymbols inst \<noteq> [] then symbol inst index else mastersymbol inst index);
       offset \<leftarrow>
         (if m_instoverrides inst \<noteq> [] then
            do {
              so \<leftarrow> instoverride inst index;
              Some (if so_arraylen so \<noteq> 0 then so_dataoffset so else dataoffset s)
            }
          else Some (dataoffset s));
       Some (pool_ptr (simpletype (typespec s)) offset)
     }"

text \<open>
  Modelled from the spec: \<^verbatim>\<open>ShaderMaster::param_default_storage\<close> is not among the
  source files; it points at the parameter's default in the master's pool of its base
  type, at the symbol's data offset.
\<close>

definition param_default_storage :: "ShaderMaster \<Rightarrow> int \<Rightarrow> storage_ptr option" where
  "param_default_storage m index =
     do {
       s \<leftarrow> master_symbol m index;
       Some (pool_ptr (simpletype (typespec s)) (dataoffset s))
     }"

text \<open>
  The first \<open>nbytes\<close> bytes behind a buffer, as cells: 4 bytes to a word, 8 to a
  string.
\<close>

definition cells_of :: "nat \<Rightarrow> value_data \<Rightarrow> value_data option" where
  "cells_of nbytes v =
     (case v of
        Words ws \<Rightarrow> if nbytes mod 4 = 0 \<and> nbytes div 4 \<le> length ws
                    then Some (Words (take (nbytes div 4) ws)) else None
      | Ustrings us \<Rightarrow> if nbytes mod 8 = 0 \<and> nbytes div 8 \<le> length us
                       then Some (Ustrings (take (nbytes div 8) us)) else None)"

text \<open>
  \<^verbatim>\<open>memcmp(...) == 0\<close> on two buffers of the same kind of cells; two buffers of no
  bytes compare equal whatever their kind.
\<close>

definition same_bytes :: "value_data \<Rightarrow> value_data \<Rightarrow> bool option" where
  "same_bytes u v =
     (case (u, v) of
        (Words a, Words b) \<Rightarrow> Some (a = b)
      | (Ustrings a, Ustrings b) \<Rightarrow> Some (a = b)
      | (Words a, Ustrings b) \<Rightarrow> if a = [] \<and> b = [] then Some True else None
      | (Ustrings a, Words b) \<Rightarrow> if a = [] \<and> b = [] then Some True else None)"

definition slice :: "'a list \<Rightarrow> int \<Rightarrow> 'a list option" where
  "slice pool offset = (if 0 \<le> offset \<and> offset \<le> int (length pool)
                        then Some (drop (nat offset) pool) else None)"

text \<open>
  Reading \<open>nbytes\<close> bytes through a pointer into pools \<open>ip\<close>, \<open>fp\<close>, \<open>sp\<close>.
  Through the null pointer (the storage of a parameter that is no \<^verbatim>\<open>int\<close>,
  \<^verbatim>\<open>float\<close> or string, such as the placeholder of a structure) no bytes can be read,
  and only that.
\<close>

definition read_storage :: "32 word list \<Rightarrow> 32 word list \<Rightarrow> ustring list \<Rightarrow> storage_ptr
    \<Rightarrow> nat \<Rightarrow> value_data option" where
  "read_storage ip fp sp ptr nbytes =
     (case ptr of
        Int_ptr offset \<Rightarrow> slice ip offset \<bind> (\<lambda>ws. cells_of nbytes (Words ws))
      | Float_ptr offset \<Rightarrow> slice fp offset \<bind> (\<lambda>ws. cells_of nbytes (Words ws))
      | String_ptr offset \<Rightarrow> slice sp offset \<bind> (\<lambda>us. cells_of nbytes (Ustrings us))
      | Null_ptr \<Rightarrow> if nbytes = 0 then Some (Words []) else None)"

definition overwrite :: "'a list \<Rightarrow> int \<Rightarrow> 'a list \<Rightarrow> 'a list option" where
  "overwrite pool offset xs =
     (if 0 \<le> offset \<and> nat offset + length xs \<le> length pool
      then Some (take (nat offset) pool @ xs @ drop (nat offset + length xs) pool)
      else None)"

text \<open>
  \<^verbatim>\<open>memcpy\<close> of cells into an instance's pool through a pointer; through the null
  pointer only no cells.
\<close>

definition write_storage :: "ShaderInstance \<Rightarrow> storage_ptr \<Rightarrow> value_data
    \<Rightarrow> ShaderInstance option" where
  "write_storage inst ptr v =
     (case (ptr, v) of
        (Int_ptr offset, Words ws) \<Rightarrow>
          map_option (\<lambda>p. inst\<lparr>m_iparams := p\<rparr>) (overwrite (m_iparams inst) offset ws)
      | (Float_ptr offset, Words ws) \<Rightarrow>
          map_option (\<lambda>p. inst\<lparr>m_fparams := p\<rparr>) (overwrite (m_fparams inst) offset ws)
      | (String_ptr offset, Ustrings us) \<Rightarrow>
          map_option (\<lambda>p. inst\<lparr>m_sparams := p\<rparr>) (overwrite (m_sparams inst) offset us)
      | (Null_ptr, Words ws) \<Rightarrow> if ws = [] then Some inst else None
      | (Null_ptr, Ustrings us) \<Rightarrow> if us = [] then Some inst else None
      | _ \<Rightarrow> None)"

definition inst_read :: "ShaderInstance \<Rightarrow> storage_ptr \<Rightarrow> nat \<Rightarrow> value_data option" where
  "inst_read inst ptr nbytes =
     read_storage (m_iparams inst) (m_fparams inst) (m_sparams inst) ptr nbytes"

definition master_read :: "ShaderMaster \<Rightarrow> storage_ptr \<Rightarrow> nat \<Rightarrow> value_data option" where
  "master_read m ptr nbytes =
     read_storage (m_idefaults m) (m_fdefaults m) (m_sdefaults m) ptr nbytes"

subsection \<open>findparam\<close>

fun findparam_in :: "symbol list \<Rightarrow> ustring \<Rightarrow> int list \<Rightarrow> int option" where
  "findparam_in syms nm [] = Some (- 1)"
| "findparam_in syms nm (i # rest) =
     (if 0 \<le> i \<and> i < int (length syms) then
        (if name (syms ! nat i) = nm then Some i else findparam_in syms nm rest)
      else None)"

definition findparam :: "ShaderInstance \<Rightarrow> ustring \<Rightarrow> bool \<Rightarrow> int option" where
  "findparam inst nm search_master =
     do {
       r \<leftarrow> (if m_instsymbols inst \<noteq> []
              then findparam_in (m_instsymbols inst) nm [m_firstparam inst..m_lastparam inst - 1]
              else Some (- 1));
       if r \<ge> 0 then Some r
       else if search_master
       then findparam_in (m_symbols (m_master inst)) nm
              [m_firstparam inst..m_lastparam inst - 1]
       else Some (- 1)
     }"

subsection \<open>parameters\<close>

text \<open>\<^verbatim>\<open>TypeDesc == BASETYPE\<close>: a scalar of that base type, not an array.\<close>

definition is_basetype :: "typedesc \<Rightarrow> BASETYPE \<Rightarrow> bool" where
  "is_basetype t b \<longleftrightarrow> basetype t = b \<and> aggregate t = 1 \<and> arraylen t = 0"

definition is_vec3 :: "typedesc \<Rightarrow> bool" where
  "is_vec3 t \<longleftrightarrow> aggregate t = 3 \<and> basetype t = FLOAT \<and> arraylen t = 0"

definition compatible_param :: "typedesc \<Rightarrow> typedesc \<Rightarrow> bool" where
  "compatible_param a b \<longleftrightarrow> equivalent a b \<or> (is_vec3 a \<and> is_basetype b FLOAT)"

definition first_word :: "value_data \<Rightarrow> 32 word option" where
  "first_word v = (case v of Words (w # ws) \<Rightarrow> Some w | _ \<Rightarrow> None)"

text \<open>\<^verbatim>\<open>expand\<close> appends default elements to a pool.\<close>

definition expand :: "'a list \<Rightarrow> 'a \<Rightarrow> int \<Rightarrow> 'a list option" where
  "expand pool dflt n = (if n < 0 then None else Some (pool @ replicate (nat n) dflt))"

definition resize_overrides :: "nat \<Rightarrow> SymOverrideInfo list \<Rightarrow> SymOverrideInfo list" where
  "resize_overrides n xs = take n xs @ replicate (n - length xs) default_override"

text \<open>
  The type check of a supplied value against the master's parameter \<open>sm\<close>: rejected
  with a message, or accepted with the data and type to bind (in the relaxed mode one
  \<^verbatim>\<open>int\<close> is first converted to a \<^verbatim>\<open>float\<close>, with an error when the value does
  not survive the round trip).
\<close>

datatype typecheck = Rejected "diagnostic list" | Accepted value_data typedesc "diagnostic list"

definition relaxed_convert :: "ShadingSystem \<Rightarrow> symbol \<Rightarrow> typedesc \<Rightarrow> typedesc \<Rightarrow> value_data
    \<Rightarrow> (value_data \<times> typedesc \<times> diagnostic list) option" where
  "relaxed_convert ss sm paramtype valuetype dat =
     (if (is_basetype paramtype FLOAT \<or> is_vec3 paramtype)
         \<and> basetype valuetype = INT32 \<and> basevalues valuetype = 1
      then
        do {
          val \<leftarrow> first_word dat;
          let conv = float_of_int ss val;
          Some (Words [conv], TypeFloat,
                if val \<noteq> int_of_float ss conv
                then [Errorfmt
                   ''attempting to set parameter from wrong type would change the value: {} (set {:.9g} from {})''
                   [Arg_string (name sm), Arg_float conv, Arg_int (sint val)]]
                else [])
        }
      else Some (dat, valuetype, []))"

definition typecheck_value :: "ShadingSystem \<Rightarrow> symbol \<Rightarrow> ParamValue \<Rightarrow> typecheck option" where
  "typecheck_value ss sm p =
     (let sm_typespec = typespec sm; paramtype = simpletype sm_typespec in
      if relaxed_param_typecheck ss then
        do {
          (dat, valuetype, errs) \<leftarrow> relaxed_convert ss sm paramtype (pv_type p) (pv_data p);
          if \<not> relaxed_equivalent ss sm_typespec valuetype then
            Some (Rejected (errs @ [Errorfmt
              ''attempting to set parameter from incompatible type: {} (expected '{}', received '{}')''
              [Arg_string (name sm), Arg_typedesc paramtype, Arg_typedesc valuetype]]))
          else Some (Accepted dat valuetype errs)
        }
      else if \<not> compatible_param paramtype (pv_type p) then
        Some (Rejected [Warningfmt
          ''attempting to set parameter with wrong type: {} (expected '{}', received '{}')''
          [Arg_string (name sm), Arg_typedesc paramtype, Arg_typedesc (pv_type p)]])
      else Some (Accepted (pv_data p) (pv_type p) []))"

text \<open>A single float given to a triple is replicated into its three components.\<close>

definition widen_float :: "typedesc \<Rightarrow> typedesc \<Rightarrow> value_data \<Rightarrow> (value_data \<times> typedesc) option" where
  "widen_float paramtype valuetype dat =
     (if is_vec3 paramtype \<and> is_basetype valuetype FLOAT
      then map_option (\<lambda>w. (Words [w, w, w], paramtype)) (first_word dat)
      else Some (dat, valuetype))"

text \<open>
  The allocation for a parameter that is an array of indefinite length: the effective
  length and the new offset go into the override, the pool of the base type grows.
\<close>

definition bind_unsized :: "typedesc \<Rightarrow> typedesc \<Rightarrow> SymOverrideInfo \<Rightarrow> ShaderInstance
    \<Rightarrow> (SymOverrideInfo \<times> ShaderInstance) option" where
  "bind_unsized paramtype valuetype so inst =
     (let nelements = sint (int_of_size (basevalues valuetype)) in
      if aggregate paramtype = 0 then None
      else
        (let so1 = so\<lparr>so_arraylen := c_div nelements (int (aggregate paramtype))\<rparr> in
         if basetype paramtype = FLOAT then
           map_option
             (\<lambda>p. (so1\<lparr>so_dataoffset := sint (int_of_size (length (m_fparams inst)))\<rparr>,
                   inst\<lparr>m_fparams := p\<rparr>))
             (expand (m_fparams inst) 0 nelements)
         else if basetype paramtype = INT32 then
           map_option
             (\<lambda>p. (so1\<lparr>so_dataoffset := sint (int_of_size (length (m_iparams inst)))\<rparr>,
                   inst\<lparr>m_iparams := p\<rparr>))
             (expand (m_iparams inst) 0 nelements)
         else if basetype paramtype = STRING then
           map_option
             (\<lambda>p. (so1\<lparr>so_dataoffset := sint (int_of_size (length (m_sparams inst)))\<rparr>,
                   inst\<lparr>m_sparams := p\<rparr>))
             (expand (m_sparams inst) [] nelements)
         else Some (so1, inst)))"

text \<open>
  The other case: the value source goes back to \<open>DefaultVal\<close> when the parameter is
  neither interpolated nor interactive, has no init ops, and the bytes supplied are those
  of the master's default.
\<close>

definition bind_sized :: "ShaderInstance \<Rightarrow> int \<Rightarrow> symbol \<Rightarrow> bool \<Rightarrow> typedesc \<Rightarrow> value_data
    \<Rightarrow> SymOverrideInfo \<Rightarrow> SymOverrideInfo option" where
  "bind_sized inst i sm lock valuetype dat so =
     do {
       defaultdata \<leftarrow> param_default_storage (m_master inst) i;
       if lock \<and> \<not> has_init_ops sm then
         do {
           d \<leftarrow> master_read (m_master inst) defaultdata (typedesc_size valuetype);
           v \<leftarrow> cells_of (typedesc_size valuetype) dat;
           same \<leftarrow> same_bytes d v;
           Some (if same then so\<lparr>so_valuesource := DefaultVal\<rparr> else so)
         }
       else Some so
     }"

text \<open>The binding of a value whose type has been accepted (from "Mark the override").\<close>

definition bind_value :: "ParamHints list \<Rightarrow> nat \<Rightarrow> int \<Rightarrow> symbol \<Rightarrow> typedesc \<Rightarrow> typedesc
    \<Rightarrow> value_data \<Rightarrow> ShaderInstance \<Rightarrow> ShaderInstance option" where
  "bind_value hints pi i sm paramtype valuetype0 dat0 inst =
     do {
       so0 \<leftarrow> instoverride inst i;
       hint \<leftarrow> (if pi < length hints then Some (hints ! pi) else None);
       let so1 = so0\<lparr>so_valuesource := InstanceVal,
                     so_interpolated := (interpolated sm \<or> hint_interpolated hint),
                     so_interactive := hint_interactive hint,
                     so_dataoffset := dataoffset sm\<rparr>;
       let lock = (\<not> so_interpolated so1 \<and> \<not> so_interactive so1);
       (dat, valuetype) \<leftarrow> widen_float paramtype valuetype0 dat0;
       (so2, inst1) \<leftarrow>
         (if arraylen paramtype < 0 then bind_unsized paramtype valuetype so1 inst
          else map_option (\<lambda>so. (so, inst)) (bind_sized inst i sm lock valuetype dat so1));
       let inst2 = inst1\<lparr>m_instoverrides := (m_instoverrides inst1)[nat i := so2]\<rparr>;
       ptr \<leftarrow> param_storage inst2 i;
       v \<leftarrow> cells_of (typedesc_size valuetype) dat;
       write_storage inst2 ptr v
     }"

text \<open>The body of the loop over the supplied values, for the value at position \<open>pi\<close>.\<close>

definition bind_param :: "ShadingSystem \<Rightarrow> ParamHints list \<Rightarrow> nat \<Rightarrow> ParamValue
    \<Rightarrow> ShaderInstance \<times> diagnostic list \<Rightarrow> (ShaderInstance \<times> diagnostic list) option" where
  "bind_param ss hints pi p st =
     (let (inst, diags) = st in
      if pv_name p = [] then Some (inst, diags)
      else
        do {
          i \<leftarrow> findparam inst (pv_name p) True;
          if i \<ge> 0 then
            do {
              sm \<leftarrow> mastersymbol inst i;
              so \<leftarrow> instoverride inst i;
              if is_closure_based (typespec sm) then
                Some (inst, diags @ [Warningfmt ''skipping assignment of closure: {}''
                                       [Arg_string (name sm)]])
              else if is_structure (typespec sm) then Some (inst, diags)
              else
                do {
                  tc \<leftarrow> typecheck_value ss sm p;
                  (case tc of
                     Rejected errs \<Rightarrow> Some (inst, diags @ errs)
                   | Accepted dat valuetype errs \<Rightarrow>
                       map_option (\<lambda>inst'. (inst', diags @ errs))
                         (bind_value hints pi i sm (simpletype (typespec sm)) valuetype dat inst))
                }
            }
          else
            Some (inst, diags @ [Warningfmt ''attempting to set nonexistent parameter: {}''
                                   [Arg_string (pv_name p)]])
        })"

fun bind_params :: "ShadingSystem \<Rightarrow> ParamHints list \<Rightarrow> nat \<Rightarrow> ParamValue list
    \<Rightarrow> ShaderInstance \<times> diagnostic list \<Rightarrow> (ShaderInstance \<times> diagnostic list) option" where
  "bind_params ss hints pi [] st = Some st"
| "bind_params ss hints pi (p # ps) st =
     (case bind_param ss hints pi p st of
        None \<Rightarrow> None
      | Some st' \<Rightarrow> bind_params ss hints (Suc pi) ps st')"

text \<open>
  Seeding: the pools are the master's defaults; the overrides are resized to the number of
  parameters and take flags and offset from the master's symbols.
\<close>

definition seed_override :: "SymOverrideInfo \<Rightarrow> symbol \<Rightarrow> SymOverrideInfo" where
  "seed_override so s = so\<lparr>so_interpolated := interpolated s,
     so_interactive := interactive s, so_dataoffset := dataoffset s\<rparr>"

definition seed_params :: "ShaderInstance \<Rightarrow> ShaderInstance option" where
  "seed_params inst =
     (let m = m_master inst;
          n = nat (max 0 (m_lastparam inst)) in
      if n \<le> length (m_symbols m) then
        Some (inst\<lparr>m_iparams := m_idefaults m, m_fparams := m_fdefaults m,
                   m_sparams := m_sdefaults m,
                   m_instoverrides :=
                     map2 seed_override (resize_overrides n (m_instoverrides inst))
                       (take n (m_symbols m))\<rparr>)
      else None)"

definition parameters :: "ShadingSystem \<Rightarrow> ShaderInstance \<Rightarrow> ParamValue list \<Rightarrow> ParamHints list
    \<Rightarrow> (ShaderInstance \<times> diagnostic list) option" where
  "parameters ss inst params hints =
     do {
       inst0 \<leftarrow> seed_params inst;
       bind_params ss hints 0 params (inst0, [])
     }"

subsection \<open>mergeable\<close>

text \<open>The comparison of the override records, index by index; \<open>Some True\<close>: none disqualifies.\<close>

fun overrides_mergeable :: "ShadingSystem \<Rightarrow> ShaderInstance \<Rightarrow> ShaderInstance \<Rightarrow> nat list
    \<Rightarrow> bool option" where
  "overrides_mergeable ss a b [] = Some True"
| "overrides_mergeable ss a b (i # rest) =
     (let oa = m_instoverrides a ! i; ob = m_instoverrides b ! i in
      if (so_valuesource oa = DefaultVal \<or> so_valuesource oa = InstanceVal)
         \<and> (so_valuesource ob = DefaultVal \<or> so_valuesource ob = InstanceVal)
      then overrides_mergeable ss a b rest
      else if \<not> equivalent_override ss oa ob then
        (case mastersymbol a (int i) of
           None \<Rightarrow> None
         | Some s \<Rightarrow>
             if everused_in_group s then Some False
             else
               (case mastersymbol b (int i) of
                  None \<Rightarrow> None
                | Some bs \<Rightarrow>
                    if everused_in_group bs then Some False
                    else overrides_mergeable ss a b rest))
      else if so_interpolated oa \<noteq> so_interpolated ob
              \<or> so_interactive oa \<noteq> so_interactive ob
      then Some False
      else overrides_mergeable ss a b rest)"

text \<open>\<^verbatim>\<open>memcmp(param_storage(i), b.param_storage(i), size) != 0\<close>.\<close>

definition param_values_differ :: "ShaderInstance \<Rightarrow> ShaderInstance \<Rightarrow> int \<Rightarrow> nat
    \<Rightarrow> bool option" where
  "param_values_differ a b i nbytes =
     do {
       pa \<leftarrow> param_storage a i;
       pb \<leftarrow> param_storage b i;
       va \<leftarrow> inst_read a pa nbytes;
       vb \<leftarrow> inst_read b pb nbytes;
       map_option Not (same_bytes va vb)
     }"

fun params_mergeable :: "ShaderInstance \<Rightarrow> ShaderInstance \<Rightarrow> bool \<Rightarrow> int list \<Rightarrow> bool option" where
  "params_mergeable a b optimized [] = Some True"
| "params_mergeable a b optimized (i # rest) =
     (case (if optimized then symbol a i else mastersymbol a i) of
        None \<Rightarrow> None
      | Some s \<Rightarrow>
          if \<not> everused_in_group s then params_mergeable a b optimized rest
          else if is_closure (typespec s) then params_mergeable a b optimized rest
          else if valuesource s = InstanceVal \<or> valuesource s = DefaultVal then
            (case param_values_differ a b i (typedesc_size (simpletype (typespec s))) of
               None \<Rightarrow> None
             | Some differ \<Rightarrow>
                 if differ then Some False
                 else
                   (case (if optimized then symbol b i else mastersymbol b i) of
                      None \<Rightarrow> None
                    | Some b_sym \<Rightarrow>
                        if interactive b_sym then Some False
                        else params_mergeable a b optimized rest))
          else params_mergeable a b optimized rest)"

text \<open>The equivalence of two symbols for merging.\<close>

definition equivalent_symbol :: "symbol \<Rightarrow> symbol \<Rightarrow> bool option" where
  "equivalent_symbol a b =
     (if \<not> everused a \<and> \<not> everused b then Some True
      else if symtype a \<noteq> symtype b \<or> typespec a \<noteq> typespec b then Some False
      else if symtype a \<noteq> SymTypeTemp \<and> symtype a \<noteq> SymTypeConst \<and> name a \<noteq> name b
      then Some False
      else
        do {
          differ \<leftarrow>
            (if symtype a = SymTypeConst then
               do {
                 va \<leftarrow> cells_of (typedesc_size (simpletype (typespec a))) (data a);
                 vb \<leftarrow> cells_of (typedesc_size (simpletype (typespec a))) (data b);
                 map_option Not (same_bytes va vb)
               }
             else Some False);
          Some (\<not> differ \<and> has_derivs a = has_derivs b \<and> lockgeom a = lockgeom b
                \<and> valuesource a = valuesource b \<and> fieldid a = fieldid b
                \<and> initbegin a = initbegin b \<and> initend a = initend b)
        })"

text \<open>The template for vectors: the same size, and equivalent member by member.\<close>

fun all_equivalent :: "('a \<Rightarrow> 'a \<Rightarrow> bool option) \<Rightarrow> 'a list \<Rightarrow> 'a list \<Rightarrow> bool option" where
  "all_equivalent eq (x # xs) (y # ys) =
     (case eq x y of
        None \<Rightarrow> None
      | Some e \<Rightarrow> if e then all_equivalent eq xs ys else Some False)"
| "all_equivalent eq xs ys = Some True"

definition equivalent_vec :: "('a \<Rightarrow> 'a \<Rightarrow> bool option) \<Rightarrow> 'a list \<Rightarrow> 'a list \<Rightarrow> bool option" where
  "equivalent_vec eq a b = (if length a \<noteq> length b then Some False else all_equivalent eq a b)"

text \<open>What is left to compare once the instances have their own symbols and code.\<close>

definition optimized_mergeable :: "ShadingSystem \<Rightarrow> ShaderInstance \<Rightarrow> ShaderInstance
    \<Rightarrow> bool option" where
  "optimized_mergeable ss a b =
     do {
       syms \<leftarrow> equivalent_vec equivalent_symbol (m_instsymbols a) (m_instsymbols b);
       if \<not> syms then Some False
       else
         do {
           ops \<leftarrow> equivalent_vec (\<lambda>x y. Some (equivalent_opcode ss x y))
                    (m_instops a) (m_instops b);
           if \<not> ops then Some False
           else if m_instargs a \<noteq> m_instargs b then Some False
           else if m_firstparam a \<noteq> m_firstparam b \<or> m_lastparam a \<noteq> m_lastparam b
                   \<or> m_maincodebegin a \<noteq> m_maincodebegin b
                   \<or> m_maincodeend a \<noteq> m_maincodeend b
                   \<or> m_Psym a \<noteq> m_Psym b \<or> m_Nsym a \<noteq> m_Nsym b
           then Some False
           else Some True
         }
     }"

definition mergeable :: "ShadingSystem \<Rightarrow> ShaderInstance \<Rightarrow> ShaderInstance \<Rightarrow> bool option" where
  "mergeable ss a b =
     (if master_address (m_master a) \<noteq> master_address (m_master b) then Some False
      else if m_renderer_outputs a \<or> m_renderer_outputs b then Some False
      else
        (let optimized = (m_instsymbols a \<noteq> [] \<or> m_instops a \<noteq> []) in
         do {
           ok1 \<leftarrow>
             (if m_instoverrides a \<noteq> [] \<or> m_instoverrides b \<noteq> [] then
                (if optimized then None
                 else if length (m_instoverrides a) \<noteq> length (m_instoverrides b) then None
                 else overrides_mergeable ss a b [0..<length (m_instoverrides a)])
              else Some True);
           if \<not> ok1 then Some False
           else
             do {
               ok2 \<leftarrow> params_mergeable a b optimized [m_firstparam a..m_lastparam a - 1];
               if \<not> ok2 then Some False
               else if m_run_lazily a \<noteq> m_run_lazily b then Some False
               else if length (m_connections a) \<noteq> length (m_connections b) then Some False
               else if m_connections a \<noteq> m_connections b then Some False
               else if \<not> m_opt_merge_instances_with_userdata ss
                       \<and> (m_userdata_params a \<or> m_userdata_params b)
               then Some False
               else if \<not> optimized then Some True
               else optimized_mergeable ss a b
             }
         }))"

subsection \<open>Pools as cells\<close>

text \<open>The pool of a base type, the cells of two buffers joined, and their number.\<close>

definition pool_of :: "BASETYPE \<Rightarrow> 32 word list \<Rightarrow> 32 word list \<Rightarrow> ustring list \<Rightarrow> value_data option" where
  "pool_of b ip fp sp =
     (if b = INT32 then Some (Words ip) else if b = FLOAT then Some (Words fp)
      else if b = STRING then Some (Ustrings sp) else None)"

definition inst_pool :: "ShaderInstance \<Rightarrow> BASETYPE \<Rightarrow> value_data option" where
  "inst_pool inst b = pool_of b (m_iparams inst) (m_fparams inst) (m_sparams inst)"

definition default_pool :: "ShaderMaster \<Rightarrow> BASETYPE \<Rightarrow> value_data option" where
  "default_pool m b = pool_of b (m_idefaults m) (m_fdefaults m) (m_sdefaults m)"

definition append_cells :: "value_data \<Rightarrow> value_data \<Rightarrow> value_data option" where
  "append_cells u v =
     (case (u, v) of
        (Words a, Words b) \<Rightarrow> Some (Words (a @ b))
      | (Ustrings a, Ustrings b) \<Rightarrow> Some (Ustrings (a @ b))
      | _ \<Rightarrow> None)"

definition count_cells :: "value_data \<Rightarrow> nat" where
  "count_cells v = (case v of Words a \<Rightarrow> length a | Ustrings a \<Rightarrow> length a)"

subsection \<open>Predicates on instances\<close>

text \<open>
  An instance is optimized once it has its own symbols or code.  A parameter is compared
  by \<open>mergeable\<close> when it is referenced in the group, is not a closure and has a
  default or instance value.  An instance is well formed when its override records are
  gone once it is optimized, the equivalences declared outside the source files hold of
  each of its override records and opcodes with itself, every parameter in its range has
  a symbol, every compared parameter has readable storage, and every constant has its
  bytes.
\<close>

definition optimized :: "ShaderInstance \<Rightarrow> bool" where
  "optimized a \<longleftrightarrow> m_instsymbols a \<noteq> [] \<or> m_instops a \<noteq> []"

definition param_symbol :: "ShaderInstance \<Rightarrow> int \<Rightarrow> symbol option" where
  "param_symbol a i = (if optimized a then symbol a i else mastersymbol a i)"

definition is_compared :: "symbol \<Rightarrow> bool" where
  "is_compared s \<longleftrightarrow> everused_in_group s \<and> \<not> is_closure (typespec s)
     \<and> (valuesource s = InstanceVal \<or> valuesource s = DefaultVal)"

definition storage_readable :: "ShaderInstance \<Rightarrow> int \<Rightarrow> symbol \<Rightarrow> bool" where
  "storage_readable a i s \<longleftrightarrow>
     (case param_storage a i of
        None \<Rightarrow> False
      | Some ptr \<Rightarrow> inst_read a ptr (typedesc_size (simpletype (typespec s))) \<noteq> None)"

definition well_formed :: "ShadingSystem \<Rightarrow> ShaderInstance \<Rightarrow> bool" where
  "well_formed ss a \<longleftrightarrow>
     (m_instoverrides a = [] \<or> \<not> optimized a)
     \<and> list_all (\<lambda>so. equivalent_override ss so so) (m_instoverrides a)
     \<and> list_all (\<lambda>i. case param_symbol a i of
                        None \<Rightarrow> False
                      | Some s \<Rightarrow> \<not> is_compared s \<or> storage_readable a i s)
          [m_firstparam a..m_lastparam a - 1]
     \<and> list_all (\<lambda>s. equivalent_symbol s s \<noteq> None) (m_instsymbols a)
     \<and> list_all (\<lambda>x. equivalent_opcode ss x x) (m_instops a)"

text \<open>
  The interactive flag of every override record is that of the master's symbol: no value
  was bound with a hint that says otherwise.
\<close>

definition interactive_as_symbols :: "ShaderInstance \<Rightarrow> bool" where
  "interactive_as_symbols a \<longleftrightarrow>
     list_all (\<lambda>i. case mastersymbol a (int i) of
                      None \<Rightarrow> False
                    | Some s \<Rightarrow> so_interactive (m_instoverrides a ! i) = interactive s)
       [0..<length (m_instoverrides a)]"

definition no_interactive_param :: "ShaderInstance \<Rightarrow> bool" where
  "no_interactive_param a \<longleftrightarrow>
     list_all (\<lambda>i. case param_symbol a i of
                      None \<Rightarrow> True
                    | Some s \<Rightarrow> \<not> (is_compared s \<and> interactive s))
       [m_firstparam a..m_lastparam a - 1]"

text \<open>
  What the binding of a value leaves of an instance: the master, the symbols, the range of
  parameters and the number of override records as they were, and no pool shorter.
\<close>

definition keeps_shape :: "ShaderInstance \<Rightarrow> ShaderInstance \<Rightarrow> bool" where
  "keeps_shape inst inst' \<longleftrightarrow>
     m_master inst' = m_master inst \<and> m_instsymbols inst' = m_instsymbols inst
     \<and> m_firstparam inst' = m_firstparam inst \<and> m_lastparam inst' = m_lastparam inst
     \<and> length (m_instoverrides inst') = length (m_instoverrides inst)
     \<and> length (m_iparams inst) \<le> length (m_iparams inst')
     \<and> length (m_fparams inst) \<le> length (m_fparams inst')
     \<and> length (m_sparams inst) \<le> length (m_sparams inst')"

text \<open>
  Whether a parameter is interactive as the instance has it: by its override record where
  it has one, by its symbol otherwise.
\<close>

definition param_interactive :: "ShaderInstance \<Rightarrow> int \<Rightarrow> symbol \<Rightarrow> bool" where
  "param_interactive a i s =
     (case instoverride a i of None \<Rightarrow> interactive s | Some so \<Rightarrow> so_interactive so)"

definition none_interactive :: "ShaderInstance \<Rightarrow> bool" where
  "none_interactive a \<longleftrightarrow>
     list_all (\<lambda>i. case param_symbol a i of
                      None \<Rightarrow> True
                    | Some s \<Rightarrow> \<not> (is_compared s \<and> param_interactive a i s))
       [m_firstparam a..m_lastparam a - 1]"

text \<open>Two override records, as the loop over them looks at them.\<close>

definition both_default_or_instance :: "SymOverrideInfo \<Rightarrow> SymOverrideInfo \<Rightarrow> bool" where
  "both_default_or_instance oa ob \<longleftrightarrow>
     (so_valuesource oa = DefaultVal \<or> so_valuesource oa = InstanceVal)
     \<and> (so_valuesource ob = DefaultVal \<or> so_valuesource ob = InstanceVal)"

definition flags_differ :: "SymOverrideInfo \<Rightarrow> SymOverrideInfo \<Rightarrow> bool" where
  "flags_differ oa ob \<longleftrightarrow>
     so_interpolated oa \<noteq> so_interpolated ob \<or> so_interactive oa \<noteq> so_interactive ob"

text \<open>An index at which the loop over the override records returns false.\<close>

definition disqualifying :: "ShadingSystem \<Rightarrow> ShaderInstance \<Rightarrow> ShaderInstance \<Rightarrow> nat \<Rightarrow> bool" where
  "disqualifying ss a b i \<longleftrightarrow>
     (let oa = m_instoverrides a ! i; ob = m_instoverrides b ! i in
      \<not> both_default_or_instance oa ob
      \<and> (if equivalent_override ss oa ob then flags_differ oa ob
         else (case (mastersymbol a (int i), mastersymbol b (int i)) of
                 (Some s, Some bs) \<Rightarrow> everused_in_group s \<or> everused_in_group bs
               | _ \<Rightarrow> False)))"

text \<open>
  The loop over the parameter values, as it looks at two instances: it can compare them
  when every parameter in the range has a symbol and every compared one has readable
  storage in both; it rejects them at index \<open>i\<close> when that parameter is compared and its
  values differ or its symbol in the second instance is interactive.
\<close>

definition values_comparable :: "ShaderInstance \<Rightarrow> ShaderInstance \<Rightarrow> bool" where
  "values_comparable a b \<longleftrightarrow>
     list_all (\<lambda>j. case param_symbol a j of
                      None \<Rightarrow> False
                    | Some s \<Rightarrow>
                        \<not> is_compared s
                        \<or> (param_values_differ a b j (typedesc_size (simpletype (typespec s)))
                             \<noteq> None
                           \<and> (if optimized a then symbol b j else mastersymbol b j) \<noteq> None))
       [m_firstparam a..m_lastparam a - 1]"

definition value_check_rejects :: "ShaderInstance \<Rightarrow> ShaderInstance \<Rightarrow> int \<Rightarrow> bool" where
  "value_check_rejects a b i \<longleftrightarrow>
     (case param_symbol a i of
        None \<Rightarrow> False
      | Some s \<Rightarrow>
          is_compared s
          \<and> (param_values_differ a b i (typedesc_size (simpletype (typespec s))) = Some True
             \<or> (case (if optimized a then symbol b i else mastersymbol b i) of
                   None \<Rightarrow> False
                 | Some b_sym \<Rightarrow> interactive b_sym)))"

section \<open>Concrete inputs\<close>

text \<open>A small dictionary: the placeholder node and one node with an attribute.\<close>

definition ex_dict :: Dictionary where
  "ex_dict = \<lparr>m_cache = Map.empty,
     m_nodes = [\<lparr>document = 0, node = \<lparr>node_value = [], node_attributes = []\<rparr>, next = 0\<rparr>,
                \<lparr>document = 0, node = \<lparr>node_value = ''7'', node_attributes = [(''a'', ''5'')]\<rparr>,
                 next = 0\<rparr>],
     m_floatdata = [], m_intdata = [], m_stringdata = []\<rparr>"

definition ex_strutil :: strutil where
  "ex_strutil = \<lparr>parse_int = (\<lambda>s. (0, s)), parse_float = (\<lambda>s. (0, s)),
     parse_char = (\<lambda>s c. s), ustring_hash = (\<lambda>s. 0)\<rparr>"

definition ex_buffer :: data_buffer where
  "ex_buffer = (\<lambda>i. Unwritten)"

text \<open>
  An instance with float symbols \<open>r\<close> and \<open>a\<close> (with derivatives), \<open>b\<close> and \<open>e\<close>
  (without), the constant \<open>k = 2.0\<close>, a closure \<open>Ci\<close>, the string constant
  \<open>nosuch\<close>, the matrices \<open>M\<close> (with derivatives) and \<open>N\<close> (without), and one
  opcode of each kind; every load succeeds and no closure is registered.
\<close>

definition float_spec :: typespec where
  "float_spec = \<lparr>m_simple = TypeFloat, m_structure = 0, m_closure = False\<rparr>"

definition string_spec :: typespec where
  "string_spec = \<lparr>m_simple = TypeString, m_structure = 0, m_closure = False\<rparr>"

definition matrix_spec :: typespec where
  "matrix_spec = \<lparr>m_simple = TypeMatrix, m_structure = 0, m_closure = False\<rparr>"

definition closure_spec :: typespec where
  "closure_spec = \<lparr>m_simple = \<lparr>basetype = PTR, aggregate = 1, vecsemantics = NOSEMANTICS,
     arraylen = 0\<rparr>, m_structure = 0, m_closure = True\<rparr>"

definition ex_symbol :: "string \<Rightarrow> typespec \<Rightarrow> SymType \<Rightarrow> bool \<Rightarrow> value_data \<Rightarrow> symbol" where
  "ex_symbol nm ts sty dv dat = \<lparr>name = nm, unmangled = nm, typespec = ts, symtype = sty,
     has_derivs = dv, valuesource = DefaultVal, interpolated = False, interactive = False,
     lockgeom = True, dataoffset = 0, everused = True, everused_in_group = True,
     fieldid = - 1, initbegin = 0, initend = 0, data = dat\<rparr>"

definition ex_op :: "string \<Rightarrow> nat list \<Rightarrow> opcode" where
  "ex_op nm as = \<lparr>opname = nm, opargs = as, sourcefile = ''test.osl'', sourceline = 12\<rparr>"

definition ex_rop :: BackendLLVM where
  "ex_rop = \<lparr>inst_symbols =
       [ex_symbol ''r'' float_spec SymTypeLocal True (Words [0]),
        ex_symbol ''a'' float_spec SymTypeLocal True (Words [0]),
        ex_symbol ''b'' float_spec SymTypeLocal False (Words [0]),
        ex_symbol ''k'' float_spec SymTypeConst False (Words [0x40000000]),
        ex_symbol ''e'' float_spec SymTypeLocal False (Words [0]),
        ex_symbol ''Ci'' closure_spec SymTypeGlobal False (Words []),
        ex_symbol ''$const1'' string_spec SymTypeConst False (Ustrings [''nosuch'']),
        ex_symbol ''M'' matrix_spec SymTypeLocal True (Words []),
        ex_symbol ''N'' matrix_spec SymTypeLocal False (Words [])],
     inst_ops =
       [ex_op ''mul'' [0, 1, 2], ex_op ''add'' [0, 4, 2], ex_op ''sub'' [0, 4, 2],
        ex_op ''mul'' [0, 4, 2], ex_op ''div'' [0, 4, 2], ex_op ''div'' [0, 1, 3],
        ex_op ''div'' [0, 1, 2], ex_op ''min'' [0, 1, 2], ex_op ''closure'' [5, 6],
        ex_op ''mul'' [7, 8, 4], ex_op ''div'' [7, 8, 3], ex_op ''div'' [7, 8, 8]],
     load_null = (\<lambda>s d c. False),
     is_zero = (\<lambda>s. data s = Words [0]),
     find_closure = Map.empty,
     renderer = 0, shadername = ''test'', layer = 0, layername = ''layer1'',
     group_name = ''group1''\<rparr>"

definition ex_st :: gen_state where
  "ex_st = \<lparr>emitted = [], diagnostics = [], nblocks = 0\<rparr>"

definition no_stores :: "channel \<Rightarrow> content" where
  "no_stores = (\<lambda>ch. Untouched)"

text \<open>A runtime over the integers, for evaluating emitted values.\<close>

definition ex_rt :: "int runtime" where
  "ex_rt = \<lparr>rt_load = (\<lambda>s d c t. 12 div int s), rt_float = (\<lambda>f. 1), rt_int = (\<lambda>n. n),
     rt_add = (+), rt_sub = (-), rt_mul = (*), rt_div = (div),
     rt_le = (\<le>), rt_gt = (>), rt_ne = (\<noteq>), rt_is_zero = (\<lambda>x. x = 0), rt_zero = 0\<rparr>"

text \<open>The same runtime with every load giving 4, so that both operands are equal.\<close>

definition ex_rt_equal :: "int runtime" where
  "ex_rt_equal = ex_rt\<lparr>rt_load := (\<lambda>s d c t. 4)\<rparr>"

text \<open>
  A master with the float parameter \<open>Kd\<close> (default 0.8) and the float array
  \<open>knots\<close> of indefinite length, a fresh instance of it, and values to bind.
\<close>

definition float_array_spec :: typespec where
  "float_array_spec = \<lparr>m_simple = \<lparr>basetype = FLOAT, aggregate = 1,
     vecsemantics = NOSEMANTICS, arraylen = - 1\<rparr>, m_structure = 0, m_closure = False\<rparr>"

definition ex_param :: "string \<Rightarrow> typespec \<Rightarrow> int \<Rightarrow> symbol" where
  "ex_param nm ts off = \<lparr>name = nm, unmangled = nm, typespec = ts, symtype = SymTypeParam,
     has_derivs = False, valuesource = DefaultVal, interpolated = False, interactive = False,
     lockgeom = True, dataoffset = off, everused = True, everused_in_group = True,
     fieldid = - 1, initbegin = 0, initend = 0, data = Words []\<rparr>"

definition ex_master :: ShaderMaster where
  "ex_master = \<lparr>master_address = 1,
     m_symbols = [ex_param ''Kd'' float_spec 0, ex_param ''knots'' float_array_spec 1],
     m_idefaults = [], m_fdefaults = [0x3F4CCCCD, 0], m_sdefaults = []\<rparr>"

definition ex_inst :: ShaderInstance where
  "ex_inst = \<lparr>m_master = ex_master, m_instsymbols = [], m_instops = [], m_instargs = [],
     m_instoverrides = [], m_iparams = [], m_fparams = [], m_sparams = [],
     m_connections = [], m_renderer_outputs = False, m_run_lazily = False,
     m_userdata_params = False, m_firstparam = 0, m_lastparam = 2, m_maincodebegin = 0,
     m_maincodeend = 0, m_Psym = - 1, m_Nsym = - 1\<rparr>"

definition ex_ss :: ShadingSystem where
  "ex_ss = \<lparr>relaxed_param_typecheck = False, m_opt_merge_instances_with_userdata = True,
     relaxed_equivalent = (\<lambda>a b. False),
     equivalent_override = (\<lambda>a b. so_valuesource a = so_valuesource b
                                  \<and> so_arraylen a = so_arraylen b),
     equivalent_opcode = (=), float_of_int = (\<lambda>w. 0), int_of_float = (\<lambda>w. 0)\<rparr>"

definition ex_Kd :: ParamValue where
  "ex_Kd = \<lparr>pv_name = ''Kd'', pv_type = TypeFloat, pv_data = Words [0x3F4CCCCD]\<rparr>"

definition ex_knots :: ParamValue where
  "ex_knots = \<lparr>pv_name = ''knots'', pv_type = \<lparr>basetype = FLOAT, aggregate = 1,
     vecsemantics = NOSEMANTICS, arraylen = 3\<rparr>, pv_data = Words [1, 2, 3]\<rparr>"

definition no_hints :: ParamHints where
  "no_hints = \<lparr>hint_interpolated = False, hint_interactive = False\<rparr>"

definition interactive_hint :: ParamHints where
  "interactive_hint = \<lparr>hint_interpolated = False, hint_interactive = True\<rparr>"

text \<open>
  The instance as \<open>parameters\<close> leaves it when no value is supplied, and variants of
  its first override record; a master none of whose parameters is referenced in the group.
\<close>

definition ex_override :: "ValueSource \<Rightarrow> bool \<Rightarrow> bool \<Rightarrow> int \<Rightarrow> int \<Rightarrow> SymOverrideInfo" where
  "ex_override vs ip ia alen off = \<lparr>so_valuesource = vs, so_connected_down = False,
     so_interpolated = ip, so_interactive = ia, so_arraylen = alen, so_dataoffset = off\<rparr>"

definition ex_unset :: ShaderInstance where
  "ex_unset = ex_inst\<lparr>m_fparams := [0x3F4CCCCD, 0],
     m_instoverrides := [ex_override DefaultVal False False 0 0,
                         ex_override DefaultVal False False 0 1]\<rparr>"

definition ex_first :: "SymOverrideInfo \<Rightarrow> ShaderInstance" where
  "ex_first so = ex_unset\<lparr>m_instoverrides := [so, ex_override DefaultVal False False 0 1]\<rparr>"

definition ex_master_dead :: ShaderMaster where
  "ex_master_dead = ex_master\<lparr>m_symbols :=
     [(ex_param ''Kd'' float_spec 0)\<lparr>everused_in_group := False\<rparr>,
      (ex_param ''knots'' float_array_spec 1)\<lparr>everused_in_group := False\<rparr>]\<rparr>"

definition ex_dead :: "SymOverrideInfo \<Rightarrow> ShaderInstance" where
  "ex_dead so = (ex_first so)\<lparr>m_master := ex_master_dead\<rparr>"

text \<open>
  The instance after \<open>knots\<close> is bound to three floats, after \<open>Kd\<close> is bound to 0.8
  with the interactive hint, with a renderer output, and over the unreferenced master with
  its first parameter connected.
\<close>

definition ex_bound :: ShaderInstance where
  "ex_bound = ex_unset\<lparr>m_fparams := [0x3F4CCCCD, 0, 1, 2, 3],
     m_instoverrides := [ex_override DefaultVal False False 0 0,
                         ex_override InstanceVal False False 3 2]\<rparr>"

definition ex_interactive :: ShaderInstance where
  "ex_interactive = ex_first (ex_override InstanceVal False True 0 0)"

definition ex_output :: ShaderInstance where
  "ex_output = ex_unset\<lparr>m_renderer_outputs := True\<rparr>"

definition ex_connected :: "bool \<Rightarrow> ShaderInstance" where
  "ex_connected ip = ex_dead (ex_override ConnectedVal ip False 0 0)"

text \<open>
  A master with two float arrays of indefinite length, a fresh instance of it, a second
  array value, and the instance as it is seeded, after \<open>knots\<close> is bound, and after
  \<open>w\<close> is bound too.
\<close>

definition ex_arrays_master :: ShaderMaster where
  "ex_arrays_master = \<lparr>master_address = 2,
     m_symbols = [ex_param ''knots'' float_array_spec 0, ex_param ''w'' float_array_spec 1],
     m_idefaults = [], m_fdefaults = [0, 0], m_sdefaults = []\<rparr>"

definition ex_arrays :: ShaderInstance where
  "ex_arrays = ex_inst\<lparr>m_master := ex_arrays_master\<rparr>"

definition ex_w :: ParamValue where
  "ex_w = \<lparr>pv_name = ''w'', pv_type = \<lparr>basetype = FLOAT, aggregate = 1,
     vecsemantics = NOSEMANTICS, arraylen = 2\<rparr>, pv_data = Words [4, 5]\<rparr>"

definition ex_arrays_seeded :: ShaderInstance where
  "ex_arrays_seeded = ex_arrays\<lparr>m_fparams := [0, 0],
     m_instoverrides := [ex_override DefaultVal False False 0 0,
                         ex_override DefaultVal False False 0 1]\<rparr>"

definition ex_arrays_one :: ShaderInstance where
  "ex_arrays_one = ex_arrays\<lparr>m_fparams := [0, 0, 1, 2, 3],
     m_instoverrides := [ex_override InstanceVal False False 3 2,
                         ex_override DefaultVal False False 0 1]\<rparr>"

definition ex_arrays_bound :: ShaderInstance where
  "ex_arrays_bound = ex_arrays\<lparr>m_fparams := [0, 0, 1, 2, 3, 4, 5],
     m_instoverrides := [ex_override InstanceVal False False 3 2,
                         ex_override InstanceVal False False 2 5]\<rparr>"

text \<open>The instance after \<open>knots\<close> is bound with the interactive hint.\<close>

definition ex_bound_interactive :: ShaderInstance where
  "ex_bound_interactive = ex_bound\<lparr>m_instoverrides :=
     [ex_override DefaultVal False False 0 0, ex_override InstanceVal False True 3 2]\<rparr>"

text \<open>
  An instance whose second parameter is the placeholder of a structure; one whose master
  declares \<open>Kd\<close> interactive, as seeded; and one with \<open>Kd\<close> bound to 0.5.
\<close>

definition struct_spec :: typespec where
  "struct_spec = \<lparr>m_simple = \<lparr>basetype = UNKNOWN, aggregate = 1, vecsemantics = NOSEMANTICS,
     arraylen = 0\<rparr>, m_structure = 1, m_closure = False\<rparr>"

definition ex_struct :: ShaderInstance where
  "ex_struct = ex_unset\<lparr>m_master := ex_master\<lparr>m_symbols :=
     [ex_param ''Kd'' float_spec 0, ex_param ''s'' struct_spec 1]\<rparr>\<rparr>"

definition ex_declared :: ShaderInstance where
  "ex_declared = ex_unset\<lparr>m_master := ex_master\<lparr>m_symbols :=
       [(ex_param ''Kd'' float_spec 0)\<lparr>interactive := True\<rparr>,
        ex_param ''knots'' float_array_spec 1]\<rparr>,
     m_instoverrides := [ex_override DefaultVal False True 0 0,
                         ex_override DefaultVal False False 0 1]\<rparr>"

definition ex_userdata :: ShaderInstance where
  "ex_userdata = ex_unset\<lparr>m_userdata_params := True\<rparr>"

definition ex_half :: ShaderInstance where
  "ex_half = (ex_first (ex_override InstanceVal False False 0 0))\<lparr>m_fparams := [0x3F000000, 0]\<rparr>"

section \<open>Verified properties\<close>

subsection \<open>Dictionary: invalid node handles\<close>

lemma sint_int_of_size: "n < 2 ^ 31 \<Longrightarrow> sint (int_of_size n) = int n"
  unfolding int_of_size_def
  by (simp add: signed_of_nat signed_take_bit_int_eq_self)

lemma invalid_node_ID_I:
  assumes "sint nodeID \<le> 0 \<or> int (length (m_nodes d)) \<le> sint nodeID"
  shows "invalid_node_ID d nodeID"
proof (cases "sint nodeID \<le> 0")
  case True
  then show ?thesis by (simp add: invalid_node_ID_def)
next
  case False
  with assms have le: "int (length (m_nodes d)) \<le> sint nodeID" by simp
  have "sint nodeID < 2 ^ 31" using sint_lt [of nodeID] by simp
  with le have "int (length (m_nodes d)) < int (2 ^ 31)" by simp
  then have "length (m_nodes d) < 2 ^ 31" by (simp only: of_nat_less_iff)
  then have "sint (int_of_size (length (m_nodes d))) = int (length (m_nodes d))"
    by (rule sint_int_of_size)
  with le show ?thesis by (simp add: invalid_node_ID_def)
qed

text \<open>
  C10.  For a node handle that is at most 0, or at least the number of cached nodes,
  \<open>dict_next\<close> returns 0 and \<open>dict_value\<close> returns 0 and leaves the caller's buffer
  (and the dictionary) as they were.
\<close>

theorem dict_invalid_node:
  assumes "sint nodeID \<le> 0 \<or> int (length (m_nodes d)) \<le> sint nodeID"
  shows "dict_next d nodeID = 0
       \<and> dict_value su d nodeID attribname type buffer treat_ustrings_as_hash
           = Some (0, buffer, d)"
  using invalid_node_ID_I [OF assms] by (simp add: dict_next_def dict_value_def)

theorem dict_invalid_node_witness:
  "(sint (5 :: c_int) \<le> 0 \<or> int (length (m_nodes ex_dict)) \<le> sint (5 :: c_int))
   \<and> dict_next ex_dict 5 = 0
   \<and> dict_value ex_strutil ex_dict 5 ''a'' TypeFloat ex_buffer True = Some (0, ex_buffer, ex_dict)"
proof -
  have h: "sint (5 :: c_int) \<le> 0 \<or> int (length (m_nodes ex_dict)) \<le> sint (5 :: c_int)"
    by (simp add: ex_dict_def)
  from dict_invalid_node [OF h] h show ?thesis by simp
qed

subsection \<open>Generators: emitted code of a component loop\<close>

lemma for_components_emitted:
  assumes "\<And>i s s'. i \<in> set cs \<Longrightarrow> body i s = Some (True, s') \<Longrightarrow> emitted s' = emitted s @ blk i"
    and "for_components body cs st = Some (True, st')"
  shows "emitted st' = emitted st @ concat (map blk cs)"
  using assms
proof (induction cs arbitrary: st)
  case Nil
  then show ?case by simp
next
  case (Cons c cs)
  from Cons.prems(2) obtain s1 where b: "body c st = Some (True, s1)"
    and r: "for_components body cs s1 = Some (True, st')"
    by (auto split: option.splits prod.splits if_splits)
  have "emitted s1 = emitted st @ blk c" using Cons.prems(1) b by simp
  moreover have "emitted st' = emitted s1 @ concat (map blk cs)"
    using Cons.IH [OF _ r] Cons.prems(1) by simp
  ultimately show ?case by simp
qed

lemma for_components_upt_emitted:
  assumes "\<And>i s s'. i < n \<Longrightarrow> body i s = Some (True, s') \<Longrightarrow> emitted s' = emitted s @ blk i"
    and "for_components body [0..<n] st = Some (True, st')"
  shows "emitted st' = emitted st @ concat (map blk [0..<n])"
  by (rule for_components_emitted [OF _ assms(2)]) (simp add: assms(1))

lemma for_components_never_false:
  assumes "\<And>i s s'. body i s \<noteq> Some (False, s')"
  shows "for_components body cs st \<noteq> Some (False, st')"
proof (induction cs arbitrary: st)
  case Nil
  show ?case by simp
next
  case (Cons c cs)
  show ?case
  proof (cases "body c st")
    case None
    then show ?thesis by simp
  next
    case (Some r)
    obtain ok s1 where r: "r = (ok, s1)" by (cases r)
    with Some assms [of c st s1] have "ok" by (cases ok) auto
    with Some r Cons.IH [of s1] show ?thesis by simp
  qed
qed

lemma channels_after_append:
  "channels_after (xs @ ys) m = channels_after ys (channels_after xs m)"
  by (simp add: channels_after_def)

lemma channels_after_dual_blocks:
  "channels_after (concat (map (dual_block v vx vy R) cs)) m (R, d, i) =
     (if i \<in> set cs \<and> d < 3 then Stored ((if d = 0 then v else if d = 1 then vx else vy) i)
      else m (R, d, i))"
proof (induction cs arbitrary: m)
  case Nil
  then show ?case by (simp add: channels_after_def)
next
  case (Cons c cs)
  have "channels_after (concat (map (dual_block v vx vy R) (c # cs))) m
      = channels_after (concat (map (dual_block v vx vy R) cs))
          (channels_after (dual_block v vx vy R c) m)"
    by (simp add: channels_after_append)
  then show ?case
    by (auto simp: Cons.IH) (auto simp: channels_after_def dual_block_def)
qed

lemma channels_after_value_blocks:
  "channels_after (concat (map (value_block v R) cs)) m (R, d, i) =
     (if i \<in> set cs \<and> d = 0 then Stored (v i) else m (R, d, i))"
proof (induction cs arbitrary: m)
  case Nil
  then show ?case by (simp add: channels_after_def)
next
  case (Cons c cs)
  have "channels_after (concat (map (value_block v R) (c # cs))) m
      = channels_after (concat (map (value_block v R) cs))
          (channels_after (value_block v R c) m)"
    by (simp add: channels_after_append)
  then show ?case
    by (auto simp: Cons.IH) (auto simp: channels_after_def value_block_def)
qed

lemma emitted_store [simp]:
  "emitted (llvm_store_value v s d c st) = emitted st @ [Store_value v s d c]"
  by (simp add: llvm_store_value_def emit_def)

lemma emitted_zero [simp]:
  "emitted (llvm_zero_derivs s st) = emitted st @ [Zero_derivs s]"
  by (simp add: llvm_zero_derivs_def emit_def)

lemma llvm_load_value_Some:
  "llvm_load_value rop s d c t = Some v \<Longrightarrow> v = Load_value s d c t"
  by (simp add: llvm_load_value_def split: if_splits)

text \<open>The definitions a concrete run of a generator unfolds.\<close>

lemmas gen_defs = opcode_at_def opargsym_def symbol_of_def llvm_load_value_def
  llvm_store_value_def loadLLVMValue_def storeLLVMValue_def llvm_zero_derivs_def emit_def
  is_closure_def is_matrix_def is_float_def is_string_def is_float_based_def is_array_def
  is_constant_def simpletype_def TypeFloat_def TypeMatrix_def TypeString_def
  ex_rop_def ex_st_def ex_symbol_def ex_op_def float_spec_def string_spec_def matrix_spec_def
  closure_spec_def Let_def

subsection \<open>mul: the product rule\<close>

lemma mul_component_emitted:
  assumes "has_derivs (symbol_of rop R)"
    and "has_derivs (symbol_of rop A) \<or> has_derivs (symbol_of rop B)"
    and "mul_component rop R A B type i s = Some (True, s')"
  shows "emitted s' = emitted s @ dual_block
           (\<lambda>i. Op_mul (Load_value A 0 i type) (Load_value B 0 i type))
           (\<lambda>i. Op_add (Op_mul (Load_value A 0 i type) (Load_value B 1 i type))
                        (Op_mul (Load_value A 1 i type) (Load_value B 0 i type)))
           (\<lambda>i. Op_add (Op_mul (Load_value A 0 i type) (Load_value B 2 i type))
                        (Op_mul (Load_value A 2 i type) (Load_value B 0 i type))) R i"
  using assms
  by (auto simp: mul_component_def dual_block_def Let_def
      split: option.splits bind_splits dest!: llvm_load_value_Some)

text \<open>
  C1.  A \<open>mul\<close> whose result is neither a closure nor a matrix and has derivatives,
  with derivatives on at least one operand: in every lowering that succeeds, the dx channel
  of each component of the result is left holding \<open>a*bx + ax*b\<close> and the dy channel
  \<open>a*by + ay*b\<close>, where \<open>a, ax, ay\<close> and \<open>b, bx, by\<close> are the loads of the value, dx
  and dy channels of that component of the two operands.
\<close>

theorem mul_product_rule:
  assumes op: "opcode_at rop opnum = Some op"
    and R: "opargsym rop op 0 = Some R"
    and A: "opargsym rop op 1 = Some A"
    and B: "opargsym rop op 2 = Some B"
    and ty: "type = simpletype (typespec (symbol_of rop R))"
    and nc: "\<not> is_closure (typespec (symbol_of rop R))"
    and nm: "\<not> is_matrix (typespec (symbol_of rop R))"
    and dR: "has_derivs (symbol_of rop R)"
    and dAB: "has_derivs (symbol_of rop A) \<or> has_derivs (symbol_of rop B)"
    and gen: "llvm_gen_mul rop opnum st = Some (True, st')"
    and i: "i < aggregate type"
  shows "let a = Load_value A 0 i type; ax = Load_value A 1 i type; ay = Load_value A 2 i type;
             b = Load_value B 0 i type; bx = Load_value B 1 i type; by = Load_value B 2 i type
         in channels_after (emitted st') m (R, 1, i) = Stored (Op_add (Op_mul a bx) (Op_mul ax b))
          \<and> channels_after (emitted st') m (R, 2, i) = Stored (Op_add (Op_mul a by) (Op_mul ay b))"
proof -
  from gen op R A B nc nm dR dAB ty
  have loop: "for_components (mul_component rop R A B type) [0..<aggregate type] st
                = Some (True, st')"
    by (auto simp: llvm_gen_mul_def Let_def split: bind_splits if_splits prod.splits)
  have "emitted st' = emitted st @ concat (map (dual_block
           (\<lambda>i. Op_mul (Load_value A 0 i type) (Load_value B 0 i type))
           (\<lambda>i. Op_add (Op_mul (Load_value A 0 i type) (Load_value B 1 i type))
                        (Op_mul (Load_value A 1 i type) (Load_value B 0 i type)))
           (\<lambda>i. Op_add (Op_mul (Load_value A 0 i type) (Load_value B 2 i type))
                        (Op_mul (Load_value A 2 i type) (Load_value B 0 i type))) R)
           [0..<aggregate type])"
    by (rule for_components_upt_emitted [OF mul_component_emitted [OF dR dAB] loop])
  then show ?thesis
    using i by (simp add: channels_after_append channels_after_dual_blocks Let_def)
qed

lemma ex_mul_run:
  "llvm_gen_mul ex_rop 0 ex_st = Some (True, ex_st\<lparr>emitted :=
     [Store_value (Op_mul (Load_value 1 0 0 TypeFloat) (Load_value 2 0 0 TypeFloat)) 0 0 0,
      Store_value (Op_add (Op_mul (Load_value 1 0 0 TypeFloat) (Load_value 2 1 0 TypeFloat))
                          (Op_mul (Load_value 1 1 0 TypeFloat) (Load_value 2 0 0 TypeFloat))) 0 1 0,
      Store_value (Op_add (Op_mul (Load_value 1 0 0 TypeFloat) (Load_value 2 2 0 TypeFloat))
                          (Op_mul (Load_value 1 2 0 TypeFloat) (Load_value 2 0 0 TypeFloat))) 0 2 0]\<rparr>)"
  by (simp add: llvm_gen_mul_def mul_component_def gen_defs)

theorem mul_product_rule_witness:
  "channels_after (emitted (snd (the (llvm_gen_mul ex_rop 0 ex_st)))) no_stores (0, 1, 0)
     = Stored (Op_add (Op_mul (Load_value 1 0 0 TypeFloat) (Load_value 2 1 0 TypeFloat))
                      (Op_mul (Load_value 1 1 0 TypeFloat) (Load_value 2 0 0 TypeFloat)))
   \<and> channels_after (emitted (snd (the (llvm_gen_mul ex_rop 0 ex_st)))) no_stores (0, 2, 0)
     = Stored (Op_add (Op_mul (Load_value 1 0 0 TypeFloat) (Load_value 2 2 0 TypeFloat))
                      (Op_mul (Load_value 1 2 0 TypeFloat) (Load_value 2 0 0 TypeFloat)))"
proof -
  have op: "opcode_at ex_rop 0 = Some (ex_op ''mul'' [0, 1, 2])"
    by (simp add: opcode_at_def ex_rop_def)
  have R: "opargsym ex_rop (ex_op ''mul'' [0, 1, 2]) 0 = Some 0"
    and A: "opargsym ex_rop (ex_op ''mul'' [0, 1, 2]) 1 = Some 1"
    and B: "opargsym ex_rop (ex_op ''mul'' [0, 1, 2]) 2 = Some 2"
    by (simp_all add: opargsym_def ex_rop_def ex_op_def)
  have ty: "TypeFloat = simpletype (typespec (symbol_of ex_rop 0))"
    and nc: "\<not> is_closure (typespec (symbol_of ex_rop 0))"
    and nm: "\<not> is_matrix (typespec (symbol_of ex_rop 0))"
    and dR: "has_derivs (symbol_of ex_rop 0)"
    and dAB: "has_derivs (symbol_of ex_rop 1) \<or> has_derivs (symbol_of ex_rop 2)"
    and i: "0 < aggregate TypeFloat"
    by (simp_all add: gen_defs)
  from mul_product_rule [OF op R A B ty nc nm dR dAB ex_mul_run i, of no_stores]
  show ?thesis by (simp add: ex_mul_run Let_def)
qed

subsection \<open>add, sub, mul, div: zero-filled derivatives\<close>

lemma zero_derivs_last:
  assumes "st' = llvm_zero_derivs R st1" and "d \<noteq> 0"
  shows "(\<exists>code. emitted st' = code @ [Zero_derivs R])
       \<and> channels_after (emitted st') m (R, d, c) = Zeroed"
  using assms by (simp add: channels_after_def)

lemma addsub_tail_zero:
  assumes "addsub_tail opr rop R A B st = Some (True, st')"
    and "has_derivs (symbol_of rop R)"
    and "\<not> has_derivs (symbol_of rop A)" and "\<not> has_derivs (symbol_of rop B)"
  shows "\<exists>st1. st' = llvm_zero_derivs R st1"
  using assms
  by (auto simp: addsub_tail_def Let_def split: bind_splits if_splits prod.splits)

lemma llvm_gen_add_zero:
  assumes "opcode_at rop opnum = Some op"
    and "opargsym rop op 0 = Some R" and "opargsym rop op 1 = Some A"
    and "opargsym rop op 2 = Some B"
    and "\<not> is_closure (typespec (symbol_of rop R))"
    and "has_derivs (symbol_of rop R)"
    and "\<not> has_derivs (symbol_of rop A)" and "\<not> has_derivs (symbol_of rop B)"
    and "llvm_gen_add rop opnum st = Some (True, st')"
  shows "\<exists>st1. st' = llvm_zero_derivs R st1"
proof -
  from assms have "addsub_tail Op_add rop R A B st = Some (True, st')"
    by (simp add: llvm_gen_add_def)
  then show ?thesis using assms(6-8) by (rule addsub_tail_zero)
qed

lemma llvm_gen_sub_zero:
  assumes "opcode_at rop opnum = Some op"
    and "opargsym rop op 0 = Some R" and "opargsym rop op 1 = Some A"
    and "opargsym rop op 2 = Some B"
    and "has_derivs (symbol_of rop R)"
    and "\<not> has_derivs (symbol_of rop A)" and "\<not> has_derivs (symbol_of rop B)"
    and "llvm_gen_sub rop opnum st = Some (True, st')"
  shows "\<exists>st1. st' = llvm_zero_derivs R st1"
proof -
  from assms have "addsub_tail Op_sub rop R A B st = Some (True, st')"
    by (simp add: llvm_gen_sub_def)
  then show ?thesis using assms(5-7) by (rule addsub_tail_zero)
qed

lemma llvm_gen_mul_zero:
  assumes "opcode_at rop opnum = Some op"
    and "opargsym rop op 0 = Some R" and "opargsym rop op 1 = Some A"
    and "opargsym rop op 2 = Some B"
    and "\<not> is_closure (typespec (symbol_of rop R))"
    and "has_derivs (symbol_of rop R)"
    and "\<not> has_derivs (symbol_of rop A)" and "\<not> has_derivs (symbol_of rop B)"
    and "llvm_gen_mul rop opnum st = Some (True, st')"
  shows "\<exists>st1. st' = llvm_zero_derivs R st1"
proof (cases "is_matrix (typespec (symbol_of rop R))")
  case True
  with assms have "mul_matrix rop R A B st = Some (True, st')"
    by (simp add: llvm_gen_mul_def)
  with assms(6) show ?thesis
    by (auto simp: mul_matrix_def split: bind_splits)
next
  case False
  with assms show ?thesis
    by (auto simp: llvm_gen_mul_def Let_def split: bind_splits if_splits prod.splits)
qed

lemma llvm_gen_div_zero:
  assumes "opcode_at rop opnum = Some op"
    and "opargsym rop op 0 = Some R" and "opargsym rop op 1 = Some A"
    and "opargsym rop op 2 = Some B"
    and "has_derivs (symbol_of rop R)"
    and "\<not> has_derivs (symbol_of rop A)" and "\<not> has_derivs (symbol_of rop B)"
    and "llvm_gen_div rop opnum st = Some (True, st')"
  shows "\<exists>st1. st' = llvm_zero_derivs R st1"
proof (cases "is_matrix (typespec (symbol_of rop R))")
  case True
  with assms have "div_matrix rop R A B st = Some (True, st')"
    by (simp add: llvm_gen_div_def)
  with assms(5) show ?thesis
    by (auto simp: div_matrix_def split: bind_splits)
next
  case False
  with assms show ?thesis
    by (auto simp: llvm_gen_div_def Let_def split: bind_splits if_splits prod.splits)
qed

lemma for_components_True:
  assumes "\<And>i s. i \<in> set cs \<Longrightarrow> \<exists>s'. body i s = Some (True, s')"
  shows "\<exists>st'. for_components body cs st = Some (True, st')"
  using assms
proof (induction cs arbitrary: st)
  case Nil
  show ?case by simp
next
  case (Cons c cs)
  from Cons.prems [of c st] obtain s1 where b: "body c st = Some (True, s1)" by auto
  from Cons.IH [of s1] Cons.prems obtain st' where "for_components body cs s1 = Some (True, st')"
    by auto
  with b show ?case by simp
qed

lemma operand_loads_D:
  assumes "operand_loads rop A B n" and "i < n"
  shows "llvm_load_value rop A 0 i t = Some (Load_value A 0 i t)"
    and "llvm_load_value rop B 0 i t = Some (Load_value B 0 i t)"
  using assms by (simp_all add: operand_loads_def list_all_iff llvm_load_value_def)

lemma addsub_tail_returns:
  assumes ld: "operand_loads rop A B (aggregate (simpletype (typespec (symbol_of rop R))))"
    and dR: "has_derivs (symbol_of rop R)"
    and dA: "\<not> has_derivs (symbol_of rop A)" and dB: "\<not> has_derivs (symbol_of rop B)"
  shows "\<exists>st'. addsub_tail opr rop R A B st = Some (True, st')"
proof -
  let ?type = "simpletype (typespec (symbol_of rop R))"
  have "\<exists>st1. for_components (addsub_value opr rop R A B ?type) [0..<aggregate ?type] st
           = Some (True, st1)"
    by (rule for_components_True)
       (simp add: addsub_value_def loadLLVMValue_def operand_loads_D [OF ld])
  then obtain st1 where "for_components (addsub_value opr rop R A B ?type) [0..<aggregate ?type] st
           = Some (True, st1)" ..
  then show ?thesis using dR dA dB by (simp add: addsub_tail_def Let_def)
qed

lemma mul_loop_returns:
  assumes ld: "operand_loads rop A B n"
    and dA: "\<not> has_derivs (symbol_of rop A)" and dB: "\<not> has_derivs (symbol_of rop B)"
  shows "\<exists>st1. for_components (mul_component rop R A B type) [0..<n] st = Some (True, st1)"
  by (rule for_components_True)
     (simp add: mul_component_def operand_loads_D [OF ld] dA dB Let_def)

lemma div_loop_returns:
  assumes ld: "operand_loads rop A B n"
  shows "\<exists>st1. for_components (div_component rop R A B type sd False) [0..<n] st
           = Some (True, st1)"
  by (rule for_components_True)
     (simp add: div_component_def operand_loads_D [OF ld] Let_def)

lemma float_not_matrix: "is_float t \<Longrightarrow> \<not> is_matrix t"
  by (auto simp: is_float_def is_matrix_def TypeFloat_def TypeMatrix_def)

lemma mul_matrix_returns:
  assumes "matrix_operands rop A B"
  shows "\<exists>st'. mul_matrix rop R A B st = Some (True, st')"
  using assms by (auto simp: matrix_operands_def mul_matrix_def dest: float_not_matrix)

lemma div_matrix_returns:
  assumes "matrix_operands rop A B"
  shows "\<exists>st'. div_matrix rop R A B st = Some (True, st')"
  using assms by (auto simp: matrix_operands_def div_matrix_def dest: float_not_matrix)


text \<open>
  C2.  An \<open>add\<close>, \<open>sub\<close>, \<open>mul\<close> or \<open>div\<close> whose result has derivatives (and so,
  by the invariant of symbols, is not a closure) while neither operand has, with operands
  whose value loads succeed (for a matrix result of \<open>mul\<close> or \<open>div\<close>: with operand
  types the front end allows): the generator returns true, the last instruction it emits is
  the zero-fill of the result's derivatives, and dx and dy of every component of the result
  are left zeroed.
\<close>

theorem zero_fill_without_operand_derivs:
  assumes op: "opcode_at rop opnum = Some op"
    and R: "opargsym rop op 0 = Some R"
    and A: "opargsym rop op 1 = Some A"
    and B: "opargsym rop op 2 = Some B"
    and ty: "type = simpletype (typespec (symbol_of rop R))"
    and g: "(gen = llvm_gen_add \<or> gen = llvm_gen_sub) \<and> operand_loads rop A B (aggregate type)
          \<or> (gen = llvm_gen_mul \<or> gen = llvm_gen_div)
            \<and> (if is_matrix (typespec (symbol_of rop R)) then matrix_operands rop A B
               else operand_loads rop A B (aggregate type))"
    and nc: "\<not> is_closure (typespec (symbol_of rop R))"
    and dR: "has_derivs (symbol_of rop R)"
    and dA: "\<not> has_derivs (symbol_of rop A)"
    and dB: "\<not> has_derivs (symbol_of rop B)"
  shows "\<exists>st'. gen rop opnum st = Some (True, st')
       \<and> (\<exists>code. emitted st' = code @ [Zero_derivs R])
       \<and> channels_after (emitted st') m (R, 1, c) = Zeroed
       \<and> channels_after (emitted st') m (R, 2, c) = Zeroed"
proof -
  let ?mat = "is_matrix (typespec (symbol_of rop R))"
  have ret: "\<exists>st'. gen rop opnum st = Some (True, st')"
  proof -
    consider (add) "gen = llvm_gen_add" "operand_loads rop A B (aggregate type)"
      | (sub) "gen = llvm_gen_sub" "operand_loads rop A B (aggregate type)"
      | (mul) "gen = llvm_gen_mul" "\<not> ?mat" "operand_loads rop A B (aggregate type)"
      | (mulm) "gen = llvm_gen_mul" "?mat" "matrix_operands rop A B"
      | (div) "gen = llvm_gen_div" "\<not> ?mat" "operand_loads rop A B (aggregate type)"
      | (divm) "gen = llvm_gen_div" "?mat" "matrix_operands rop A B"
      using g by (auto split: if_splits)
    then show ?thesis
    proof cases
      case add
      with addsub_tail_returns [OF _ dR dA dB, where opr = Op_add and st = st] op R A B nc ty show ?thesis
        by (simp add: llvm_gen_add_def)
    next
      case sub
      with addsub_tail_returns [OF _ dR dA dB, where opr = Op_sub and st = st] op R A B ty show ?thesis
        by (simp add: llvm_gen_sub_def)
    next
      case mul
      from mul_loop_returns [OF mul(3) dA dB, where R = R and type = type and st = st] obtain st1 where
        "for_components (mul_component rop R A B type) [0..<aggregate type] st = Some (True, st1)"
        ..
      with mul op R A B nc ty dR dA dB show ?thesis
        by (simp add: llvm_gen_mul_def Let_def)
    next
      case mulm
      with mul_matrix_returns [OF mulm(3), where R = R and st = st] op R A B nc show ?thesis
        by (simp add: llvm_gen_mul_def Let_def)
    next
      case div
      from div_loop_returns [OF div(3), where R = R and type = type and st = st
          and sd = "if is_float_based (typespec (symbol_of rop R))
           then ''osl_safe_div_fff'' else ''osl_safe_div_iii''"]
      obtain st1 where
        "for_components (div_component rop R A B type
           (if is_float_based (typespec (symbol_of rop R))
            then ''osl_safe_div_fff'' else ''osl_safe_div_iii'') False) [0..<aggregate type] st
         = Some (True, st1)"
        ..
      with div op R A B ty dR dA dB show ?thesis
        by (simp add: llvm_gen_div_def Let_def)
    next
      case divm
      with div_matrix_returns [OF divm(3), where R = R and st = st] op R A B show ?thesis
        by (simp add: llvm_gen_div_def Let_def)
    qed
  qed
  then obtain st' where run: "gen rop opnum st = Some (True, st')" ..
  have "\<exists>st1. st' = llvm_zero_derivs R st1"
  proof -
    from g consider "gen = llvm_gen_add" | "gen = llvm_gen_sub" | "gen = llvm_gen_mul"
      | "gen = llvm_gen_div"
      by auto
    then show ?thesis
    proof cases
      case 1
      with run show ?thesis using llvm_gen_add_zero [OF op R A B nc dR dA dB] by simp
    next
      case 2
      with run show ?thesis using llvm_gen_sub_zero [OF op R A B dR dA dB] by simp
    next
      case 3
      with run show ?thesis using llvm_gen_mul_zero [OF op R A B nc dR dA dB] by simp
    next
      case 4
      with run show ?thesis using llvm_gen_div_zero [OF op R A B dR dA dB] by simp
    qed
  qed
  then obtain st1 where z: "st' = llvm_zero_derivs R st1" ..
  from zero_derivs_last [OF z, of 1 m c] zero_derivs_last [OF z, of 2 m c] run
  show ?thesis by simp
qed


lemma ex_add_run:
  "llvm_gen_add ex_rop 1 ex_st = Some (True, ex_st\<lparr>emitted :=
     [Store_value (Op_add (Load_value 4 0 0 TypeFloat) (Load_value 2 0 0 TypeFloat)) 0 0 0,
      Zero_derivs 0]\<rparr>)"
  by (simp add: llvm_gen_add_def addsub_tail_def addsub_value_def gen_defs)

lemma ex_div_run:
  "llvm_gen_div ex_rop 4 ex_st = Some (True, ex_st\<lparr>emitted :=
     [Store_value (Call_function ''osl_safe_div_fff''
                     [Load_value 4 0 0 TypeFloat, Load_value 2 0 0 TypeFloat]) 0 0 0,
      Zero_derivs 0]\<rparr>)"
  by (simp add: llvm_gen_div_def div_component_def div_value_def gen_defs)

lemma ex_sub_run:
  "llvm_gen_sub ex_rop 2 ex_st = Some (True, ex_st\<lparr>emitted :=
     [Store_value (Op_sub (Load_value 4 0 0 TypeFloat) (Load_value 2 0 0 TypeFloat)) 0 0 0,
      Zero_derivs 0]\<rparr>)"
  by (simp add: llvm_gen_sub_def addsub_tail_def addsub_value_def gen_defs)

lemma ex_mul_zero_run:
  "llvm_gen_mul ex_rop 3 ex_st = Some (True, ex_st\<lparr>emitted :=
     [Store_value (Op_mul (Load_value 4 0 0 TypeFloat) (Load_value 2 0 0 TypeFloat)) 0 0 0,
      Zero_derivs 0]\<rparr>)"
  by (simp add: llvm_gen_mul_def mul_component_def gen_defs)

lemma ex_mul_matrix_run:
  "llvm_gen_mul ex_rop 9 ex_st = Some (True, ex_st\<lparr>emitted :=
     [Llvm_call_function ''osl_mul_mmf'' [7, 8, 4], Zero_derivs 7]\<rparr>)"
  by (simp add: llvm_gen_mul_def mul_matrix_def gen_defs)

lemma ex_div_matrix_run:
  "llvm_gen_div ex_rop 10 ex_st = Some (True, ex_st\<lparr>emitted :=
     [Llvm_call_function ''osl_div_mmf'' [7, 8, 3], Zero_derivs 7]\<rparr>)"
  by (simp add: llvm_gen_div_def div_matrix_def gen_defs)

theorem zero_fill_without_operand_derivs_witness:
  "channels_after (emitted (snd (the (llvm_gen_add ex_rop 1 ex_st)))) no_stores (0, 1, 0) = Zeroed
   \<and> channels_after (emitted (snd (the (llvm_gen_add ex_rop 1 ex_st)))) no_stores (0, 2, 0) = Zeroed
   \<and> channels_after (emitted (snd (the (llvm_gen_sub ex_rop 2 ex_st)))) no_stores (0, 1, 0) = Zeroed
   \<and> channels_after (emitted (snd (the (llvm_gen_sub ex_rop 2 ex_st)))) no_stores (0, 2, 0) = Zeroed
   \<and> channels_after (emitted (snd (the (llvm_gen_mul ex_rop 3 ex_st)))) no_stores (0, 1, 0) = Zeroed
   \<and> channels_after (emitted (snd (the (llvm_gen_mul ex_rop 3 ex_st)))) no_stores (0, 2, 0) = Zeroed
   \<and> channels_after (emitted (snd (the (llvm_gen_div ex_rop 4 ex_st)))) no_stores (0, 1, 0) = Zeroed
   \<and> channels_after (emitted (snd (the (llvm_gen_div ex_rop 4 ex_st)))) no_stores (0, 2, 0) = Zeroed
   \<and> channels_after (emitted (snd (the (llvm_gen_mul ex_rop 9 ex_st)))) no_stores (7, 1, 5) = Zeroed
   \<and> channels_after (emitted (snd (the (llvm_gen_mul ex_rop 9 ex_st)))) no_stores (7, 2, 5) = Zeroed
   \<and> channels_after (emitted (snd (the (llvm_gen_div ex_rop 10 ex_st)))) no_stores (7, 1, 5) = Zeroed
   \<and> channels_after (emitted (snd (the (llvm_gen_div ex_rop 10 ex_st)))) no_stores (7, 2, 5) = Zeroed"
proof -
  have op: "opcode_at ex_rop 1 = Some (ex_op ''add'' [0, 4, 2])"
    "opcode_at ex_rop 2 = Some (ex_op ''sub'' [0, 4, 2])"
    "opcode_at ex_rop 3 = Some (ex_op ''mul'' [0, 4, 2])"
    "opcode_at ex_rop 4 = Some (ex_op ''div'' [0, 4, 2])"
    "opcode_at ex_rop 9 = Some (ex_op ''mul'' [7, 8, 4])"
    "opcode_at ex_rop 10 = Some (ex_op ''div'' [7, 8, 3])"
    by (simp_all add: opcode_at_def ex_rop_def)
  have R: "\<And>nm. opargsym ex_rop (ex_op nm [0, 4, 2]) 0 = Some 0"
    and A: "\<And>nm. opargsym ex_rop (ex_op nm [0, 4, 2]) 1 = Some 4"
    and B: "\<And>nm. opargsym ex_rop (ex_op nm [0, 4, 2]) 2 = Some 2"
    and Rm: "\<And>nm b. opargsym ex_rop (ex_op nm [7, 8, b]) 0 = Some 7"
    and Am: "\<And>nm b. opargsym ex_rop (ex_op nm [7, 8, b]) 1 = Some 8"
    and Bm: "opargsym ex_rop (ex_op ''mul'' [7, 8, 4]) 2 = Some 4"
      "opargsym ex_rop (ex_op ''div'' [7, 8, 3]) 2 = Some 3"
    by (simp_all add: opargsym_def ex_rop_def ex_op_def)
  have ty: "TypeFloat = simpletype (typespec (symbol_of ex_rop 0))"
    and tym: "TypeMatrix = simpletype (typespec (symbol_of ex_rop 7))"
    and nc: "\<not> is_closure (typespec (symbol_of ex_rop 0))"
      "\<not> is_closure (typespec (symbol_of ex_rop 7))"
    and dR: "has_derivs (symbol_of ex_rop 0)" "has_derivs (symbol_of ex_rop 7)"
    and dA: "\<not> has_derivs (symbol_of ex_rop 4)" "\<not> has_derivs (symbol_of ex_rop 8)"
    and dB: "\<not> has_derivs (symbol_of ex_rop 2)" "\<not> has_derivs (symbol_of ex_rop 4)"
      "\<not> has_derivs (symbol_of ex_rop 3)"
    by (simp_all add: gen_defs)
  have ld: "operand_loads ex_rop 4 2 (aggregate TypeFloat)"
    and mf: "\<not> is_matrix (typespec (symbol_of ex_rop 0))"
    and mm: "is_matrix (typespec (symbol_of ex_rop 7))"
    and mo: "matrix_operands ex_rop 8 4" "matrix_operands ex_rop 8 3"
    by (simp_all add: operand_loads_def matrix_operands_def gen_defs)
  have g1: "(llvm_gen_add = llvm_gen_add \<or> llvm_gen_add = llvm_gen_sub)
          \<and> operand_loads ex_rop 4 2 (aggregate TypeFloat)
      \<or> (llvm_gen_add = llvm_gen_mul \<or> llvm_gen_add = llvm_gen_div)
        \<and> (if is_matrix (typespec (symbol_of ex_rop 0)) then matrix_operands ex_rop 4 2
           else operand_loads ex_rop 4 2 (aggregate TypeFloat))"
    and g2: "(llvm_gen_sub = llvm_gen_add \<or> llvm_gen_sub = llvm_gen_sub)
          \<and> operand_loads ex_rop 4 2 (aggregate TypeFloat)
      \<or> (llvm_gen_sub = llvm_gen_mul \<or> llvm_gen_sub = llvm_gen_div)
        \<and> (if is_matrix (typespec (symbol_of ex_rop 0)) then matrix_operands ex_rop 4 2
           else operand_loads ex_rop 4 2 (aggregate TypeFloat))"
    and g3: "(llvm_gen_mul = llvm_gen_add \<or> llvm_gen_mul = llvm_gen_sub)
          \<and> operand_loads ex_rop 4 2 (aggregate TypeFloat)
      \<or> (llvm_gen_mul = llvm_gen_mul \<or> llvm_gen_mul = llvm_gen_div)
        \<and> (if is_matrix (typespec (symbol_of ex_rop 0)) then matrix_operands ex_rop 4 2
           else operand_loads ex_rop 4 2 (aggregate TypeFloat))"
    and g4: "(llvm_gen_div = llvm_gen_add \<or> llvm_gen_div = llvm_gen_sub)
          \<and> operand_loads ex_rop 4 2 (aggregate TypeFloat)
      \<or> (llvm_gen_div = llvm_gen_mul \<or> llvm_gen_div = llvm_gen_div)
        \<and> (if is_matrix (typespec (symbol_of ex_rop 0)) then matrix_operands ex_rop 4 2
           else operand_loads ex_rop 4 2 (aggregate TypeFloat))"
    using ld mf by simp_all
  have g5: "(llvm_gen_mul = llvm_gen_add \<or> llvm_gen_mul = llvm_gen_sub)
          \<and> operand_loads ex_rop 8 4 (aggregate TypeMatrix)
      \<or> (llvm_gen_mul = llvm_gen_mul \<or> llvm_gen_mul = llvm_gen_div)
        \<and> (if is_matrix (typespec (symbol_of ex_rop 7)) then matrix_operands ex_rop 8 4
           else operand_loads ex_rop 8 4 (aggregate TypeMatrix))"
    and g6: "(llvm_gen_div = llvm_gen_add \<or> llvm_gen_div = llvm_gen_sub)
          \<and> operand_loads ex_rop 8 3 (aggregate TypeMatrix)
      \<or> (llvm_gen_div = llvm_gen_mul \<or> llvm_gen_div = llvm_gen_div)
        \<and> (if is_matrix (typespec (symbol_of ex_rop 7)) then matrix_operands ex_rop 8 3
           else operand_loads ex_rop 8 3 (aggregate TypeMatrix))"
    using mm mo by simp_all
  have pick: "\<And>r P. \<exists>st'. r = Some (True, st') \<and> P st' \<Longrightarrow> P (snd (the r))"
    by auto
  note z = zero_fill_without_operand_derivs [where st = ex_st and m = no_stores]
  have "channels_after (emitted (snd (the (llvm_gen_add ex_rop 1 ex_st)))) no_stores (0, 1, 0) = Zeroed
      \<and> channels_after (emitted (snd (the (llvm_gen_add ex_rop 1 ex_st)))) no_stores (0, 2, 0) = Zeroed"
    using pick [OF z [OF op(1) R A B ty g1 nc(1) dR(1) dA(1) dB(1), of 0]] by simp
  moreover
  have "channels_after (emitted (snd (the (llvm_gen_sub ex_rop 2 ex_st)))) no_stores (0, 1, 0) = Zeroed
      \<and> channels_after (emitted (snd (the (llvm_gen_sub ex_rop 2 ex_st)))) no_stores (0, 2, 0) = Zeroed"
    using pick [OF z [OF op(2) R A B ty g2 nc(1) dR(1) dA(1) dB(1), of 0]] by simp
  moreover
  have "channels_after (emitted (snd (the (llvm_gen_mul ex_rop 3 ex_st)))) no_stores (0, 1, 0) = Zeroed
      \<and> channels_after (emitted (snd (the (llvm_gen_mul ex_rop 3 ex_st)))) no_stores (0, 2, 0) = Zeroed"
    using pick [OF z [OF op(3) R A B ty g3 nc(1) dR(1) dA(1) dB(1), of 0]] by simp
  moreover
  have "channels_after (emitted (snd (the (llvm_gen_div ex_rop 4 ex_st)))) no_stores (0, 1, 0) = Zeroed
      \<and> channels_after (emitted (snd (the (llvm_gen_div ex_rop 4 ex_st)))) no_stores (0, 2, 0) = Zeroed"
    using pick [OF z [OF op(4) R A B ty g4 nc(1) dR(1) dA(1) dB(1), of 0]] by simp
  moreover
  have "channels_after (emitted (snd (the (llvm_gen_mul ex_rop 9 ex_st)))) no_stores (7, 1, 5) = Zeroed
      \<and> channels_after (emitted (snd (the (llvm_gen_mul ex_rop 9 ex_st)))) no_stores (7, 2, 5) = Zeroed"
    using pick [OF z [OF op(5) Rm Am Bm(1) tym g5 nc(2) dR(2) dA(2) dB(2), of 5]] by simp
  moreover
  have "channels_after (emitted (snd (the (llvm_gen_div ex_rop 10 ex_st)))) no_stores (7, 1, 5) = Zeroed
      \<and> channels_after (emitted (snd (the (llvm_gen_div ex_rop 10 ex_st)))) no_stores (7, 2, 5) = Zeroed"
    using pick [OF z [OF op(6) Rm Am Bm(2) tym g6 nc(2) dR(2) dA(2) dB(3), of 5]] by simp
  ultimately show ?thesis by simp
qed

subsection \<open>div: plain divide or safe divide\<close>

lemma div_component_emitted:
  assumes "div_component rop R A B type sd deriv i s = Some (True, s')"
  shows "emitted s' = emitted s @
     (if deriv then
        dual_block
          (\<lambda>i. div_value rop B sd (Load_value A 0 i type) (Load_value B 0 i type))
          (\<lambda>i. Op_mul (div_value rop B sd (Constant_float float_one) (Load_value B 0 i type))
                  (Op_sub (Load_value A 1 i type)
                     (Op_mul (div_value rop B sd (Load_value A 0 i type) (Load_value B 0 i type))
                        (Load_value B 1 i type))))
          (\<lambda>i. Op_mul (div_value rop B sd (Constant_float float_one) (Load_value B 0 i type))
                  (Op_sub (Load_value A 2 i type)
                     (Op_mul (div_value rop B sd (Load_value A 0 i type) (Load_value B 0 i type))
                        (Load_value B 2 i type)))) R i
      else value_block
          (\<lambda>i. div_value rop B sd (Load_value A 0 i type) (Load_value B 0 i type)) R i)"
  using assms
  by (auto simp: div_component_def dual_block_def value_block_def Let_def
      split: option.splits bind_splits if_splits dest!: llvm_load_value_Some)

lemma div_value_channel:
  assumes "for_components (div_component rop R A B type sd deriv) [0..<n] st = Some (True, st')"
    and "i < n"
  shows "channels_after (emitted st') m (R, 0, i)
         = Stored (div_value rop B sd (Load_value A 0 i type) (Load_value B 0 i type))"
proof (cases deriv)
  case True
  have "emitted st' = emitted st @ concat (map (dual_block
          (\<lambda>i. div_value rop B sd (Load_value A 0 i type) (Load_value B 0 i type))
          (\<lambda>i. Op_mul (div_value rop B sd (Constant_float float_one) (Load_value B 0 i type))
                  (Op_sub (Load_value A 1 i type)
                     (Op_mul (div_value rop B sd (Load_value A 0 i type) (Load_value B 0 i type))
                        (Load_value B 1 i type))))
          (\<lambda>i. Op_mul (div_value rop B sd (Constant_float float_one) (Load_value B 0 i type))
                  (Op_sub (Load_value A 2 i type)
                     (Op_mul (div_value rop B sd (Load_value A 0 i type) (Load_value B 0 i type))
                        (Load_value B 2 i type)))) R) [0..<n])"
    by (rule for_components_upt_emitted [OF _ assms(1)])
       (use True in \<open>simp add: div_component_emitted\<close>)
  then show ?thesis
    using assms(2) by (simp add: channels_after_append channels_after_dual_blocks)
next
  case False
  have "emitted st' = emitted st @ concat (map (value_block
          (\<lambda>i. div_value rop B sd (Load_value A 0 i type) (Load_value B 0 i type)) R) [0..<n])"
    by (rule for_components_upt_emitted [OF _ assms(1)])
       (use False in \<open>simp add: div_component_emitted\<close>)
  then show ?thesis
    using assms(2) by (simp add: channels_after_append channels_after_value_blocks)
qed

lemma safe_div_eval:
  assumes "sd = ''osl_safe_div_fff'' \<or> sd = ''osl_safe_div_iii''"
    and "eval rt a = Some (Num av)" and "eval rt b = Some (Num bv)"
    and "\<not> rt_is_zero rt bv"
  shows "eval rt (Call_function sd [a, b]) = Some (Num (rt_div rt av bv))"
    and "eval rt (Op_div a b) = Some (Num (rt_div rt av bv))"
  using assms by (auto simp: num2_def safe_div_def)

lemma div_loop_returns_deriv:
  assumes ld: "operand_loads rop A B n"
    and dl: "deriv \<Longrightarrow> derivative_loads rop A B n"
  shows "\<exists>st1. for_components (div_component rop R A B type sd deriv) [0..<n] st
           = Some (True, st1)"
proof (cases deriv)
  case True
  from dl [OF True] have d: "\<And>i. i < n \<Longrightarrow>
      \<not> load_null rop A 1 i \<and> \<not> load_null rop B 1 i
      \<and> \<not> load_null rop A 2 i \<and> \<not> load_null rop B 2 i"
    by (simp add: derivative_loads_def list_all_iff)
  from ld have v: "\<And>i. i < n \<Longrightarrow> \<not> load_null rop A 0 i \<and> \<not> load_null rop B 0 i"
    by (simp add: operand_loads_def list_all_iff)
  show ?thesis
    by (rule for_components_True)
       (use True d v in \<open>simp add: div_component_def Let_def llvm_load_value_def\<close>)
next
  case False
  then show ?thesis using div_loop_returns [OF ld] by simp
qed

lemma div_derivative_channels:
  assumes "for_components (div_component rop R A B type sd True) [0..<n] st = Some (True, st')"
    and "i < n"
  shows "channels_after (emitted st') m (R, 1, i)
         = Stored (Op_mul (div_value rop B sd (Constant_float float_one) (Load_value B 0 i type))
                  (Op_sub (Load_value A 1 i type)
                     (Op_mul (div_value rop B sd (Load_value A 0 i type) (Load_value B 0 i type))
                        (Load_value B 1 i type))))"
    and "channels_after (emitted st') m (R, 2, i)
         = Stored (Op_mul (div_value rop B sd (Constant_float float_one) (Load_value B 0 i type))
                  (Op_sub (Load_value A 2 i type)
                     (Op_mul (div_value rop B sd (Load_value A 0 i type) (Load_value B 0 i type))
                        (Load_value B 2 i type))))"
proof -
  have "emitted st' = emitted st @ concat (map (dual_block
          (\<lambda>i. div_value rop B sd (Load_value A 0 i type) (Load_value B 0 i type))
          (\<lambda>i. Op_mul (div_value rop B sd (Constant_float float_one) (Load_value B 0 i type))
                  (Op_sub (Load_value A 1 i type)
                     (Op_mul (div_value rop B sd (Load_value A 0 i type) (Load_value B 0 i type))
                        (Load_value B 1 i type))))
          (\<lambda>i. Op_mul (div_value rop B sd (Constant_float float_one) (Load_value B 0 i type))
                  (Op_sub (Load_value A 2 i type)
                     (Op_mul (div_value rop B sd (Load_value A 0 i type) (Load_value B 0 i type))
                        (Load_value B 2 i type)))) R) [0..<n])"
    by (rule for_components_upt_emitted [OF _ assms(1)]) (simp add: div_component_emitted)
  then show "channels_after (emitted st') m (R, 1, i)
         = Stored (Op_mul (div_value rop B sd (Constant_float float_one) (Load_value B 0 i type))
                  (Op_sub (Load_value A 1 i type)
                     (Op_mul (div_value rop B sd (Load_value A 0 i type) (Load_value B 0 i type))
                        (Load_value B 1 i type))))"
    and "channels_after (emitted st') m (R, 2, i)
         = Stored (Op_mul (div_value rop B sd (Constant_float float_one) (Load_value B 0 i type))
                  (Op_sub (Load_value A 2 i type)
                     (Op_mul (div_value rop B sd (Load_value A 0 i type) (Load_value B 0 i type))
                        (Load_value B 2 i type))))"
    using assms(2) by (simp_all add: channels_after_append channels_after_dual_blocks)
qed


text \<open>
  C6, amended.  A \<open>div\<close> whose result is not a matrix, with operands whose loads succeed:
  the generator returns true; the value channel of each component holds the plain divide
  \<open>a / b\<close> when the divisor symbol is a constant that is not zero, and otherwise the call
  of the safe divide on \<open>a\<close> and \<open>b\<close>; when derivatives are computed, dx and dy hold
  \<open>1/b * (ax - a/b * bx)\<close> and \<open>1/b * (ay - a/b * by)\<close> with \<open>1/b\<close> and \<open>a/b\<close>
  lowered in that same way; and in a runtime where the divisor's value is not zero, the two
  lowerings of each of these terms compute the same number, the quotient being that of the
  machine's divide.
\<close>

theorem div_lowering:
  assumes op: "opcode_at rop opnum = Some op"
    and R: "opargsym rop op 0 = Some R"
    and A: "opargsym rop op 1 = Some A"
    and B: "opargsym rop op 2 = Some B"
    and ty: "type = simpletype (typespec (symbol_of rop R))"
    and nm: "\<not> is_matrix (typespec (symbol_of rop R))"
    and sd: "safe = (if is_float_based (typespec (symbol_of rop R))
                     then ''osl_safe_div_fff'' else ''osl_safe_div_iii'')"
    and dv: "deriv = (has_derivs (symbol_of rop R)
                      \<and> (has_derivs (symbol_of rop A) \<or> has_derivs (symbol_of rop B)))"
    and ld: "operand_loads rop A B (aggregate type)"
    and dl: "deriv \<Longrightarrow> derivative_loads rop A B (aggregate type)"
    and i: "i < aggregate type"
  shows "\<exists>st'. llvm_gen_div rop opnum st = Some (True, st')
       \<and> (let a = Load_value A 0 i type; ax = Load_value A 1 i type; ay = Load_value A 2 i type;
              b = Load_value B 0 i type; bx = Load_value B 1 i type; by = Load_value B 2 i type;
              one = Constant_float float_one;
              quot = (\<lambda>plain x. if plain then Op_div x b else Call_function safe [x, b]);
              dual = (\<lambda>plain u v. Op_mul (quot plain one) (Op_sub u (Op_mul (quot plain a) v)));
              plain = (is_constant (symbol_of rop B) \<and> \<not> is_zero rop (symbol_of rop B))
          in channels_after (emitted st') m (R, 0, i) = Stored (quot plain a)
           \<and> (deriv \<longrightarrow> channels_after (emitted st') m (R, 1, i) = Stored (dual plain ax bx)
                      \<and> channels_after (emitted st') m (R, 2, i) = Stored (dual plain ay by))
           \<and> (\<not> rt_is_zero rt (rt_load rt B 0 i type) \<longrightarrow>
                eval rt (quot True a)
                  = Some (Num (rt_div rt (rt_load rt A 0 i type) (rt_load rt B 0 i type)))
              \<and> eval rt (quot False a) = eval rt (quot True a)
              \<and> eval rt (quot True one)
                  = Some (Num (rt_div rt (rt_float rt float_one) (rt_load rt B 0 i type)))
              \<and> eval rt (quot False one) = eval rt (quot True one)
              \<and> eval rt (dual False ax bx) = eval rt (dual True ax bx)
              \<and> eval rt (dual False ay by) = eval rt (dual True ay by)))"
proof -
  from div_loop_returns_deriv [OF ld dl, where R = R and type = type and sd = safe and st = st]
  obtain st1 where
    loop: "for_components (div_component rop R A B type safe deriv) [0..<aggregate type] st
             = Some (True, st1)"
    by auto
  define st' where "st' = (if has_derivs (symbol_of rop R)
                   \<and> \<not> (has_derivs (symbol_of rop A) \<or> has_derivs (symbol_of rop B))
                then llvm_zero_derivs R st1 else st1)"
  have run: "llvm_gen_div rop opnum st = Some (True, st')"
    using op R A B nm loop [unfolded ty sd dv]
    by (simp add: llvm_gen_div_def Let_def st'_def)
  have tail: "deriv \<Longrightarrow> st' = st1" by (simp add: st'_def dv)
  have ch0: "channels_after (emitted st1) m (R, 0, i)
         = Stored (div_value rop B safe (Load_value A 0 i type) (Load_value B 0 i type))"
    by (rule div_value_channel [OF loop i])
  have "channels_after (emitted st') m (R, 0, i) = channels_after (emitted st1) m (R, 0, i)"
    by (simp add: st'_def channels_after_def)
  with ch0 have c0: "channels_after (emitted st') m (R, 0, i)
         = Stored (div_value rop B safe (Load_value A 0 i type) (Load_value B 0 i type))"
    by simp
  have c12: "channels_after (emitted st') m (R, 1, i)
         = Stored (Op_mul (div_value rop B safe (Constant_float float_one) (Load_value B 0 i type))
                  (Op_sub (Load_value A 1 i type)
                     (Op_mul (div_value rop B safe (Load_value A 0 i type) (Load_value B 0 i type))
                        (Load_value B 1 i type))))
       \<and> channels_after (emitted st') m (R, 2, i)
         = Stored (Op_mul (div_value rop B safe (Constant_float float_one) (Load_value B 0 i type))
                  (Op_sub (Load_value A 2 i type)
                     (Op_mul (div_value rop B safe (Load_value A 0 i type) (Load_value B 0 i type))
                        (Load_value B 2 i type))))"
    if d: deriv
    using div_derivative_channels [OF loop [unfolded eqTrueI [OF d]] i, of m] tail [OF d]
    by simp
  have s: "safe = ''osl_safe_div_fff'' \<or> safe = ''osl_safe_div_iii''"
    using sd by simp
  have ev: "eval rt (Call_function safe [x, Load_value B 0 i type])
              = eval rt (Op_div x (Load_value B 0 i type))"
    if "\<not> rt_is_zero rt (rt_load rt B 0 i type)" for x
    using that s by (auto simp: num2_def safe_div_def split: option.splits rtval.splits)
  show ?thesis
    using run c0 c12 ev
    by (intro exI [of _ st']) (simp add: Let_def div_value_def num2_def)
qed

lemma ex_div_const_run:
  "llvm_gen_div ex_rop 5 ex_st = Some (True, ex_st\<lparr>emitted :=
     [Store_value (Op_div (Load_value 1 0 0 TypeFloat) (Load_value 3 0 0 TypeFloat)) 0 0 0,
      Store_value (Op_mul (Op_div (Constant_float float_one) (Load_value 3 0 0 TypeFloat))
                     (Op_sub (Load_value 1 1 0 TypeFloat)
                        (Op_mul (Op_div (Load_value 1 0 0 TypeFloat) (Load_value 3 0 0 TypeFloat))
                           (Load_value 3 1 0 TypeFloat)))) 0 1 0,
      Store_value (Op_mul (Op_div (Constant_float float_one) (Load_value 3 0 0 TypeFloat))
                     (Op_sub (Load_value 1 2 0 TypeFloat)
                        (Op_mul (Op_div (Load_value 1 0 0 TypeFloat) (Load_value 3 0 0 TypeFloat))
                           (Load_value 3 2 0 TypeFloat)))) 0 2 0]\<rparr>)"
  by (simp add: llvm_gen_div_def div_component_def div_value_def gen_defs)

lemma ex_div_var_run:
  "llvm_gen_div ex_rop 6 ex_st = Some (True, ex_st\<lparr>emitted :=
     [Store_value (Call_function ''osl_safe_div_fff''
                     [Load_value 1 0 0 TypeFloat, Load_value 2 0 0 TypeFloat]) 0 0 0,
      Store_value (Op_mul (Call_function ''osl_safe_div_fff''
                             [Constant_float float_one, Load_value 2 0 0 TypeFloat])
                     (Op_sub (Load_value 1 1 0 TypeFloat)
                        (Op_mul (Call_function ''osl_safe_div_fff''
                                   [Load_value 1 0 0 TypeFloat, Load_value 2 0 0 TypeFloat])
                           (Load_value 2 1 0 TypeFloat)))) 0 1 0,
      Store_value (Op_mul (Call_function ''osl_safe_div_fff''
                             [Constant_float float_one, Load_value 2 0 0 TypeFloat])
                     (Op_sub (Load_value 1 2 0 TypeFloat)
                        (Op_mul (Call_function ''osl_safe_div_fff''
                                   [Load_value 1 0 0 TypeFloat, Load_value 2 0 0 TypeFloat])
                           (Load_value 2 2 0 TypeFloat)))) 0 2 0]\<rparr>)"
  by (simp add: llvm_gen_div_def div_component_def div_value_def gen_defs)

theorem div_lowering_witness:
  "channels_after (emitted (snd (the (llvm_gen_div ex_rop 5 ex_st)))) no_stores (0, 0, 0)
     = Stored (Op_div (Load_value 1 0 0 TypeFloat) (Load_value 3 0 0 TypeFloat))
   \<and> channels_after (emitted (snd (the (llvm_gen_div ex_rop 5 ex_st)))) no_stores (0, 1, 0)
     = Stored (Op_mul (Op_div (Constant_float float_one) (Load_value 3 0 0 TypeFloat))
                 (Op_sub (Load_value 1 1 0 TypeFloat)
                    (Op_mul (Op_div (Load_value 1 0 0 TypeFloat) (Load_value 3 0 0 TypeFloat))
                       (Load_value 3 1 0 TypeFloat))))
   \<and> channels_after (emitted (snd (the (llvm_gen_div ex_rop 6 ex_st)))) no_stores (0, 0, 0)
     = Stored (Call_function ''osl_safe_div_fff''
                 [Load_value 1 0 0 TypeFloat, Load_value 2 0 0 TypeFloat])
   \<and> channels_after (emitted (snd (the (llvm_gen_div ex_rop 6 ex_st)))) no_stores (0, 2, 0)
     = Stored (Op_mul (Call_function ''osl_safe_div_fff''
                         [Constant_float float_one, Load_value 2 0 0 TypeFloat])
                 (Op_sub (Load_value 1 2 0 TypeFloat)
                    (Op_mul (Call_function ''osl_safe_div_fff''
                               [Load_value 1 0 0 TypeFloat, Load_value 2 0 0 TypeFloat])
                       (Load_value 2 2 0 TypeFloat))))
   \<and> \<not> rt_is_zero ex_rt (rt_load ex_rt 2 0 0 TypeFloat)
   \<and> eval ex_rt (Call_function ''osl_safe_div_fff''
                 [Load_value 1 0 0 TypeFloat, Load_value 2 0 0 TypeFloat]) = Some (Num 2)
   \<and> eval ex_rt (Op_div (Load_value 1 0 0 TypeFloat) (Load_value 2 0 0 TypeFloat))
       = Some (Num 2)
   \<and> eval ex_rt (Call_function ''osl_safe_div_fff''
                 [Constant_float float_one, Load_value 2 0 0 TypeFloat])
       = eval ex_rt (Op_div (Constant_float float_one) (Load_value 2 0 0 TypeFloat))"
proof -
  have op: "opcode_at ex_rop 5 = Some (ex_op ''div'' [0, 1, 3])"
    and op': "opcode_at ex_rop 6 = Some (ex_op ''div'' [0, 1, 2])"
    by (simp_all add: opcode_at_def ex_rop_def)
  have R: "opargsym ex_rop (ex_op ''div'' [0, 1, 3]) 0 = Some 0"
    and A: "opargsym ex_rop (ex_op ''div'' [0, 1, 3]) 1 = Some 1"
    and B: "opargsym ex_rop (ex_op ''div'' [0, 1, 3]) 2 = Some 3"
    and R': "opargsym ex_rop (ex_op ''div'' [0, 1, 2]) 0 = Some 0"
    and A': "opargsym ex_rop (ex_op ''div'' [0, 1, 2]) 1 = Some 1"
    and B': "opargsym ex_rop (ex_op ''div'' [0, 1, 2]) 2 = Some 2"
    by (simp_all add: opargsym_def ex_rop_def ex_op_def)
  have ty: "TypeFloat = simpletype (typespec (symbol_of ex_rop 0))"
    and nm: "\<not> is_matrix (typespec (symbol_of ex_rop 0))"
    and sd: "''osl_safe_div_fff'' = (if is_float_based (typespec (symbol_of ex_rop 0))
                     then ''osl_safe_div_fff'' else ''osl_safe_div_iii'')"
    and dv: "True = (has_derivs (symbol_of ex_rop 0)
                      \<and> (has_derivs (symbol_of ex_rop 1) \<or> has_derivs (symbol_of ex_rop 3)))"
    and dv': "True = (has_derivs (symbol_of ex_rop 0)
                      \<and> (has_derivs (symbol_of ex_rop 1) \<or> has_derivs (symbol_of ex_rop 2)))"
    and i: "0 < aggregate TypeFloat"
    and c3: "is_constant (symbol_of ex_rop 3) \<and> \<not> is_zero ex_rop (symbol_of ex_rop 3)"
    and c2: "\<not> is_constant (symbol_of ex_rop 2)"
    by (simp_all add: gen_defs)
  have ld: "operand_loads ex_rop 1 3 (aggregate TypeFloat)"
    and ld': "operand_loads ex_rop 1 2 (aggregate TypeFloat)"
    and dl: "derivative_loads ex_rop 1 3 (aggregate TypeFloat)"
    and dl': "derivative_loads ex_rop 1 2 (aggregate TypeFloat)"
    by (simp_all add: operand_loads_def derivative_loads_def gen_defs)
  have nz: "\<not> rt_is_zero ex_rt (rt_load ex_rt 2 0 0 TypeFloat)"
    and q: "rt_div ex_rt (rt_load ex_rt 1 0 0 TypeFloat) (rt_load ex_rt 2 0 0 TypeFloat) = 2"
    by (simp_all add: ex_rt_def)
  have pick: "\<And>r P. \<exists>st'. r = Some (True, st') \<and> P st' \<Longrightarrow> P (snd (the r))"
    by auto
  note d = div_lowering [where st = ex_st and m = no_stores and rt = ex_rt]
  from pick [OF d [OF op R A B ty nm sd dv ld dl i]] c3
  have 1: "channels_after (emitted (snd (the (llvm_gen_div ex_rop 5 ex_st)))) no_stores (0, 0, 0)
     = Stored (Op_div (Load_value 1 0 0 TypeFloat) (Load_value 3 0 0 TypeFloat))
   \<and> channels_after (emitted (snd (the (llvm_gen_div ex_rop 5 ex_st)))) no_stores (0, 1, 0)
     = Stored (Op_mul (Op_div (Constant_float float_one) (Load_value 3 0 0 TypeFloat))
                 (Op_sub (Load_value 1 1 0 TypeFloat)
                    (Op_mul (Op_div (Load_value 1 0 0 TypeFloat) (Load_value 3 0 0 TypeFloat))
                       (Load_value 3 1 0 TypeFloat))))"
    by (simp add: Let_def)
  from pick [OF d [OF op' R' A' B' ty nm sd dv' ld' dl' i]] c2 nz q
  have 2: "channels_after (emitted (snd (the (llvm_gen_div ex_rop 6 ex_st)))) no_stores (0, 0, 0)
     = Stored (Call_function ''osl_safe_div_fff''
                 [Load_value 1 0 0 TypeFloat, Load_value 2 0 0 TypeFloat])
   \<and> channels_after (emitted (snd (the (llvm_gen_div ex_rop 6 ex_st)))) no_stores (0, 2, 0)
     = Stored (Op_mul (Call_function ''osl_safe_div_fff''
                         [Constant_float float_one, Load_value 2 0 0 TypeFloat])
                 (Op_sub (Load_value 1 2 0 TypeFloat)
                    (Op_mul (Call_function ''osl_safe_div_fff''
                               [Load_value 1 0 0 TypeFloat, Load_value 2 0 0 TypeFloat])
                       (Load_value 2 2 0 TypeFloat))))
   \<and> eval ex_rt (Call_function ''osl_safe_div_fff''
                 [Load_value 1 0 0 TypeFloat, Load_value 2 0 0 TypeFloat]) = Some (Num 2)
   \<and> eval ex_rt (Op_div (Load_value 1 0 0 TypeFloat) (Load_value 2 0 0 TypeFloat))
       = Some (Num 2)
   \<and> eval ex_rt (Call_function ''osl_safe_div_fff''
                 [Constant_float float_one, Load_value 2 0 0 TypeFloat])
       = eval ex_rt (Op_div (Constant_float float_one) (Load_value 2 0 0 TypeFloat))"
    by (simp add: Let_def)
  from 1 2 nz show ?thesis by simp
qed

text \<open>
  A matrix divided by the constant 2.0, and by a matrix: one call of a runtime function
  for matrices, whatever the divisor; no divide and no safe divide is emitted.
\<close>

theorem matrix_division_is_one_call:
  "is_constant (symbol_of ex_rop 3) \<and> \<not> is_zero ex_rop (symbol_of ex_rop 3)
   \<and> llvm_gen_div ex_rop 10 ex_st = Some (True, ex_st\<lparr>emitted :=
       [Llvm_call_function ''osl_div_mmf'' [7, 8, 3], Zero_derivs 7]\<rparr>)
   \<and> \<not> is_constant (symbol_of ex_rop 8)
   \<and> llvm_gen_div ex_rop 11 ex_st = Some (True, ex_st\<lparr>emitted :=
       [Llvm_call_function ''osl_div_mmm'' [7, 8, 8], Zero_derivs 7]\<rparr>)"
  by (simp add: llvm_gen_div_def div_matrix_def gen_defs)

subsection \<open>min: the first operand wins a tie\<close>

lemma minmax_component_emitted:
  assumes "opname op = op_min" and "has_derivs (symbol_of rop R)"
    and "minmax_component rop op R x y type i s = Some (True, s')"
  shows "emitted s' = emitted s @ dual_block
     (\<lambda>i. Op_select (Op_le (Load_value x 0 i type) (Load_value y 0 i type))
             (Load_value x 0 i type) (Load_value y 0 i type))
     (\<lambda>i. Op_select (Op_le (Load_value x 0 i type) (Load_value y 0 i type))
             (Load_value x 1 i type) (Load_value y 1 i type))
     (\<lambda>i. Op_select (Op_le (Load_value x 0 i type) (Load_value y 0 i type))
             (Load_value x 2 i type) (Load_value y 2 i type)) R i"
  using assms
  by (auto simp: minmax_component_def dual_block_def Let_def
      split: bind_splits dest!: llvm_load_value_Some)

lemma minmax_component_not_false:
  "minmax_component rop op R x y type i s \<noteq> Some (False, s')"
  by (auto simp: minmax_component_def Let_def split: bind_splits)

lemma select_le_eval:
  assumes "rt_le rt (rt_load rt x 0 i type) (rt_load rt y 0 i type)"
  shows "eval rt (Op_select (Op_le (Load_value x 0 i type) (Load_value y 0 i type))
                   (Load_value x d i type) (Load_value y d i type))
         = Some (Num (rt_load rt x d i type))"
  using assms by (simp add: select3_def cmp2_def)

text \<open>
  C7.  A \<open>min\<close> whose result has derivatives: in every lowering that succeeds, the
  value, dx and dy channels of each component hold a select on the one condition
  \<open>x <= y\<close> between that channel of the first and of the second operand.  So in a
  runtime where \<open>x <= y\<close> holds for the component, as it does when the two operands are
  equal, all three channels are those of the first operand.
\<close>

theorem min_ties_to_first_operand:
  assumes op: "opcode_at rop opnum = Some op"
    and R: "opargsym rop op 0 = Some R"
    and x: "opargsym rop op 1 = Some x"
    and y: "opargsym rop op 2 = Some y"
    and mn: "opname op = op_min"
    and ty: "type = simpletype (typespec (symbol_of rop R))"
    and dR: "has_derivs (symbol_of rop R)"
    and gen: "llvm_gen_minmax rop opnum st = Some (True, st')"
    and i: "i < aggregate type"
    and d: "d < 3"
  shows "let cond = Op_le (Load_value x 0 i type) (Load_value y 0 i type) in
         channels_after (emitted st') m (R, d, i)
           = Stored (Op_select cond (Load_value x d i type) (Load_value y d i type))
         \<and> (rt_le rt (rt_load rt x 0 i type) (rt_load rt y 0 i type) \<longrightarrow>
              eval rt (Op_select cond (Load_value x d i type) (Load_value y d i type))
                = Some (Num (rt_load rt x d i type)))"
proof -
  from gen op R x y ty obtain ok
    where "for_components (minmax_component rop op R x y type) [0..<aggregate type] st
                = Some (ok, st')"
    by (auto simp: llvm_gen_minmax_def Let_def split: bind_splits prod.splits)
  with for_components_never_false [of "minmax_component rop op R x y type", OF minmax_component_not_false]
  have loop: "for_components (minmax_component rop op R x y type) [0..<aggregate type] st
                = Some (True, st')"
    by (cases ok) auto
  have "emitted st' = emitted st @ concat (map (dual_block
     (\<lambda>i. Op_select (Op_le (Load_value x 0 i type) (Load_value y 0 i type))
             (Load_value x 0 i type) (Load_value y 0 i type))
     (\<lambda>i. Op_select (Op_le (Load_value x 0 i type) (Load_value y 0 i type))
             (Load_value x 1 i type) (Load_value y 1 i type))
     (\<lambda>i. Op_select (Op_le (Load_value x 0 i type) (Load_value y 0 i type))
             (Load_value x 2 i type) (Load_value y 2 i type)) R) [0..<aggregate type])"
    by (rule for_components_upt_emitted [OF minmax_component_emitted [OF mn dR] loop])
  moreover from d have "d = 0 \<or> d = 1 \<or> d = 2" by auto
  ultimately have "channels_after (emitted st') m (R, d, i)
      = Stored (Op_select (Op_le (Load_value x 0 i type) (Load_value y 0 i type))
                  (Load_value x d i type) (Load_value y d i type))"
    using i by (auto simp: channels_after_append channels_after_dual_blocks)
  then show ?thesis
    using select_le_eval [of rt x i type y d] by (simp add: Let_def)
qed

lemma ex_min_run:
  "llvm_gen_minmax ex_rop 7 ex_st
     = Some (True, snd (the (llvm_gen_minmax ex_rop 7 ex_st)))"
  by (simp add: llvm_gen_minmax_def minmax_component_def op_min_def gen_defs)

theorem min_ties_to_first_operand_witness:
  "rt_load ex_rt_equal 1 0 0 TypeFloat = rt_load ex_rt_equal 2 0 0 TypeFloat
   \<and> channels_after (emitted (snd (the (llvm_gen_minmax ex_rop 7 ex_st)))) no_stores (0, 1, 0)
     = Stored (Op_select (Op_le (Load_value 1 0 0 TypeFloat) (Load_value 2 0 0 TypeFloat))
                 (Load_value 1 1 0 TypeFloat) (Load_value 2 1 0 TypeFloat))
   \<and> eval ex_rt_equal
        (Op_select (Op_le (Load_value 1 0 0 TypeFloat) (Load_value 2 0 0 TypeFloat))
           (Load_value 1 1 0 TypeFloat) (Load_value 2 1 0 TypeFloat))
     = Some (Num (rt_load ex_rt_equal 1 1 0 TypeFloat))"
proof -
  have op: "opcode_at ex_rop 7 = Some (ex_op ''min'' [0, 1, 2])"
    by (simp add: opcode_at_def ex_rop_def)
  have R: "opargsym ex_rop (ex_op ''min'' [0, 1, 2]) 0 = Some 0"
    and x: "opargsym ex_rop (ex_op ''min'' [0, 1, 2]) 1 = Some 1"
    and y: "opargsym ex_rop (ex_op ''min'' [0, 1, 2]) 2 = Some 2"
    by (simp_all add: opargsym_def ex_rop_def ex_op_def)
  have mn: "opname (ex_op ''min'' [0, 1, 2]) = op_min"
    and ty: "TypeFloat = simpletype (typespec (symbol_of ex_rop 0))"
    and dR: "has_derivs (symbol_of ex_rop 0)"
    and i: "0 < aggregate TypeFloat"
    and d: "(1::nat) < 3"
    by (simp_all add: gen_defs op_min_def)
  have le: "rt_le ex_rt_equal (rt_load ex_rt_equal 1 0 0 TypeFloat)
              (rt_load ex_rt_equal 2 0 0 TypeFloat)"
    and eq: "rt_load ex_rt_equal 1 0 0 TypeFloat = rt_load ex_rt_equal 2 0 0 TypeFloat"
    by (simp_all add: ex_rt_equal_def ex_rt_def)
  from min_ties_to_first_operand [OF op R x y mn ty dR ex_min_run i d, of no_stores ex_rt_equal]
  show ?thesis using le eq by (simp add: Let_def)
qed

subsection \<open>closure: an unregistered name\<close>

text \<open>
  C9.  A closure opcode whose closure name is not in the registry: the generator returns
  false, adds one error whose arguments name the closure, the source file and the source
  line, and emits nothing, so no allocation of closure storage.
\<close>

theorem unknown_closure_is_error:
  assumes op: "opcode_at rop opnum = Some op"
    and R: "opargsym rop op 0 = Some R"
    and a1: "opargsym rop op 1 = Some arg1"
    and w: "weighted = (if is_string (typespec (symbol_of rop arg1)) then 0 else 1)"
    and Id: "opargsym rop op (1 + weighted) = Some Idsym"
    and nm: "get_string (symbol_of rop Idsym) = Some closure_name"
    and nf: "find_closure rop closure_name = None"
  shows "\<exists>fmt args st'.
           llvm_gen_closure rop opnum st = Some (False, st')
         \<and> emitted st' = emitted st \<and> nblocks st' = nblocks st
         \<and> diagnostics st' = diagnostics st @ [Errorfmt fmt args]
         \<and> Arg_string closure_name \<in> set args
         \<and> Arg_string (sourcefile op) \<in> set args
         \<and> Arg_int (sourceline op) \<in> set args"
  using assms by (simp add: llvm_gen_closure_def errorfmt_def)

theorem unknown_closure_is_error_witness:
  "fst (the (llvm_gen_closure ex_rop 8 ex_st)) = False
   \<and> emitted (snd (the (llvm_gen_closure ex_rop 8 ex_st))) = []
   \<and> diagnostics (snd (the (llvm_gen_closure ex_rop 8 ex_st))) =
       [Errorfmt
          (''Closure '' @ [CHR 0x27] @ ''{}'' @ [CHR 0x27]
           @ '' is not supported by the current renderer, called from {}:{} in shader ''
           @ [CHR 0x22] @ ''{}'' @ [CHR 0x22] @ '', layer {} '' @ [CHR 0x22] @ ''{}''
           @ [CHR 0x22] @ '', group '' @ [CHR 0x22] @ ''{}'' @ [CHR 0x22])
          [Arg_string ''nosuch'', Arg_string ''test.osl'', Arg_int 12, Arg_string ''test'',
           Arg_int 0, Arg_string ''layer1'', Arg_string ''group1'']]"
proof -
  have op: "opcode_at ex_rop 8 = Some (ex_op ''closure'' [5, 6])"
    by (simp add: opcode_at_def ex_rop_def)
  have R: "opargsym ex_rop (ex_op ''closure'' [5, 6]) 0 = Some 5"
    and a1: "opargsym ex_rop (ex_op ''closure'' [5, 6]) 1 = Some 6"
    by (simp_all add: opargsym_def ex_rop_def ex_op_def)
  have w: "(0::nat) = (if is_string (typespec (symbol_of ex_rop 6)) then 0 else 1)"
    by (simp add: gen_defs)
  have Id: "opargsym ex_rop (ex_op ''closure'' [5, 6]) (1 + 0) = Some 6"
    by (simp add: opargsym_def ex_rop_def ex_op_def)
  have nm: "get_string (symbol_of ex_rop 6) = Some ''nosuch''"
    by (simp add: get_string_def gen_defs)
  have nf: "find_closure ex_rop ''nosuch'' = None"
    by (simp add: ex_rop_def)
  from unknown_closure_is_error [OF op R a1 w Id nm nf, of ex_st]
  show ?thesis
    by (auto simp: llvm_gen_closure_def errorfmt_def get_string_def gen_defs)
qed

subsection \<open>parameters: the loop over the supplied values\<close>

lemma findparam_in_range:
  "findparam_in syms nm xs = Some r \<Longrightarrow> 0 \<le> r \<Longrightarrow> r \<in> set xs \<and> r < int (length syms)"
  by (induction xs) (auto split: if_splits)

lemma findparam_range:
  assumes "findparam inst nm True = Some i" and "0 \<le> i"
  shows "i < m_lastparam inst"
proof -
  from assms obtain syms where "findparam_in syms nm [m_firstparam inst..m_lastparam inst - 1] = Some i"
    by (auto simp: findparam_def split: bind_splits if_splits)
  from findparam_in_range [OF this assms(2)] show ?thesis by simp
qed

lemma c_div_nonneg: "0 \<le> a \<Longrightarrow> 0 < b \<Longrightarrow> c_div a b = a div b"
  by (cases "a = 0") (simp_all add: c_div_def)

lemma seed_params_Some:
  assumes "nat (max 0 (m_lastparam inst)) \<le> length (m_symbols (m_master inst))"
  shows "\<exists>ov. seed_params inst = Some (inst\<lparr>m_iparams := m_idefaults (m_master inst),
                   m_fparams := m_fdefaults (m_master inst),
                   m_sparams := m_sdefaults (m_master inst),
                   m_instoverrides := ov\<rparr>)
           \<and> length ov = nat (max 0 (m_lastparam inst))"
proof -
  let ?n = "nat (max 0 (m_lastparam inst))"
  let ?ov = "map2 seed_override (resize_overrides ?n (m_instoverrides inst))
               (take ?n (m_symbols (m_master inst)))"
  have "length ?ov = ?n" using assms by (auto simp: resize_overrides_def min_def)
  moreover have "seed_params inst = Some (inst\<lparr>m_iparams := m_idefaults (m_master inst),
                   m_fparams := m_fdefaults (m_master inst),
                   m_sparams := m_sdefaults (m_master inst),
                   m_instoverrides := ?ov\<rparr>)"
    using assms by (simp add: seed_params_def Let_def)
  ultimately show ?thesis by blast
qed

lemma bind_param_accepted:
  assumes "pv_name p \<noteq> []"
    and "findparam inst0 (pv_name p) True = Some i" and "0 \<le> i"
    and "mastersymbol inst0 i = Some sm"
    and "instoverride inst0 i = Some so0"
    and "\<not> is_closure_based (typespec sm)" and "\<not> is_structure (typespec sm)"
    and "typecheck_value ss sm p = Some (Accepted dat0 vt0 errs)"
  shows "bind_param ss hints pi p (inst0, diags) =
           map_option (\<lambda>inst'. (inst', diags @ errs))
             (bind_value hints pi i sm (simpletype (typespec sm)) vt0 dat0 inst0)"
  using assms by (simp add: bind_param_def)

lemma cells_of_Words:
  assumes "cells_of k d = Some (Words ws)"
  shows "k mod 4 = 0" and "length ws = k div 4" and "cells_of k (Words ws) = Some (Words ws)"
  using assms by (auto simp: cells_of_def split: value_data.splits if_splits)

lemma cells_of_Ustrings:
  assumes "cells_of k d = Some (Ustrings us)"
  shows "k mod 8 = 0" and "length us = k div 8" and "cells_of k (Ustrings us) = Some (Ustrings us)"
  using assms by (auto simp: cells_of_def split: value_data.splits if_splits)

lemma typedesc_size_basevalues:
  "typedesc_size t = basevalues t * basesize (basetype t)"
  by (simp add: typedesc_size_def basevalues_def)

lemma findparam_seed [simp]:
  "findparam (inst\<lparr>m_iparams := a, m_fparams := b, m_sparams := c, m_instoverrides := d\<rparr>) nm sm
     = findparam inst nm sm"
  by (auto simp: findparam_def split: bind_splits)

text \<open>What a binding keeps of the instance, and which override records it leaves.\<close>

lemma keeps_shape_refl [simp]: "keeps_shape inst inst"
  by (simp add: keeps_shape_def)

lemma keeps_shape_trans: "keeps_shape a b \<Longrightarrow> keeps_shape b c \<Longrightarrow> keeps_shape a c"
  by (auto simp: keeps_shape_def)

lemma write_storage_shape:
  assumes "write_storage inst ptr v = Some inst'"
  shows "keeps_shape inst inst' \<and> m_instoverrides inst' = m_instoverrides inst"
  using assms
  by (auto simp: write_storage_def overwrite_def keeps_shape_def
      split: storage_ptr.splits value_data.splits if_splits)

lemma bind_unsized_shape:
  assumes "bind_unsized pt vt so inst = Some (so', inst')"
  shows "keeps_shape inst inst' \<and> m_instoverrides inst' = m_instoverrides inst"
  using assms
  by (auto simp: bind_unsized_def expand_def keeps_shape_def Let_def split: if_splits)

lemma bind_value_shape:
  assumes "bind_value hints pi i sm pt vt0 dat0 inst = Some inst'"
  shows "keeps_shape inst inst'"
    and "\<And>j. j \<noteq> nat i \<Longrightarrow> m_instoverrides inst' ! j = m_instoverrides inst ! j"
proof -
  from assms obtain so2 inst1 ptr v where
    step: "keeps_shape inst inst1 \<and> m_instoverrides inst1 = m_instoverrides inst"
    and wr: "write_storage (inst1\<lparr>m_instoverrides := (m_instoverrides inst1)[nat i := so2]\<rparr>) ptr v
               = Some inst'"
  proof (cases "arraylen pt < 0")
    case True
    with assms that show ?thesis
      by (auto simp: bind_value_def Let_def split: bind_splits dest!: bind_unsized_shape)
  next
    case False
    with assms that [of inst] show ?thesis
      by (auto simp: bind_value_def Let_def split: bind_splits)
  qed
  from write_storage_shape [OF wr] step
  have "keeps_shape inst inst'
      \<and> (\<forall>j. j \<noteq> nat i \<longrightarrow> m_instoverrides inst' ! j = m_instoverrides inst ! j)"
    by (auto simp: keeps_shape_def)
  then show "keeps_shape inst inst'"
    and "\<And>j. j \<noteq> nat i \<Longrightarrow> m_instoverrides inst' ! j = m_instoverrides inst ! j"
    by blast+
qed

lemma findparam_shape:
  assumes "keeps_shape inst inst'"
  shows "findparam inst' nm b = findparam inst nm b"
  using assms by (auto simp: findparam_def keeps_shape_def split: bind_splits)

lemma bind_param_shape:
  assumes "bind_param ss hints pi p (inst, d) = Some (inst', d')"
  shows "keeps_shape inst inst'"
    and "\<And>j. pv_name p = [] \<or> findparam inst (pv_name p) True \<noteq> Some (int j)
           \<Longrightarrow> m_instoverrides inst' ! j = m_instoverrides inst ! j"
proof -
  have *: "keeps_shape inst inst'
      \<and> (\<forall>j. pv_name p = [] \<or> findparam inst (pv_name p) True \<noteq> Some (int j)
           \<longrightarrow> m_instoverrides inst' ! j = m_instoverrides inst ! j)"
  proof (cases "inst' = inst")
    case True
    then show ?thesis by simp
  next
    case False
    with assms obtain i sm vt dat where
      i: "findparam inst (pv_name p) True = Some i" "0 \<le> i" "pv_name p \<noteq> []"
      and bv: "bind_value hints pi i sm (simpletype (typespec sm)) vt dat inst = Some inst'"
      by (auto simp: bind_param_def split: bind_splits if_splits typecheck.splits)
    from bind_value_shape [OF bv] i show ?thesis
      by (auto simp: nat_eq_iff)
  qed
  from * show "keeps_shape inst inst'"
    and "\<And>j. pv_name p = [] \<or> findparam inst (pv_name p) True \<noteq> Some (int j)
           \<Longrightarrow> m_instoverrides inst' ! j = m_instoverrides inst ! j"
    by blast+
qed

lemma bind_params_shape:
  assumes "bind_params ss hints pi ps (inst, d) = Some (inst', d')"
  shows "keeps_shape inst inst'"
    and "\<And>j. \<forall>p\<in>set ps. pv_name p = [] \<or> findparam inst (pv_name p) True \<noteq> Some (int j)
           \<Longrightarrow> m_instoverrides inst' ! j = m_instoverrides inst ! j"
proof -
  have "keeps_shape inst inst'
      \<and> (\<forall>j. (\<forall>p\<in>set ps. pv_name p = [] \<or> findparam inst (pv_name p) True \<noteq> Some (int j))
           \<longrightarrow> m_instoverrides inst' ! j = m_instoverrides inst ! j)"
    using assms
  proof (induction ps arbitrary: pi inst d)
    case Nil
    then show ?case by simp
  next
    case (Cons p ps)
    from Cons.prems obtain inst1 d1 where
      b: "bind_param ss hints pi p (inst, d) = Some (inst1, d1)"
      and r: "bind_params ss hints (Suc pi) ps (inst1, d1) = Some (inst', d')"
      by (auto split: option.splits)
    note s1 = bind_param_shape [OF b]
    note IH = Cons.IH [OF r]
    from s1(1) IH have "keeps_shape inst inst'" by (blast intro: keeps_shape_trans)
    moreover have "m_instoverrides inst' ! j = m_instoverrides inst ! j"
      if "\<forall>q\<in>set (p # ps). pv_name q = [] \<or> findparam inst (pv_name q) True \<noteq> Some (int j)"
      for j
    proof -
      from that have "m_instoverrides inst1 ! j = m_instoverrides inst ! j"
        by (intro s1(2)) simp
      moreover from that have "m_instoverrides inst' ! j = m_instoverrides inst1 ! j"
        using IH by (simp add: findparam_shape [OF s1(1)])
      ultimately show ?thesis by simp
    qed
    ultimately show ?case by blast
  qed
  then show "keeps_shape inst inst'"
    and "\<And>j. \<forall>p\<in>set ps. pv_name p = [] \<or> findparam inst (pv_name p) True \<noteq> Some (int j)
           \<Longrightarrow> m_instoverrides inst' ! j = m_instoverrides inst ! j"
    by blast+
qed

lemma bind_params_append:
  "bind_params ss hints pi (xs @ ys) st =
     (case bind_params ss hints pi xs st of
        None \<Rightarrow> None
      | Some st' \<Rightarrow> bind_params ss hints (pi + length xs) ys st')"
  by (induction xs arbitrary: pi st) (simp_all split: option.splits)

lemma parameters_take_Suc:
  assumes "k < length params"
  shows "parameters ss inst (take (Suc k) params) hints =
     (case parameters ss inst (take k params) hints of
        None \<Rightarrow> None
      | Some st \<Rightarrow> bind_param ss hints k (params ! k) st)"
  using assms
  by (simp add: parameters_def take_Suc_conv_app_nth bind_params_append
      split: option.splits bind_splits)

lemma parameters_drop:
  assumes "k \<le> length params"
  shows "parameters ss inst params hints =
     (case parameters ss inst (take k params) hints of
        None \<Rightarrow> None
      | Some st \<Rightarrow> bind_params ss hints k (drop k params) st)"
proof -
  have "bind_params ss hints 0 params st =
     (case bind_params ss hints 0 (take k params) st of
        None \<Rightarrow> None
      | Some st' \<Rightarrow> bind_params ss hints k (drop k params) st')" for st
    using assms bind_params_append [of ss hints 0 "take k params" "drop k params" st]
    by (simp add: min_def split: option.splits)
  then show ?thesis
    by (simp add: parameters_def split: option.splits bind_splits)
qed

text \<open>The state in which the value at position \<open>k\<close> is bound.\<close>

lemma parameters_reached:
  assumes before: "parameters ss inst ps hints = Some (instk, errsk)"
  shows "m_master instk = m_master inst" and "m_instsymbols instk = m_instsymbols inst"
    and "\<And>nm b. findparam instk nm b = findparam inst nm b"
    and "\<And>j. mastersymbol instk j = mastersymbol inst j"
    and "length (m_instoverrides instk) = nat (max 0 (m_lastparam inst))"
    and "length (m_idefaults (m_master inst)) \<le> length (m_iparams instk)"
    and "length (m_fdefaults (m_master inst)) \<le> length (m_fparams instk)"
    and "length (m_sdefaults (m_master inst)) \<le> length (m_sparams instk)"
proof -
  from before obtain inst0 where s: "seed_params inst = Some inst0"
    and b: "bind_params ss hints 0 ps (inst0, []) = Some (instk, errsk)"
    by (auto simp: parameters_def split: bind_splits)
  from s have seed: "nat (max 0 (m_lastparam inst)) \<le> length (m_symbols (m_master inst))"
    by (auto simp: seed_params_def Let_def split: if_splits)
  from seed_params_Some [OF seed] s obtain ov where
    i0': "inst0 = inst\<lparr>m_iparams := m_idefaults (m_master inst),
                   m_fparams := m_fdefaults (m_master inst),
                   m_sparams := m_sdefaults (m_master inst),
                   m_instoverrides := ov\<rparr>"
    and l: "length ov = nat (max 0 (m_lastparam inst))"
    by auto
  note sh = bind_params_shape(1) [OF b]
  from sh i0' l show "m_master instk = m_master inst" "m_instsymbols instk = m_instsymbols inst"
    "length (m_instoverrides instk) = nat (max 0 (m_lastparam inst))"
    "length (m_idefaults (m_master inst)) \<le> length (m_iparams instk)"
    "length (m_fdefaults (m_master inst)) \<le> length (m_fparams instk)"
    "length (m_sdefaults (m_master inst)) \<le> length (m_sparams instk)"
    by (simp_all add: keeps_shape_def)
  from findparam_shape [OF sh] i0' show "\<And>nm b. findparam instk nm b = findparam inst nm b"
    by simp
  from sh i0' show "\<And>j. mastersymbol instk j = mastersymbol inst j"
    by (simp add: keeps_shape_def mastersymbol_def)
qed

lemma parameters_reached_override:
  assumes before: "parameters ss inst ps hints = Some (instk, errsk)"
    and fp: "findparam inst nm True = Some i" and i0: "0 \<le> i"
  shows "\<exists>so. instoverride instk i = Some so"
  using parameters_reached(5) [OF before] findparam_range [OF fp i0] i0
  by (simp add: instoverride_def)

subsection \<open>parameters: an array of indefinite length\<close>

lemma bind_value_unsized_at:
  assumes so0: "instoverride inst0 i = Some so0" and i0: "0 \<le> i"
    and hk: "pi < length hints"
    and pre: "m_instsymbols inst0 = []"
    and sm: "mastersymbol inst0 i = Some sm"
    and pt: "paramtype = simpletype (typespec sm)"
    and unsized: "arraylen paramtype < 0"
    and pool: "inst_pool inst0 (basetype paramtype) = Some pool"
    and bt: "basetype vt = basetype paramtype"
    and cells: "cells_of (typedesc_size vt) dat = Some v"
    and fit: "append_cells pool v = Some pool'"
    and agg: "0 < aggregate paramtype" "aggregate paramtype \<le> basevalues vt"
    and small: "basevalues vt < 2 ^ 31" "count_cells pool < 2 ^ 31"
  shows "\<exists>inst' so ptr. bind_value hints pi i sm paramtype vt dat inst0 = Some inst'
       \<and> inst_pool inst' (basetype paramtype) = Some pool'
       \<and> instoverride inst' i = Some so
       \<and> so_valuesource so = InstanceVal
       \<and> so_dataoffset so = int (count_cells pool)
       \<and> so_arraylen so = int (basevalues vt) div int (aggregate paramtype)
       \<and> so_arraylen so \<noteq> 0
       \<and> param_storage inst' i = Some ptr
       \<and> ptr = pool_ptr paramtype (int (count_cells pool))
       \<and> inst_read inst' ptr (typedesc_size vt) = Some v"
proof -
  have nv: "\<not> is_vec3 paramtype" using unsized by (simp add: is_vec3_def)
  have ne: "sint (int_of_size (basevalues vt)) = int (basevalues vt)"
    using small by (simp add: sint_int_of_size)
  have cd: "c_div (int (basevalues vt)) (int (aggregate paramtype))
              = int (basevalues vt) div int (aggregate paramtype)"
    using agg by (simp add: c_div_nonneg)
  have pos: "int (basevalues vt) div int (aggregate paramtype) \<noteq> 0"
    using agg by (simp add: div_eq_0_iff zdiv_int [symmetric] del: zdiv_int)
  from so0 have ir: "nat i < length (m_instoverrides inst0)" "m_instoverrides inst0 \<noteq> []"
    using i0 by (auto simp: instoverride_def split: if_splits)
  consider (f) "basetype paramtype = FLOAT" | (n) "basetype paramtype = INT32"
    | (s) "basetype paramtype = STRING"
    using pool by (auto simp: inst_pool_def pool_of_def split: if_splits)
  then show ?thesis
  proof cases
    case f
    with pool have p: "pool = Words (m_fparams inst0)"
      by (simp add: inst_pool_def pool_of_def)
    with fit obtain ws where v: "v = Words ws" and p': "pool' = Words (m_fparams inst0 @ ws)"
      by (auto simp: append_cells_def split: value_data.splits)
    from cells_of_Words [OF cells [unfolded v]] f bt
    have len: "length ws = basevalues vt"
      and rd: "cells_of (typedesc_size vt) (Words ws) = Some (Words ws)"
      by (simp_all add: typedesc_size_basevalues basesize_def)
    have nl: "sint (int_of_size (length (m_fparams inst0))) = int (length (m_fparams inst0))"
      using small p by (simp add: sint_int_of_size count_cells_def)
    show ?thesis
      using so0 i0 hk pre sm pt unsized f cells len agg nv ne nl cd pos ir v p p' rd
      by (simp add: bind_value_def widen_float_def bind_unsized_def expand_def Let_def
          param_storage_def instoverride_def mastersymbol_def pool_ptr_def
          write_storage_def overwrite_def inst_pool_def pool_of_def count_cells_def
          inst_read_def read_storage_def slice_def)
  next
    case n
    with pool have p: "pool = Words (m_iparams inst0)"
      by (simp add: inst_pool_def pool_of_def)
    with fit obtain ws where v: "v = Words ws" and p': "pool' = Words (m_iparams inst0 @ ws)"
      by (auto simp: append_cells_def split: value_data.splits)
    from cells_of_Words [OF cells [unfolded v]] n bt
    have len: "length ws = basevalues vt"
      and rd: "cells_of (typedesc_size vt) (Words ws) = Some (Words ws)"
      by (simp_all add: typedesc_size_basevalues basesize_def)
    have nl: "sint (int_of_size (length (m_iparams inst0))) = int (length (m_iparams inst0))"
      using small p by (simp add: sint_int_of_size count_cells_def)
    show ?thesis
      using so0 i0 hk pre sm pt unsized n cells len agg nv ne nl cd pos ir v p p' rd
      by (simp add: bind_value_def widen_float_def bind_unsized_def expand_def Let_def
          param_storage_def instoverride_def mastersymbol_def pool_ptr_def
          write_storage_def overwrite_def inst_pool_def pool_of_def count_cells_def
          inst_read_def read_storage_def slice_def)
  next
    case s
    with pool have p: "pool = Ustrings (m_sparams inst0)"
      by (simp add: inst_pool_def pool_of_def)
    with fit obtain us where v: "v = Ustrings us" and p': "pool' = Ustrings (m_sparams inst0 @ us)"
      by (auto simp: append_cells_def split: value_data.splits)
    from cells_of_Ustrings [OF cells [unfolded v]] s bt
    have len: "length us = basevalues vt"
      and rd: "cells_of (typedesc_size vt) (Ustrings us) = Some (Ustrings us)"
      by (simp_all add: typedesc_size_basevalues basesize_def)
    have nl: "sint (int_of_size (length (m_sparams inst0))) = int (length (m_sparams inst0))"
      using small p by (simp add: sint_int_of_size count_cells_def)
    show ?thesis
      using so0 i0 hk pre sm pt unsized s cells len agg nv ne nl cd pos ir v p p' rd
      by (simp add: bind_value_def widen_float_def bind_unsized_def expand_def Let_def
          param_storage_def instoverride_def mastersymbol_def pool_ptr_def
          write_storage_def overwrite_def inst_pool_def pool_of_def count_cells_def
          inst_read_def read_storage_def slice_def)
  qed
qed

text \<open>Cells read at the end of a pool are still read there when the pool has grown.\<close>

lemma read_grown:
  assumes a: "append_cells pool v = Some pool'"
    and b: "append_cells pool' ext = Some poolf"
    and pf: "inst_pool instf bt = Some poolf"
    and c: "cells_of n dat = Some v"
    and bt: "bt = basetype paramtype"
  shows "inst_read instf (pool_ptr paramtype (int (count_cells pool))) n = Some v"
proof -
  consider (f) "bt = FLOAT" | (n) "bt = INT32" | (s) "bt = STRING"
    using pf by (auto simp: inst_pool_def pool_of_def split: if_splits)
  then show ?thesis
  proof cases
    case f
    with pf have p: "poolf = Words (m_fparams instf)" by (simp add: inst_pool_def pool_of_def)
    with a b obtain ps ws es where "pool = Words ps" "v = Words ws"
      "ps @ ws @ es = m_fparams instf"
      by (auto simp: append_cells_def split: value_data.splits)
    with cells_of_Words [OF c [unfolded \<open>v = Words ws\<close>]] f bt show ?thesis
      by (simp add: inst_read_def read_storage_def pool_ptr_def slice_def cells_of_def
          count_cells_def \<open>ps @ ws @ es = m_fparams instf\<close> [symmetric])
  next
    case n
    with pf have p: "poolf = Words (m_iparams instf)" by (simp add: inst_pool_def pool_of_def)
    with a b obtain ps ws es where "pool = Words ps" "v = Words ws"
      "ps @ ws @ es = m_iparams instf"
      by (auto simp: append_cells_def split: value_data.splits)
    with cells_of_Words [OF c [unfolded \<open>v = Words ws\<close>]] n bt show ?thesis
      by (simp add: inst_read_def read_storage_def pool_ptr_def slice_def cells_of_def
          count_cells_def \<open>ps @ ws @ es = m_iparams instf\<close> [symmetric])
  next
    case s
    with pf have p: "poolf = Ustrings (m_sparams instf)" by (simp add: inst_pool_def pool_of_def)
    with a b obtain ps us es where "pool = Ustrings ps" "v = Ustrings us"
      "ps @ us @ es = m_sparams instf"
      by (auto simp: append_cells_def split: value_data.splits)
    with cells_of_Ustrings [OF c [unfolded \<open>v = Ustrings us\<close>]] s bt show ?thesis
      by (simp add: inst_read_def read_storage_def pool_ptr_def slice_def cells_of_def
          count_cells_def \<open>ps @ us @ es = m_sparams instf\<close> [symmetric])
  qed
qed

text \<open>
  C8.  In any call of \<open>parameters\<close>, the value at any position \<open>k\<close> that is bound to a
  parameter that is an array of indefinite length, the value being of the parameter's base
  type and of sizes that fit an \<^verbatim>\<open>int\<close>: in the state the earlier values have left, the
  binding returns, the cells of the value are appended to the pool of that base type as it
  then is, the override record has the size that pool had as its data offset and the number
  of base values supplied divided by the aggregate of the parameter type as its array
  length, and reading the storage of the parameter gives the supplied cells back.  The
  call goes on with the later values from that state; and at its end the same read gives
  the same cells, when no later value names the parameter and the pool has only grown.
\<close>

theorem unsized_array_binding:
  assumes k: "k < length params" and hk: "k < length hints"
    and p: "p = params ! k"
    and before: "parameters ss inst (take k params) hints = Some (instk, errsk)"
    and nm: "pv_name p \<noteq> []"
    and pre: "m_instsymbols inst = []"
    and fp: "findparam inst (pv_name p) True = Some i" and i0: "0 \<le> i"
    and sm: "mastersymbol inst i = Some sm"
    and ncl: "\<not> is_closure_based (typespec sm)" and nst: "\<not> is_structure (typespec sm)"
    and pt: "paramtype = simpletype (typespec sm)"
    and tc: "typecheck_value ss sm p = Some (Accepted dat vt errs)"
    and unsized: "arraylen paramtype < 0"
    and pool: "inst_pool instk (basetype paramtype) = Some pool"
    and bt: "basetype vt = basetype paramtype"
    and cells: "cells_of (typedesc_size vt) dat = Some v"
    and fit: "append_cells pool v = Some pool'"
    and agg: "0 < aggregate paramtype" "aggregate paramtype \<le> basevalues vt"
    and small: "basevalues vt < 2 ^ 31" "count_cells pool < 2 ^ 31"
  shows "\<exists>inst' so ptr.
         parameters ss inst (take (Suc k) params) hints = Some (inst', errsk @ errs)
       \<and> parameters ss inst params hints
           = bind_params ss hints (Suc k) (drop (Suc k) params) (inst', errsk @ errs)
       \<and> inst_pool inst' (basetype paramtype) = Some pool'
       \<and> instoverride inst' i = Some so
       \<and> so_dataoffset so = int (count_cells pool)
       \<and> so_arraylen so = int (basevalues vt) div int (aggregate paramtype)
       \<and> param_storage inst' i = Some ptr
       \<and> inst_read inst' ptr (typedesc_size vt) = Some v
       \<and> (\<forall>instf errsf ext poolf.
             parameters ss inst params hints = Some (instf, errsf)
             \<and> (\<forall>j. k < j \<and> j < length params \<longrightarrow>
                    pv_name (params ! j) = []
                    \<or> findparam inst (pv_name (params ! j)) True \<noteq> Some i)
             \<and> inst_pool instf (basetype paramtype) = Some poolf
             \<and> append_cells pool' ext = Some poolf
             \<longrightarrow> instoverride instf i = Some so
               \<and> param_storage instf i = Some ptr
               \<and> inst_read instf ptr (typedesc_size vt) = Some v)"
proof -
  note r = parameters_reached [OF before]
  from parameters_reached_override [OF before fp i0]
  obtain so0 where so0: "instoverride instk i = Some so0" ..
  have prek: "m_instsymbols instk = []" using r(2) pre by simp
  have smk: "mastersymbol instk i = Some sm" using r(4) sm by simp
  have fpk: "findparam instk (pv_name p) True = Some i" using r(3) fp by simp
  from bind_value_unsized_at [OF so0 i0 hk prek smk pt unsized pool bt cells fit agg small]
  obtain inst' so ptr where
    bv: "bind_value hints k i sm paramtype vt dat instk = Some inst'"
    and pl: "inst_pool inst' (basetype paramtype) = Some pool'"
    and ov: "instoverride inst' i = Some so"
    and off: "so_dataoffset so = int (count_cells pool)"
    and len: "so_arraylen so = int (basevalues vt) div int (aggregate paramtype)"
    and nz: "so_arraylen so \<noteq> 0"
    and ps: "param_storage inst' i = Some ptr"
    and ptr: "ptr = pool_ptr paramtype (int (count_cells pool))"
    and rd: "inst_read inst' ptr (typedesc_size vt) = Some v"
    by blast
  have "bind_param ss hints k p (instk, errsk)
        = map_option (\<lambda>inst'. (inst', errsk @ errs))
            (bind_value hints k i sm (simpletype (typespec sm)) vt dat instk)"
    by (rule bind_param_accepted [OF nm fpk i0 smk so0 ncl nst tc])
  with bv pt have step: "bind_param ss hints k p (instk, errsk) = Some (inst', errsk @ errs)"
    by simp
  have run: "parameters ss inst (take (Suc k) params) hints = Some (inst', errsk @ errs)"
    using parameters_take_Suc [OF k, of ss inst hints] before step p by simp
  have rest: "parameters ss inst params hints
           = bind_params ss hints (Suc k) (drop (Suc k) params) (inst', errsk @ errs)"
    using parameters_drop [of "Suc k" params ss inst hints] k run by simp
  have sh: "keeps_shape instk inst'" by (rule bind_value_shape(1) [OF bv])
  have final: "instoverride instf i = Some so \<and> param_storage instf i = Some ptr
             \<and> inst_read instf ptr (typedesc_size vt) = Some v"
    if fin: "parameters ss inst params hints = Some (instf, errsf)"
      and later: "\<forall>j. k < j \<and> j < length params \<longrightarrow>
                    pv_name (params ! j) = []
                    \<or> findparam inst (pv_name (params ! j)) True \<noteq> Some i"
      and pf: "inst_pool instf (basetype paramtype) = Some poolf"
      and ext: "append_cells pool' ext = Some poolf"
    for instf errsf ext poolf
  proof -
    from fin rest have b: "bind_params ss hints (Suc k) (drop (Suc k) params) (inst', errsk @ errs)
                            = Some (instf, errsf)"
      by simp
    have fp': "findparam inst' nm True = findparam inst nm True" for nm
      using findparam_shape [OF sh] r(3) by simp
    have "\<forall>q\<in>set (drop (Suc k) params).
            pv_name q = [] \<or> findparam inst' (pv_name q) True \<noteq> Some (int (nat i))"
    proof
      fix q assume "q \<in> set (drop (Suc k) params)"
      then obtain j where "q = params ! j" "k < j" "j < length params"
        by (auto simp: in_set_conv_nth)
      with later i0 show "pv_name q = [] \<or> findparam inst' (pv_name q) True \<noteq> Some (int (nat i))"
        by (simp add: fp')
    qed
    from bind_params_shape [OF b] this
    have shf: "keeps_shape inst' instf"
      and same: "m_instoverrides instf ! nat i = m_instoverrides inst' ! nat i"
      by blast+
    from ov shf same i0 have ovf: "instoverride instf i = Some so"
      by (auto simp: instoverride_def keeps_shape_def split: if_splits)
    from shf sh r(1,2) pre have mf: "m_instsymbols instf = []" "m_master instf = m_master inst"
      by (simp_all add: keeps_shape_def)
    from ovf have ne: "m_instoverrides instf \<noteq> []"
      by (auto simp: instoverride_def split: if_splits)
    have psf: "param_storage instf i = Some ptr"
      using mf ovf ne nz off sm pt ptr
      by (simp add: param_storage_def mastersymbol_def)
    have "inst_read instf (pool_ptr paramtype (int (count_cells pool))) (typedesc_size vt) = Some v"
      by (rule read_grown [OF fit ext pf cells refl])
    with ovf psf ptr show ?thesis by simp
  qed
  from run rest pl ov off len ps rd final show ?thesis by blast
qed

subsection \<open>The example instances, evaluated\<close>

lemmas ex_inst_defs = float_spec_def float_array_spec_def ex_param_def ex_master_def
  ex_inst_def ex_ss_def ex_Kd_def ex_knots_def no_hints_def interactive_hint_def
  ex_override_def ex_unset_def ex_first_def ex_master_dead_def ex_dead_def
  ex_bound_def ex_interactive_def ex_output_def ex_connected_def
  ex_arrays_master_def ex_arrays_def ex_w_def ex_arrays_seeded_def ex_arrays_one_def
  ex_arrays_bound_def ex_bound_interactive_def

lemmas inst_defs = parameters_def seed_params_def bind_param_def bind_value_def bind_sized_def
  bind_unsized_def typecheck_value_def widen_float_def compatible_param_def equivalent_def
  is_vec3_def is_basetype_def findparam_def mastersymbol_def master_symbol_def
  instoverride_def symbol_def param_storage_def param_default_storage_def pool_ptr_def
  master_read_def inst_read_def read_storage_def write_storage_def overwrite_def slice_def
  cells_of_def same_bytes_def resize_overrides_def seed_override_def default_override_def
  typedesc_size_def basevalues_def numelements_def basesize_def is_closure_based_def
  is_structure_def is_array_def is_closure_def simpletype_def has_init_ops_def TypeFloat_def
  expand_def c_div_def int_of_size_def first_word_def is_unsized_array_def
  is_sized_array_def Let_def upto.simps numeral_2_eq_2

lemma ex_Kd_run: "parameters ex_ss ex_inst [ex_Kd] [no_hints] = Some (ex_unset, [])"
  by (simp add: inst_defs ex_inst_defs)

lemma ex_Kd_interactive_run:
  "parameters ex_ss ex_inst [ex_Kd] [interactive_hint]
     = Some (ex_interactive, [])"
  by (simp add: inst_defs ex_inst_defs)

lemma ex_knots_run:
  "parameters ex_ss ex_inst [ex_knots] [no_hints]
     = Some (ex_bound, [])"
  by (simp add: inst_defs ex_inst_defs)

lemmas merge_defs = mergeable_def param_values_differ_def optimized_mergeable_def
  equivalent_vec_def equivalent_symbol_def well_formed_def no_interactive_param_def
  optimized_def param_symbol_def is_compared_def storage_readable_def
  both_default_or_instance_def flags_differ_def disqualifying_def

lemma ex_merge_self: "mergeable ex_ss ex_unset ex_unset = Some True"
  by (simp add: merge_defs inst_defs ex_inst_defs)

lemma ex_merge_connected:
  "mergeable ex_ss (ex_connected True) (ex_connected False) = Some False"
  "mergeable ex_ss (ex_connected False) (ex_connected False) = Some True"
  by (simp_all add: merge_defs inst_defs ex_inst_defs)

lemma ex_arrays_runs:
  "parameters ex_ss ex_arrays [] [no_hints, no_hints] = Some (ex_arrays_seeded, [])"
  "parameters ex_ss ex_arrays [ex_knots] [no_hints, no_hints] = Some (ex_arrays_one, [])"
  "parameters ex_ss ex_arrays [ex_knots, ex_w] [no_hints, no_hints]
     = Some (ex_arrays_bound, [])"
  by (simp_all add: inst_defs ex_inst_defs)

lemma ex_two_runs:
  "parameters ex_ss ex_inst [ex_knots] [interactive_hint, no_hints]
     = Some (ex_bound_interactive, [])"
  "parameters ex_ss ex_inst [ex_knots, ex_Kd] [interactive_hint, no_hints]
     = Some (ex_bound_interactive, [])"
  "parameters ex_ss ex_inst [] [no_hints] = Some (ex_unset, [])"
  by (simp_all add: inst_defs ex_inst_defs)

theorem unsized_array_binding_witness:
  "parameters ex_ss ex_arrays [ex_knots, ex_w] [no_hints, no_hints] = Some (ex_arrays_bound, [])
   \<and> inst_pool ex_arrays_one FLOAT = Some (Words [0, 0, 1, 2, 3])
   \<and> inst_pool ex_arrays_bound FLOAT = Some (Words [0, 0, 1, 2, 3, 4, 5])
   \<and> instoverride ex_arrays_bound 0 = Some (ex_override InstanceVal False False 3 2)
   \<and> param_storage ex_arrays_bound 0 = Some (Float_ptr 2)
   \<and> inst_read ex_arrays_bound (Float_ptr 2) 12 = Some (Words [1, 2, 3])
   \<and> instoverride ex_arrays_bound 1 = Some (ex_override InstanceVal False False 2 5)
   \<and> param_storage ex_arrays_bound 1 = Some (Float_ptr 5)
   \<and> inst_read ex_arrays_bound (Float_ptr 5) 8 = Some (Words [4, 5])"
proof -
  let ?params = "[ex_knots, ex_w]" and ?hints = "[no_hints, no_hints]"
  let ?s0 = "ex_param ''knots'' float_array_spec 0" and ?s1 = "ex_param ''w'' float_array_spec 1"
  let ?pt = "simpletype (typespec ?s0)"
  have k: "0 < length ?params" "1 < length ?params" "0 < length ?hints" "1 < length ?hints"
    by simp_all
  have p: "ex_knots = ?params ! 0" "ex_w = ?params ! 1" by simp_all
  have before: "parameters ex_ss ex_arrays (take 0 ?params) ?hints = Some (ex_arrays_seeded, [])"
    "parameters ex_ss ex_arrays (take 1 ?params) ?hints = Some (ex_arrays_one, [])"
    using ex_arrays_runs by simp_all
  have nm: "pv_name ex_knots \<noteq> []" "pv_name ex_w \<noteq> []"
    and pre: "m_instsymbols ex_arrays = []"
    by (simp_all add: ex_inst_defs)
  have fp: "findparam ex_arrays (pv_name ex_knots) True = Some 0"
    "findparam ex_arrays (pv_name ex_w) True = Some 1"
    by (simp_all add: inst_defs ex_inst_defs)
  have sm: "mastersymbol ex_arrays 0 = Some ?s0" "mastersymbol ex_arrays 1 = Some ?s1"
    by (simp_all add: inst_defs ex_inst_defs)
  have ncl: "\<not> is_closure_based (typespec ?s0)" "\<not> is_closure_based (typespec ?s1)"
    and nst: "\<not> is_structure (typespec ?s0)" "\<not> is_structure (typespec ?s1)"
    by (simp_all add: inst_defs ex_inst_defs)
  have pt1: "?pt = simpletype (typespec ?s1)" by (simp add: ex_inst_defs)
  have tc: "typecheck_value ex_ss ?s0 ex_knots = Some (Accepted (Words [1, 2, 3]) (pv_type ex_knots) [])"
    "typecheck_value ex_ss ?s1 ex_w = Some (Accepted (Words [4, 5]) (pv_type ex_w) [])"
    by (simp_all add: inst_defs ex_inst_defs)
  have unsized: "arraylen ?pt < 0" by (simp add: inst_defs ex_inst_defs)
  have pool: "inst_pool ex_arrays_seeded (basetype ?pt) = Some (Words [0, 0])"
    "inst_pool ex_arrays_one (basetype ?pt) = Some (Words [0, 0, 1, 2, 3])"
    by (simp_all add: inst_pool_def pool_of_def inst_defs ex_inst_defs)
  have bt: "basetype (pv_type ex_knots) = basetype ?pt" "basetype (pv_type ex_w) = basetype ?pt"
    by (simp_all add: inst_defs ex_inst_defs)
  have cells: "cells_of (typedesc_size (pv_type ex_knots)) (Words [1, 2, 3]) = Some (Words [1, 2, 3])"
    "cells_of (typedesc_size (pv_type ex_w)) (Words [4, 5]) = Some (Words [4, 5])"
    by (simp_all add: inst_defs ex_inst_defs)
  have fit: "append_cells (Words [0, 0]) (Words [1, 2, 3]) = Some (Words [0, 0, 1, 2, 3])"
    "append_cells (Words [0, 0, 1, 2, 3]) (Words [4, 5]) = Some (Words [0, 0, 1, 2, 3, 4, 5])"
    by (simp_all add: append_cells_def)
  have agg: "0 < aggregate ?pt" "aggregate ?pt \<le> basevalues (pv_type ex_knots)"
    "aggregate ?pt \<le> basevalues (pv_type ex_w)"
    by (simp_all add: inst_defs ex_inst_defs)
  have small: "basevalues (pv_type ex_knots) < 2 ^ 31" "count_cells (Words [0, 0]) < 2 ^ 31"
    "basevalues (pv_type ex_w) < 2 ^ 31" "count_cells (Words [0, 0, 1, 2, 3]) < 2 ^ 31"
    by (simp_all add: count_cells_def basevalues_def numelements_def ex_knots_def ex_w_def)
  have later: "\<forall>j. 0 < j \<and> j < length ?params \<longrightarrow>
      pv_name (?params ! j) = [] \<or> findparam ex_arrays (pv_name (?params ! j)) True \<noteq> Some 0"
    using fp(2) by (auto simp: less_Suc_eq)
  have poolf: "inst_pool ex_arrays_bound (basetype ?pt) = Some (Words [0, 0, 1, 2, 3, 4, 5])"
    and ext: "append_cells (Words [0, 0, 1, 2, 3]) (Words [4, 5]) = Some (Words [0, 0, 1, 2, 3, 4, 5])"
    by (simp_all add: inst_pool_def pool_of_def append_cells_def inst_defs ex_inst_defs
       )
  have sizes: "typedesc_size (pv_type ex_knots) = 12" "typedesc_size (pv_type ex_w) = 8"
    "basetype ?pt = FLOAT"
    by (simp_all add: inst_defs ex_inst_defs)
  have i0: "(0::int) \<le> 0" "(0::int) \<le> 1" by simp_all
  from unsized_array_binding [OF k(1) k(3) p(1) before(1) nm(1) pre fp(1) i0(1) sm(1) ncl(1)
      nst(1) refl tc(1) unsized pool(1) bt(1) cells(1) fit(1) agg(1,2) small(1,2)]
  obtain so ptr where
    fin: "\<forall>instf errsf ext poolf.
             parameters ex_ss ex_arrays ?params ?hints = Some (instf, errsf)
             \<and> (\<forall>j. 0 < j \<and> j < length ?params \<longrightarrow>
                    pv_name (?params ! j) = []
                    \<or> findparam ex_arrays (pv_name (?params ! j)) True \<noteq> Some 0)
             \<and> inst_pool instf (basetype ?pt) = Some poolf
             \<and> append_cells (Words [0, 0, 1, 2, 3]) ext = Some poolf
             \<longrightarrow> instoverride instf 0 = Some so
               \<and> param_storage instf 0 = Some ptr
               \<and> inst_read instf ptr (typedesc_size (pv_type ex_knots)) = Some (Words [1, 2, 3])"
    by blast
  from fin ex_arrays_runs(3) later poolf ext
  have "param_storage ex_arrays_bound 0 = Some ptr
      \<and> inst_read ex_arrays_bound ptr (typedesc_size (pv_type ex_knots)) = Some (Words [1, 2, 3])"
    by blast
  then have first: "param_storage ex_arrays_bound 0 = Some ptr"
    "inst_read ex_arrays_bound ptr 12 = Some (Words [1, 2, 3])"
    by (simp_all add: sizes)
  have ptr0: "param_storage ex_arrays_bound 0 = Some (Float_ptr 2)"
    by (simp add: inst_defs ex_inst_defs)
  from unsized_array_binding [OF k(2) k(4) p(2) before(2) nm(2) pre fp(2) i0(2) sm(2) ncl(2)
      nst(2) pt1 tc(2) unsized pool(2) bt(2) cells(2) fit(2) agg(1,3) small(3,4)]
  obtain inst' ptr' where
    b: "parameters ex_ss ex_arrays (take (Suc 1) ?params) ?hints = Some (inst', [] @ [])"
      "inst_pool inst' (basetype ?pt) = Some (Words [0, 0, 1, 2, 3, 4, 5])"
      "param_storage inst' 1 = Some ptr'"
      "inst_read inst' ptr' (typedesc_size (pv_type ex_w)) = Some (Words [4, 5])"
    by blast
  from b(1) ex_arrays_runs(3) have i': "inst' = ex_arrays_bound" by simp
  have ptr1: "param_storage ex_arrays_bound 1 = Some (Float_ptr 5)"
    by (simp add: inst_defs ex_inst_defs)
  have ovs: "instoverride ex_arrays_bound 0 = Some (ex_override InstanceVal False False 3 2)"
    "instoverride ex_arrays_bound 1 = Some (ex_override InstanceVal False False 2 5)"
    by (simp_all add: inst_defs ex_inst_defs)
  from first ptr0 b i' ptr1 ovs pool(2) ex_arrays_runs(3) show ?thesis
    by (simp add: sizes)
qed

subsection \<open>parameters: a value equal to the default\<close>

lemma same_bytes_refl: "same_bytes v v = Some True"
  by (cases v) (simp_all add: same_bytes_def)

lemma overwrite_same:
  assumes "0 \<le> off" and "nat off \<le> length pool" and "k \<le> length (drop (nat off) pool)"
  shows "overwrite pool off (take k (drop (nat off) pool)) = Some pool"
proof -
  have "take (nat off) pool @ take k (drop (nat off) pool) @ drop (nat off + k) pool = pool"
    by (metis add.commute append_take_drop_id drop_drop)
  with assms show ?thesis by (simp add: overwrite_def min_def)
qed

text \<open>Writing back what was read leaves the instance as it is.\<close>

lemma write_back:
  assumes "inst_read inst ptr k = Some v"
  shows "write_storage inst ptr v = Some inst"
proof (cases ptr)
  case (Int_ptr off)
  with assms obtain ws where "slice (m_iparams inst) off = Some ws"
    and c: "cells_of k (Words ws) = Some v"
    by (auto simp: inst_read_def read_storage_def split: bind_splits)
  then have o: "0 \<le> off" "nat off \<le> length (m_iparams inst)"
    and ws: "ws = drop (nat off) (m_iparams inst)"
    by (auto simp: slice_def split: if_splits)
  from c have v: "v = Words (take (k div 4) ws)" and l: "k div 4 \<le> length ws"
    by (auto simp: cells_of_def split: if_splits)
  from overwrite_same [OF o l [unfolded ws]] show ?thesis
    using Int_ptr v ws by (simp add: write_storage_def)
next
  case (Float_ptr off)
  with assms obtain ws where "slice (m_fparams inst) off = Some ws"
    and c: "cells_of k (Words ws) = Some v"
    by (auto simp: inst_read_def read_storage_def split: bind_splits)
  then have o: "0 \<le> off" "nat off \<le> length (m_fparams inst)"
    and ws: "ws = drop (nat off) (m_fparams inst)"
    by (auto simp: slice_def split: if_splits)
  from c have v: "v = Words (take (k div 4) ws)" and l: "k div 4 \<le> length ws"
    by (auto simp: cells_of_def split: if_splits)
  from overwrite_same [OF o l [unfolded ws]] show ?thesis
    using Float_ptr v ws by (simp add: write_storage_def)
next
  case (String_ptr off)
  with assms obtain us where "slice (m_sparams inst) off = Some us"
    and c: "cells_of k (Ustrings us) = Some v"
    by (auto simp: inst_read_def read_storage_def split: bind_splits)
  then have o: "0 \<le> off" "nat off \<le> length (m_sparams inst)"
    and us: "us = drop (nat off) (m_sparams inst)"
    by (auto simp: slice_def split: if_splits)
  from c have v: "v = Ustrings (take (k div 8) us)" and l: "k div 8 \<le> length us"
    by (auto simp: cells_of_def split: if_splits)
  from overwrite_same [OF o l [unfolded us]] show ?thesis
    using String_ptr v us by (simp add: write_storage_def)
next
  case Null_ptr
  with assms show ?thesis
    by (auto simp: inst_read_def read_storage_def write_storage_def split: if_splits)
qed

lemma overwrite_read:
  assumes "0 \<le> off" and "nat off + length xs \<le> length pool"
  shows "\<exists>pool'. overwrite pool off xs = Some pool' \<and> length pool' = length pool
       \<and> off \<le> int (length pool') \<and> length xs \<le> length pool' - nat off
       \<and> take (length xs) (drop (nat off) pool') = xs"
proof -
  have "xs = []" if "length pool \<le> nat off"
  proof -
    from that assms(2) have "length xs = 0" by arith
    then show ?thesis by simp
  qed
  with assms show ?thesis by (auto simp: overwrite_def min_def)
qed

text \<open>
  Writing the cells of a default into the slot of that default, in pools no shorter than
  the master's.
\<close>

lemma write_default_slot:
  assumes dflt: "master_read (m_master inst) ptr n = Some v"
    and grown: "length (m_idefaults (m_master inst)) \<le> length (m_iparams inst)"
      "length (m_fdefaults (m_master inst)) \<le> length (m_fparams inst)"
      "length (m_sdefaults (m_master inst)) \<le> length (m_sparams inst)"
  shows "\<exists>inst'. write_storage inst ptr v = Some inst'
       \<and> m_instoverrides inst' = m_instoverrides inst
       \<and> inst_read inst' ptr n = Some v"
proof (cases ptr)
  case (Int_ptr off)
  with dflt obtain ds where sl: "slice (m_idefaults (m_master inst)) off = Some ds"
    and c: "cells_of n (Words ds) = Some v"
    by (auto simp: master_read_def read_storage_def split: bind_splits)
  from sl have o: "0 \<le> off" "nat off \<le> length (m_idefaults (m_master inst))"
    and ds: "ds = drop (nat off) (m_idefaults (m_master inst))"
    by (auto simp: slice_def split: if_splits)
  from c obtain ws where v: "v = Words ws" and l: "length ws = n div 4" and m: "n mod 4 = 0"
    and le: "n div 4 \<le> length ds"
    by (auto simp: cells_of_def split: if_splits)
  from le ds o grown have "nat off + length ws \<le> length (m_iparams inst)"
    by (simp add: l)
  from overwrite_read [OF o(1) this] obtain pool' where
    "overwrite (m_iparams inst) off ws = Some pool'" "off \<le> int (length pool')"
    "length ws \<le> length pool' - nat off" "take (length ws) (drop (nat off) pool') = ws"
    by blast
  with Int_ptr v l m o show ?thesis
    by (simp add: write_storage_def inst_read_def read_storage_def slice_def cells_of_def)
next
  case (Float_ptr off)
  with dflt obtain ds where sl: "slice (m_fdefaults (m_master inst)) off = Some ds"
    and c: "cells_of n (Words ds) = Some v"
    by (auto simp: master_read_def read_storage_def split: bind_splits)
  from sl have o: "0 \<le> off" "nat off \<le> length (m_fdefaults (m_master inst))"
    and ds: "ds = drop (nat off) (m_fdefaults (m_master inst))"
    by (auto simp: slice_def split: if_splits)
  from c obtain ws where v: "v = Words ws" and l: "length ws = n div 4" and m: "n mod 4 = 0"
    and le: "n div 4 \<le> length ds"
    by (auto simp: cells_of_def split: if_splits)
  from le ds o grown have "nat off + length ws \<le> length (m_fparams inst)"
    by (simp add: l)
  from overwrite_read [OF o(1) this] obtain pool' where
    "overwrite (m_fparams inst) off ws = Some pool'" "off \<le> int (length pool')"
    "length ws \<le> length pool' - nat off" "take (length ws) (drop (nat off) pool') = ws"
    by blast
  with Float_ptr v l m o show ?thesis
    by (simp add: write_storage_def inst_read_def read_storage_def slice_def cells_of_def)
next
  case (String_ptr off)
  with dflt obtain ds where sl: "slice (m_sdefaults (m_master inst)) off = Some ds"
    and c: "cells_of n (Ustrings ds) = Some v"
    by (auto simp: master_read_def read_storage_def split: bind_splits)
  from sl have o: "0 \<le> off" "nat off \<le> length (m_sdefaults (m_master inst))"
    and ds: "ds = drop (nat off) (m_sdefaults (m_master inst))"
    by (auto simp: slice_def split: if_splits)
  from c obtain us where v: "v = Ustrings us" and l: "length us = n div 8" and m: "n mod 8 = 0"
    and le: "n div 8 \<le> length ds"
    by (auto simp: cells_of_def split: if_splits)
  from le ds o grown have "nat off + length us \<le> length (m_sparams inst)"
    by (simp add: l)
  from overwrite_read [OF o(1) this] obtain pool' where
    "overwrite (m_sparams inst) off us = Some pool'" "off \<le> int (length pool')"
    "length us \<le> length pool' - nat off" "take (length us) (drop (nat off) pool') = us"
    by blast
  with String_ptr v l m o show ?thesis
    by (simp add: write_storage_def inst_read_def read_storage_def slice_def cells_of_def)
next
  case Null_ptr
  with dflt show ?thesis
    by (auto simp: master_read_def read_storage_def write_storage_def inst_read_def
        split: if_splits)
qed

lemma bind_value_default_at:
  assumes so0: "instoverride inst0 i = Some so0" and i0: "0 \<le> i"
    and hk: "pi < length hints"
    and pre: "m_instsymbols inst0 = []"
    and sm: "mastersymbol inst0 i = Some sm"
    and pt: "paramtype = simpletype (typespec sm)"
    and wf: "widen_float paramtype vt0 dat0 = Some (dat, vt)"
    and sized: "0 \<le> arraylen paramtype"
    and noinit: "\<not> has_init_ops sm"
    and ni: "\<not> interpolated sm"
    and hi: "\<not> hint_interpolated (hints ! pi)" and ha: "\<not> hint_interactive (hints ! pi)"
    and dflt: "master_read (m_master inst0) (pool_ptr paramtype (dataoffset sm))
                 (typedesc_size vt) = Some v"
    and cells: "cells_of (typedesc_size vt) dat = Some v"
    and grown: "length (m_idefaults (m_master inst0)) \<le> length (m_iparams inst0)"
      "length (m_fdefaults (m_master inst0)) \<le> length (m_fparams inst0)"
      "length (m_sdefaults (m_master inst0)) \<le> length (m_sparams inst0)"
  shows "\<exists>inst'. bind_value hints pi i sm paramtype vt0 dat0 inst0 = Some inst'
       \<and> m_instoverrides inst'
           = (m_instoverrides inst0)
               [nat i := so0\<lparr>so_valuesource := DefaultVal, so_interpolated := False,
                               so_interactive := False, so_dataoffset := dataoffset sm\<rparr>]
       \<and> inst_read inst' (pool_ptr paramtype (dataoffset sm)) (typedesc_size vt) = Some v
       \<and> (inst_read inst0 (pool_ptr paramtype (dataoffset sm)) (typedesc_size vt) = Some v
            \<longrightarrow> inst' = inst0\<lparr>m_instoverrides := (m_instoverrides inst0)
               [nat i := so0\<lparr>so_valuesource := DefaultVal, so_interpolated := False,
                               so_interactive := False, so_dataoffset := dataoffset sm\<rparr>]\<rparr>)"
proof -
  let ?so2 = "so0\<lparr>so_valuesource := DefaultVal, so_interpolated := False,
                   so_interactive := False, so_dataoffset := dataoffset sm\<rparr>"
  let ?inst2 = "inst0\<lparr>m_instoverrides := (m_instoverrides inst0)[nat i := ?so2]\<rparr>"
  let ?ptr = "pool_ptr paramtype (dataoffset sm)"
  from so0 have ir: "nat i < length (m_instoverrides inst0)" "m_instoverrides inst0 \<noteq> []"
    using i0 by (auto simp: instoverride_def split: if_splits)
  from so0 have ir': "i < int (length (m_instoverrides inst0))"
    by (auto simp: instoverride_def split: if_splits)
  have ps: "param_storage ?inst2 i = Some ?ptr"
    using ir ir' i0 pre sm pt
    by (simp add: param_storage_def instoverride_def mastersymbol_def)
  have "master_read (m_master ?inst2) ?ptr (typedesc_size vt) = Some v"
    using dflt by simp
  from write_default_slot [OF this] grown obtain inst' where
    wr: "write_storage ?inst2 ?ptr v = Some inst'"
    and ov: "m_instoverrides inst' = m_instoverrides ?inst2"
    and rd: "inst_read inst' ?ptr (typedesc_size vt) = Some v"
    by auto
  have same: "inst' = ?inst2"
    if "inst_read inst0 ?ptr (typedesc_size vt) = Some v"
  proof -
    from that have "inst_read ?inst2 ?ptr (typedesc_size vt) = Some v"
      by (simp add: inst_read_def)
    from write_back [OF this] wr show ?thesis by simp
  qed
  have pd: "param_default_storage (m_master inst0) i = Some ?ptr"
    using sm pt by (simp add: param_default_storage_def mastersymbol_def)
  have bs: "bind_sized inst0 i sm True vt dat
              (so0\<lparr>so_valuesource := InstanceVal, so_interpolated := False,
                    so_interactive := False, so_dataoffset := dataoffset sm\<rparr>) = Some ?so2"
    using pd noinit dflt cells by (simp add: bind_sized_def same_bytes_refl)
  have "bind_value hints pi i sm paramtype vt0 dat0 inst0 = Some inst'"
    using so0 hk wf sized ni hi ha bs ps cells wr
    by (simp add: bind_value_def Let_def)
  with ov rd same show ?thesis by simp
qed

text \<open>
  C5, amended.  In any call of \<open>parameters\<close>, the value at any position \<open>k\<close> that is
  bound to a parameter of definite size, when the bytes supplied are those of the master's
  default, the parameter has no init ops, and the override is neither interpolated (by the
  master's symbol or by the hint of that position) nor interactive (by that hint): in the
  state the earlier values have left, the binding returns, the value source of the
  override record is Default, and the storage of the parameter holds the default.  The
  call goes on with the later values from that state, and the record is the same at its
  end when no later value names the parameter.  If the record was still the seeded one and
  the storage held the default, the binding leaves the instance as it was: the instance is
  the one of the call without that value.
\<close>

theorem exact_default_reverts_to_default:
  assumes k: "k < length params" and hk: "k < length hints"
    and p: "p = params ! k"
    and before: "parameters ss inst (take k params) hints = Some (instk, errsk)"
    and nm: "pv_name p \<noteq> []"
    and pre: "m_instsymbols inst = []"
    and fp: "findparam inst (pv_name p) True = Some i" and i0: "0 \<le> i"
    and sm: "mastersymbol inst i = Some sm"
    and ncl: "\<not> is_closure_based (typespec sm)" and nst: "\<not> is_structure (typespec sm)"
    and pt: "paramtype = simpletype (typespec sm)"
    and tc: "typecheck_value ss sm p = Some (Accepted dat0 vt0 errs)"
    and wf: "widen_float paramtype vt0 dat0 = Some (dat, vt)"
    and sized: "0 \<le> arraylen paramtype"
    and noinit: "\<not> has_init_ops sm"
    and ni: "\<not> interpolated sm"
    and hi: "\<not> hint_interpolated (hints ! k)" and ha: "\<not> hint_interactive (hints ! k)"
    and dflt: "master_read (m_master inst) (pool_ptr paramtype (dataoffset sm))
                 (typedesc_size vt) = Some v"
    and cells: "cells_of (typedesc_size vt) dat = Some v"
  shows "\<exists>inst' so.
         parameters ss inst (take (Suc k) params) hints = Some (inst', errsk @ errs)
       \<and> parameters ss inst params hints
           = bind_params ss hints (Suc k) (drop (Suc k) params) (inst', errsk @ errs)
       \<and> instoverride inst' i = Some so \<and> so_valuesource so = DefaultVal
       \<and> inst_read inst' (pool_ptr paramtype (dataoffset sm)) (typedesc_size vt) = Some v
       \<and> (\<forall>instf errsf.
             parameters ss inst params hints = Some (instf, errsf)
             \<and> (\<forall>j. k < j \<and> j < length params \<longrightarrow>
                    pv_name (params ! j) = []
                    \<or> findparam inst (pv_name (params ! j)) True \<noteq> Some i)
             \<longrightarrow> instoverride instf i = Some so)
       \<and> (map_option (\<lambda>so. (so_valuesource so, so_interpolated so, so_interactive so,
                               so_dataoffset so)) (instoverride instk i)
             = Some (DefaultVal, False, False, dataoffset sm)
           \<and> inst_read instk (pool_ptr paramtype (dataoffset sm)) (typedesc_size vt) = Some v
           \<longrightarrow> inst' = instk)"
proof -
  note r = parameters_reached [OF before]
  from parameters_reached_override [OF before fp i0]
  obtain so0 where so0: "instoverride instk i = Some so0" ..
  have prek: "m_instsymbols instk = []" using r(2) pre by simp
  have smk: "mastersymbol instk i = Some sm" using r(4) sm by simp
  have fpk: "findparam instk (pv_name p) True = Some i" using r(3) fp by simp
  have dfk: "master_read (m_master instk) (pool_ptr paramtype (dataoffset sm))
                 (typedesc_size vt) = Some v"
    using dflt r(1) by simp
  let ?so = "so0\<lparr>so_valuesource := DefaultVal, so_interpolated := False,
                  so_interactive := False, so_dataoffset := dataoffset sm\<rparr>"
  from bind_value_default_at [OF so0 i0 hk prek smk pt wf sized noinit ni hi ha dfk cells]
    r(1,6,7,8)
  obtain inst' where
    bv: "bind_value hints k i sm paramtype vt0 dat0 instk = Some inst'"
    and ovs: "m_instoverrides inst' = (m_instoverrides instk)[nat i := ?so]"
    and rd: "inst_read inst' (pool_ptr paramtype (dataoffset sm)) (typedesc_size vt) = Some v"
    and same: "inst_read instk (pool_ptr paramtype (dataoffset sm)) (typedesc_size vt) = Some v
            \<Longrightarrow> inst' = instk\<lparr>m_instoverrides := (m_instoverrides instk)[nat i := ?so]\<rparr>"
    by auto
  from so0 i0 have ir: "nat i < length (m_instoverrides instk)"
    and nth: "m_instoverrides instk ! nat i = so0"
    by (auto simp: instoverride_def split: if_splits)
  have ov: "instoverride inst' i = Some ?so"
    using ir i0 ovs by (simp add: instoverride_def)
  have "bind_param ss hints k p (instk, errsk)
        = map_option (\<lambda>inst'. (inst', errsk @ errs))
            (bind_value hints k i sm (simpletype (typespec sm)) vt0 dat0 instk)"
    by (rule bind_param_accepted [OF nm fpk i0 smk so0 ncl nst tc])
  with bv pt have step: "bind_param ss hints k p (instk, errsk) = Some (inst', errsk @ errs)"
    by simp
  have run: "parameters ss inst (take (Suc k) params) hints = Some (inst', errsk @ errs)"
    using parameters_take_Suc [OF k, of ss inst hints] before step p by simp
  have rest: "parameters ss inst params hints
           = bind_params ss hints (Suc k) (drop (Suc k) params) (inst', errsk @ errs)"
    using parameters_drop [of "Suc k" params ss inst hints] k run by simp
  have sh: "keeps_shape instk inst'" by (rule bind_value_shape(1) [OF bv])
  have final: "instoverride instf i = Some ?so"
    if fin: "parameters ss inst params hints = Some (instf, errsf)"
      and later: "\<forall>j. k < j \<and> j < length params \<longrightarrow>
                    pv_name (params ! j) = []
                    \<or> findparam inst (pv_name (params ! j)) True \<noteq> Some i"
    for instf errsf
  proof -
    from fin rest have b: "bind_params ss hints (Suc k) (drop (Suc k) params) (inst', errsk @ errs)
                            = Some (instf, errsf)"
      by simp
    have fp': "findparam inst' nm True = findparam inst nm True" for nm
      using findparam_shape [OF sh] r(3) by simp
    have "\<forall>q\<in>set (drop (Suc k) params).
            pv_name q = [] \<or> findparam inst' (pv_name q) True \<noteq> Some (int (nat i))"
    proof
      fix q assume "q \<in> set (drop (Suc k) params)"
      then obtain j where "q = params ! j" "k < j" "j < length params"
        by (auto simp: in_set_conv_nth)
      with later i0 show "pv_name q = [] \<or> findparam inst' (pv_name q) True \<noteq> Some (int (nat i))"
        by (simp add: fp')
    qed
    from bind_params_shape [OF b] this
    have shf: "keeps_shape inst' instf"
      and same: "m_instoverrides instf ! nat i = m_instoverrides inst' ! nat i"
      by blast+
    from ov shf same i0 show ?thesis
      by (auto simp: instoverride_def keeps_shape_def split: if_splits)
  qed
  have untouched: "inst' = instk"
    if u: "map_option (\<lambda>so. (so_valuesource so, so_interpolated so, so_interactive so,
                               so_dataoffset so)) (instoverride instk i)
             = Some (DefaultVal, False, False, dataoffset sm)"
      and rk: "inst_read instk (pool_ptr paramtype (dataoffset sm)) (typedesc_size vt) = Some v"
  proof -
    from u so0 have "?so = so0" by simp
    moreover have "(m_instoverrides instk)[nat i := so0] = m_instoverrides instk"
      using nth by (metis list_update_id)
    ultimately show ?thesis using same [OF rk] by simp
  qed
  from run rest ov rd final untouched show ?thesis by auto
qed

theorem exact_default_reverts_to_default_witness:
  "parameters ex_ss ex_inst [ex_knots, ex_Kd] [interactive_hint, no_hints]
     = Some (ex_bound_interactive, [])
   \<and> parameters ex_ss ex_inst [ex_knots] [interactive_hint, no_hints]
     = Some (ex_bound_interactive, [])
   \<and> instoverride ex_bound_interactive 0 = Some (ex_override DefaultVal False False 0 0)
   \<and> inst_read ex_bound_interactive (Float_ptr 0) 4 = Some (Words [0x3F4CCCCD])
   \<and> parameters ex_ss ex_inst [ex_Kd] [no_hints] = Some (ex_unset, [])
   \<and> parameters ex_ss ex_inst [] [no_hints] = Some (ex_unset, [])
   \<and> mergeable ex_ss ex_unset ex_unset = Some True"
proof -
  let ?params = "[ex_knots, ex_Kd]" and ?hints = "[interactive_hint, no_hints]"
  let ?sm = "ex_param ''Kd'' float_spec 0"
  let ?v = "Words [0x3F4CCCCD]"
  let ?pt = "simpletype (typespec ?sm)"
  have k: "1 < length ?params" "1 < length ?hints" "0 < length [ex_Kd]" "0 < length [no_hints]"
    by simp_all
  have p: "ex_Kd = ?params ! 1" "ex_Kd = [ex_Kd] ! 0" by simp_all
  have before: "parameters ex_ss ex_inst (take 1 ?params) ?hints = Some (ex_bound_interactive, [])"
    "parameters ex_ss ex_inst (take 0 [ex_Kd]) [no_hints] = Some (ex_unset, [])"
    using ex_two_runs by simp_all
  have nm: "pv_name ex_Kd \<noteq> []" and pre: "m_instsymbols ex_inst = []"
    by (simp_all add: ex_inst_defs)
  have fp: "findparam ex_inst (pv_name ex_Kd) True = Some 0"
    by (simp add: inst_defs ex_inst_defs)
  have sm: "mastersymbol ex_inst 0 = Some ?sm"
    by (simp add: inst_defs ex_inst_defs)
  have ncl: "\<not> is_closure_based (typespec ?sm)" and nst: "\<not> is_structure (typespec ?sm)"
    by (simp_all add: inst_defs ex_inst_defs)
  have tc: "typecheck_value ex_ss ?sm ex_Kd = Some (Accepted ?v TypeFloat [])"
    by (simp add: inst_defs ex_inst_defs)
  have wf: "widen_float ?pt TypeFloat ?v = Some (?v, TypeFloat)"
    by (simp add: inst_defs ex_inst_defs)
  have sized: "0 \<le> arraylen ?pt"
    by (simp add: inst_defs ex_inst_defs)
  have noinit: "\<not> has_init_ops ?sm" and ni: "\<not> interpolated ?sm"
    and hi: "\<not> hint_interpolated (?hints ! 1)" "\<not> hint_interpolated ([no_hints] ! 0)"
    and ha: "\<not> hint_interactive (?hints ! 1)" "\<not> hint_interactive ([no_hints] ! 0)"
    by (simp_all add: inst_defs ex_inst_defs)
  have dflt: "master_read (m_master ex_inst) (pool_ptr ?pt (dataoffset ?sm))
                (typedesc_size TypeFloat) = Some ?v"
    by (simp add: inst_defs ex_inst_defs)
  have cells: "cells_of (typedesc_size TypeFloat) ?v = Some ?v"
    by (simp add: inst_defs ex_inst_defs)
  have sizes: "pool_ptr ?pt (dataoffset ?sm) = Float_ptr 0" "typedesc_size TypeFloat = 4"
    by (simp_all add: inst_defs ex_inst_defs)
  have i0: "(0::int) \<le> 0" by simp
  from exact_default_reverts_to_default [OF k(1,2) p(1) before(1) nm pre fp i0 sm ncl nst refl
      tc wf sized noinit ni hi(1) ha(1) dflt cells]
  obtain inst' so where
    a: "parameters ex_ss ex_inst (take (Suc 1) ?params) ?hints = Some (inst', [] @ [])"
      "instoverride inst' 0 = Some so" "so_valuesource so = DefaultVal"
      "inst_read inst' (pool_ptr ?pt (dataoffset ?sm)) (typedesc_size TypeFloat) = Some ?v"
    by blast
  from a(1) ex_two_runs(2) have i': "inst' = ex_bound_interactive" by simp
  from exact_default_reverts_to_default [OF k(3,4) p(2) before(2) nm pre fp i0 sm ncl nst refl
      tc wf sized noinit ni hi(2) ha(2) dflt cells]
  obtain inst'' where
    b: "parameters ex_ss ex_inst (take (Suc 0) [ex_Kd]) [no_hints] = Some (inst'', [] @ [])"
      "map_option (\<lambda>so. (so_valuesource so, so_interpolated so, so_interactive so,
                               so_dataoffset so)) (instoverride ex_unset 0)
             = Some (DefaultVal, False, False, dataoffset ?sm)
           \<and> inst_read ex_unset (pool_ptr ?pt (dataoffset ?sm)) (typedesc_size TypeFloat) = Some ?v
           \<longrightarrow> inst'' = ex_unset"
    by blast
  have "map_option (\<lambda>so. (so_valuesource so, so_interpolated so, so_interactive so,
                               so_dataoffset so)) (instoverride ex_unset 0)
             = Some (DefaultVal, False, False, dataoffset ?sm)
           \<and> inst_read ex_unset (pool_ptr ?pt (dataoffset ?sm)) (typedesc_size TypeFloat) = Some ?v"
    by (simp add: inst_defs ex_inst_defs)
  with b have "parameters ex_ss ex_inst [ex_Kd] [no_hints] = Some (ex_unset, [])" by simp
  moreover have "instoverride ex_bound_interactive 0 = Some (ex_override DefaultVal False False 0 0)"
    by (simp add: inst_defs ex_inst_defs)
  ultimately show ?thesis
    using a i' ex_two_runs ex_merge_self by (simp add: sizes)
qed

text \<open>
  With the interactive hint the same value, equal to the default of a parameter without
  init ops, stays an instance value.
\<close>

theorem interactive_exact_default_stays_instance:
  "master_read ex_master (Float_ptr 0) 4 = Some (Words [0x3F4CCCCD])
   \<and> cells_of 4 (pv_data ex_Kd) = Some (Words [0x3F4CCCCD])
   \<and> map_option has_init_ops (mastersymbol ex_inst 0) = Some False
   \<and> parameters ex_ss ex_inst [ex_Kd] [interactive_hint] = Some (ex_interactive, [])
   \<and> map_option so_valuesource (instoverride ex_interactive 0) = Some InstanceVal"
  using ex_Kd_interactive_run by (simp add: inst_defs ex_inst_defs)

subsection \<open>mergeable: an instance with itself\<close>






lemmas ex_merge_defs = struct_spec_def ex_struct_def ex_declared_def ex_userdata_def ex_half_def
  interactive_as_symbols_def values_comparable_def value_check_rejects_def
  param_interactive_def none_interactive_def






subsection \<open>mergeable: override records whose flags differ\<close>

lemma overrides_mergeable_false:
  assumes "i \<in> set xs" and "disqualifying ss a b i"
    and "\<forall>j\<in>set xs. mastersymbol a (int j) \<noteq> None \<and> mastersymbol b (int j) \<noteq> None"
  shows "overrides_mergeable ss a b xs = Some False"
  using assms
proof (induction xs)
  case Nil
  then show ?case by simp
next
  case (Cons j xs)
  from Cons.prems(3) obtain s bs where s: "mastersymbol a (int j) = Some s"
    and bs: "mastersymbol b (int j) = Some bs"
    by auto
  show ?case
  proof (cases "j = i")
    case True
    with Cons.prems(2) s bs show ?thesis
      by (auto simp: disqualifying_def both_default_or_instance_def flags_differ_def Let_def
          split: if_splits)
  next
    case False
    with Cons.prems have "overrides_mergeable ss a b xs = Some False"
      by (intro Cons.IH) auto
    with s bs show ?thesis by (simp add: Let_def)
  qed
qed

lemma overrides_mergeable_passes:
  assumes "both_default_or_instance (m_instoverrides a ! i) (m_instoverrides b ! i)
         \<or> \<not> equivalent_override ss (m_instoverrides a ! i) (m_instoverrides b ! i)"
    and "mastersymbol a (int i) = Some s" and "\<not> everused_in_group s"
    and "mastersymbol b (int i) = Some bs" and "\<not> everused_in_group bs"
  shows "overrides_mergeable ss a b xs = overrides_mergeable ss a b (removeAll i xs)"
proof (induction xs)
  case Nil
  show ?case by simp
next
  case (Cons j xs)
  show ?case
  proof (cases "j = i")
    case True
    with assms have "overrides_mergeable ss a b (j # xs) = overrides_mergeable ss a b xs"
      by (auto simp: Let_def both_default_or_instance_def)
    with True Cons.IH show ?thesis by simp
  next
    case False
    then have r: "removeAll i (j # xs) = j # removeAll i xs" by simp
    show ?thesis unfolding r overrides_mergeable.simps Cons.IH by (rule refl)
  qed
qed

lemma params_mergeable_passes:
  assumes "mastersymbol a i = Some s" and "\<not> everused_in_group s"
  shows "params_mergeable a b False xs = params_mergeable a b False (removeAll i xs)"
proof (induction xs)
  case Nil
  show ?case by simp
next
  case (Cons j xs)
  show ?case
  proof (cases "j = i")
    case True
    with assms have "params_mergeable a b False (j # xs) = params_mergeable a b False xs"
      by simp
    with True Cons.IH show ?thesis by simp
  next
    case False
    then have r: "removeAll i (j # xs) = j # removeAll i xs" by simp
    show ?thesis unfolding r params_mergeable.simps Cons.IH by (rule refl)
  qed
qed

lemma overrides_mergeable_returns:
  assumes "\<forall>j\<in>set xs. mastersymbol a (int j) \<noteq> None \<and> mastersymbol b (int j) \<noteq> None"
  shows "\<exists>r. overrides_mergeable ss a b xs = Some r"
  using assms
  by (induction xs) (auto simp: Let_def split: option.splits)

lemma params_mergeable_rejects:
  assumes "i \<in> set xs" and "value_check_rejects a b i"
    and "list_all (\<lambda>j. case param_symbol a j of
                      None \<Rightarrow> False
                    | Some s \<Rightarrow>
                        \<not> is_compared s
                        \<or> (param_values_differ a b j (typedesc_size (simpletype (typespec s)))
                             \<noteq> None
                           \<and> (if optimized a then symbol b j else mastersymbol b j) \<noteq> None)) xs"
  shows "params_mergeable a b (optimized a) xs = Some False"
  using assms
proof (induction xs)
  case Nil
  then show ?case by simp
next
  case (Cons j xs)
  from Cons.prems(3) obtain s where s: "param_symbol a j = Some s"
    and c: "is_compared s \<Longrightarrow>
        param_values_differ a b j (typedesc_size (simpletype (typespec s))) \<noteq> None
        \<and> (if optimized a then symbol b j else mastersymbol b j) \<noteq> None"
    by (auto split: option.splits)
  from s have s': "(if optimized a then symbol a j else mastersymbol a j) = Some s"
    by (simp add: param_symbol_def)
  show ?case
  proof (cases "j = i")
    case True
    with Cons.prems(2) s have cmp: "is_compared s"
      and rej: "param_values_differ a b i (typedesc_size (simpletype (typespec s))) = Some True
             \<or> (case (if optimized a then symbol b i else mastersymbol b i) of
                   None \<Rightarrow> False
                 | Some b_sym \<Rightarrow> interactive b_sym)"
      by (auto simp: value_check_rejects_def)
    from c [OF cmp] True obtain d bsym where
      d: "param_values_differ a b i (typedesc_size (simpletype (typespec s))) = Some d"
      and bsym: "(if optimized a then symbol b i else mastersymbol b i) = Some bsym"
      by auto
    from rej d bsym have "d \<or> interactive bsym" by auto
    with True s' cmp d bsym show ?thesis
      by (auto simp: is_compared_def)
  next
    case False
    with Cons.prems have IH: "params_mergeable a b (optimized a) xs = Some False"
      by (intro Cons.IH) auto
    show ?thesis
    proof (cases "is_compared s")
      case True
      from c [OF True] obtain d bsym where
        "param_values_differ a b j (typedesc_size (simpletype (typespec s))) = Some d"
        "(if optimized a then symbol b j else mastersymbol b j) = Some bsym"
        by auto
      with s' IH True show ?thesis by (auto simp: is_compared_def)
    next
      case False
      with s' IH show ?thesis by (auto simp: is_compared_def)
    qed
  qed
qed

text \<open>
  C4, amended.  Two instances of one master, not optimized and without renderer outputs,
  whose override records at index \<open>i\<close> differ in the interpolated or the interactive
  flag.  If neither symbol is referenced in the group, and the two records are both of
  value source Default or Instance or are not equivalent, the mismatch does not disqualify:
  the loop over the override records and the loop over the parameter values give what they
  give with index \<open>i\<close> left out.  Otherwise \<open>mergeable\<close> returns false: always when the
  records are not both Default or Instance; and when they are, if the loop over the values
  rejects the pair at \<open>i\<close>.
\<close>

theorem override_flags_disqualify:
  assumes same: "m_master a = m_master b"
    and ro: "\<not> m_renderer_outputs a" "\<not> m_renderer_outputs b"
    and pre: "m_instsymbols a = []" "m_instops a = []"
    and len: "length (m_instoverrides a) = length (m_instoverrides b)"
    and syms: "length (m_instoverrides a) \<le> length (m_symbols (m_master a))"
    and i: "i < length (m_instoverrides a)"
    and sa: "mastersymbol a (int i) = Some s" and sb: "mastersymbol b (int i) = Some bs"
    and fd: "flags_differ (m_instoverrides a ! i) (m_instoverrides b ! i)"
  shows "if \<not> everused_in_group s \<and> \<not> everused_in_group bs
            \<and> (both_default_or_instance (m_instoverrides a ! i) (m_instoverrides b ! i)
               \<or> \<not> equivalent_override ss (m_instoverrides a ! i) (m_instoverrides b ! i))
         then overrides_mergeable ss a b [0..<length (m_instoverrides a)]
                = overrides_mergeable ss a b (removeAll i [0..<length (m_instoverrides a)])
            \<and> params_mergeable a b False [m_firstparam a..m_lastparam a - 1]
                = params_mergeable a b False
                    (removeAll (int i) [m_firstparam a..m_lastparam a - 1])
         else if \<not> both_default_or_instance (m_instoverrides a ! i) (m_instoverrides b ! i)
         then mergeable ss a b = Some False
         else (m_firstparam a \<le> int i \<and> int i < m_lastparam a
               \<and> values_comparable a b \<and> value_check_rejects a b (int i)
               \<longrightarrow> mergeable ss a b = Some False)"
proof -
  let ?oa = "m_instoverrides a ! i" and ?ob = "m_instoverrides b ! i"
  let ?n = "length (m_instoverrides a)"
  have all: "\<forall>j\<in>set [0..<?n]. mastersymbol a (int j) \<noteq> None \<and> mastersymbol b (int j) \<noteq> None"
    using syms same by (auto simp: mastersymbol_def master_symbol_def)
  have ne: "m_instoverrides a \<noteq> []" using i by auto
  have opt: "\<not> optimized a" using pre by (simp add: optimized_def)
  consider (exempt) "\<not> everused_in_group s" "\<not> everused_in_group bs"
      "both_default_or_instance ?oa ?ob \<or> \<not> equivalent_override ss ?oa ?ob"
    | (other) "\<not> both_default_or_instance ?oa ?ob"
      "equivalent_override ss ?oa ?ob \<or> everused_in_group s \<or> everused_in_group bs"
    | (deferred) "both_default_or_instance ?oa ?ob" "everused_in_group s \<or> everused_in_group bs"
    by blast
  then show ?thesis
  proof cases
    case exempt
    have "overrides_mergeable ss a b [0..<?n] = overrides_mergeable ss a b (removeAll i [0..<?n])"
      by (rule overrides_mergeable_passes [OF exempt(3) sa exempt(1) sb exempt(2)])
    moreover have "params_mergeable a b False [m_firstparam a..m_lastparam a - 1]
        = params_mergeable a b False (removeAll (int i) [m_firstparam a..m_lastparam a - 1])"
      by (rule params_mergeable_passes [OF sa exempt(1)])
    ultimately show ?thesis using exempt by simp
  next
    case other
    then have dq: "disqualifying ss a b i"
      using fd sa sb by (auto simp: disqualifying_def)
    with i all have "overrides_mergeable ss a b [0..<?n] = Some False"
      by (intro overrides_mergeable_false [of i]) auto
    then have "mergeable ss a b = Some False"
      using same ro pre len ne by (simp add: mergeable_def Let_def)
    with other show ?thesis by auto
  next
    case deferred
    have "mergeable ss a b = Some False"
      if r: "m_firstparam a \<le> int i" "int i < m_lastparam a"
        and vc: "values_comparable a b" and rej: "value_check_rejects a b (int i)"
    proof -
      from overrides_mergeable_returns [OF all] obtain ok1 where
        o: "overrides_mergeable ss a b [0..<?n] = Some ok1" ..
      from r have "int i \<in> set [m_firstparam a..m_lastparam a - 1]" by simp
      from params_mergeable_rejects [OF this rej vc [unfolded values_comparable_def]] opt
      have p: "params_mergeable a b False [m_firstparam a..m_lastparam a - 1] = Some False"
        by simp
      show ?thesis
        using same ro pre len ne o p by (simp add: mergeable_def Let_def)
    qed
    with deferred show ?thesis by auto
  qed
qed

theorem override_flags_disqualify_witness:
  "mergeable ex_ss (ex_connected True) (ex_connected False) = Some False
   \<and> mergeable ex_ss ex_interactive ex_half = Some False
   \<and> overrides_mergeable ex_ss (ex_connected True)
        (ex_dead (ex_override InstanceVal False False 0 0)) [0..<2]
      = overrides_mergeable ex_ss (ex_connected True)
        (ex_dead (ex_override InstanceVal False False 0 0)) [1]
   \<and> params_mergeable (ex_connected True)
        (ex_dead (ex_override InstanceVal False False 0 0)) False [0..1]
      = params_mergeable (ex_connected True)
        (ex_dead (ex_override InstanceVal False False 0 0)) False [1]
   \<and> mergeable ex_ss (ex_connected True)
        (ex_dead (ex_override InstanceVal False False 0 0)) = Some True
   \<and> mergeable ex_ss (ex_dead (ex_override InstanceVal False True 0 0))
        (ex_dead (ex_override DefaultVal False False 0 0)) = Some True"
proof -
  let ?a = "ex_connected True" and ?b = "ex_connected False"
  let ?c = "ex_dead (ex_override InstanceVal False False 0 0)"
  let ?d = "ex_interactive" and ?e = "ex_half"
  let ?s = "(ex_param ''Kd'' float_spec 0)\<lparr>everused_in_group := False\<rparr>"
  let ?t = "ex_param ''Kd'' float_spec 0"
  have ro: "\<not> m_renderer_outputs ?a" "\<not> m_renderer_outputs ?b" "\<not> m_renderer_outputs ?c"
    "\<not> m_renderer_outputs ?d" "\<not> m_renderer_outputs ?e"
    and pre: "m_instsymbols ?a = []" "m_instops ?a = []" "m_instsymbols ?d = []" "m_instops ?d = []"
    and syms: "length (m_instoverrides ?a) \<le> length (m_symbols (m_master ?a))"
      "length (m_instoverrides ?d) \<le> length (m_symbols (m_master ?d))"
    and i: "0 < length (m_instoverrides ?a)" "0 < length (m_instoverrides ?d)"
    by (simp_all add: ex_inst_defs ex_merge_defs)
  have same: "m_master ?a = m_master ?b" "m_master ?a = m_master ?c" "m_master ?d = m_master ?e"
    and len: "length (m_instoverrides ?a) = length (m_instoverrides ?b)"
      "length (m_instoverrides ?a) = length (m_instoverrides ?c)"
      "length (m_instoverrides ?d) = length (m_instoverrides ?e)"
    by (simp_all add: ex_inst_defs ex_merge_defs)
  have sa: "mastersymbol ?a (int 0) = Some ?s" and sb: "mastersymbol ?b (int 0) = Some ?s"
    and sc: "mastersymbol ?c (int 0) = Some ?s"
    and sd: "mastersymbol ?d (int 0) = Some ?t" and se: "mastersymbol ?e (int 0) = Some ?t"
    by (simp_all add: mastersymbol_def master_symbol_def ex_inst_defs ex_merge_defs)
  have fd: "flags_differ (m_instoverrides ?a ! 0) (m_instoverrides ?b ! 0)"
    "flags_differ (m_instoverrides ?a ! 0) (m_instoverrides ?c ! 0)"
    "flags_differ (m_instoverrides ?d ! 0) (m_instoverrides ?e ! 0)"
    by (simp_all add: flags_differ_def ex_inst_defs ex_merge_defs)
  have nb: "\<not> both_default_or_instance (m_instoverrides ?a ! 0) (m_instoverrides ?b ! 0)"
    "\<not> both_default_or_instance (m_instoverrides ?a ! 0) (m_instoverrides ?c ! 0)"
    "both_default_or_instance (m_instoverrides ?d ! 0) (m_instoverrides ?e ! 0)"
    and eq: "equivalent_override ex_ss (m_instoverrides ?a ! 0) (m_instoverrides ?b ! 0)"
      "\<not> equivalent_override ex_ss (m_instoverrides ?a ! 0) (m_instoverrides ?c ! 0)"
    and used: "\<not> everused_in_group ?s" "everused_in_group ?t"
    by (simp_all add: both_default_or_instance_def ex_inst_defs ex_merge_defs)
  have n: "[0..<length (m_instoverrides ?a)] = [0, 1]"
    "[m_firstparam ?a..m_lastparam ?a - 1] = [0, 1]"
    "[0..<2] = [0, Suc 0]" "[0..1] = [0, 1::int]"
    by (simp_all add: ex_inst_defs ex_merge_defs upt_rec upto.simps)
  have w: "(0x3F4CCCCD :: 32 word) \<noteq> 0x3F000000" by simp
  have rng: "m_firstparam ?d \<le> int 0" "int 0 < m_lastparam ?d"
    and vc: "values_comparable ?d ?e" and rej: "value_check_rejects ?d ?e (int 0)"
    using w by (simp_all add: merge_defs inst_defs ex_inst_defs ex_merge_defs)
  from override_flags_disqualify [OF same(1) ro(1,2) pre(1,2) len(1) syms(1) i(1) sa sb fd(1),
      of ex_ss] nb(1) eq(1)
  have 1: "mergeable ex_ss ?a ?b = Some False" by simp
  from override_flags_disqualify [OF same(3) ro(4,5) pre(3,4) len(3) syms(2) i(2) sd se fd(3),
      of ex_ss] nb(3) used(2) rng vc rej
  have 2: "mergeable ex_ss ?d ?e = Some False" by simp
  from override_flags_disqualify [OF same(2) ro(1,3) pre(1,2) len(2) syms(1) i(1) sa sc fd(2),
      of ex_ss] nb(2) eq(2) used(1)
  have 3: "overrides_mergeable ex_ss ?a ?c [0..<2] = overrides_mergeable ex_ss ?a ?c [1]
         \<and> params_mergeable ?a ?c False [0..1] = params_mergeable ?a ?c False [1]"
    unfolding n by simp
  have 4: "mergeable ex_ss ?a ?c = Some True"
    "mergeable ex_ss (ex_dead (ex_override InstanceVal False True 0 0))
        (ex_dead (ex_override DefaultVal False False 0 0)) = Some True"
    by (simp_all add: merge_defs inst_defs ex_inst_defs)
  from 1 2 3 4 show ?thesis by simp
qed

text \<open>
  Two instances whose records for an unreferenced, connected parameter differ in the
  interpolated flag are not mergeable, although they are when the flags agree.
\<close>

theorem unreferenced_mismatch_rejected:
  "so_interpolated (m_instoverrides (ex_connected True) ! 0)
       \<noteq> so_interpolated (m_instoverrides (ex_connected False) ! 0)
   \<and> map_option everused_in_group (mastersymbol (ex_connected True) 0) = Some False
   \<and> map_option everused_in_group (mastersymbol (ex_connected False) 0) = Some False
   \<and> mergeable ex_ss (ex_connected True) (ex_connected False) = Some False
   \<and> mergeable ex_ss (ex_connected False) (ex_connected False) = Some True"
proof -
  have "so_interpolated (m_instoverrides (ex_connected True) ! 0)
       \<noteq> so_interpolated (m_instoverrides (ex_connected False) ! 0)"
    by (simp add: ex_inst_defs)
  moreover have "map_option everused_in_group (mastersymbol (ex_connected True) 0) = Some False"
    "map_option everused_in_group (mastersymbol (ex_connected False) 0) = Some False"
    by (simp_all add: mastersymbol_def master_symbol_def ex_inst_defs)
  ultimately show ?thesis
    using ex_merge_connected by simp
qed

text \<open>
  Left out of the statement above: records that are both Default or Instance, of a
  referenced parameter whose values are the same.  Bound to 0.8 with the interactive hint
  and left unset, \<open>Kd\<close> has records that differ in the interactive flag, and the two
  instances are mergeable: the loop over the values reads the flag of the master's symbol.
\<close>

lemma interactive_mismatch_passes:
  "parameters ex_ss ex_inst [ex_Kd] [interactive_hint] = Some (ex_interactive, [])
   \<and> parameters ex_ss ex_inst [] [] = Some (ex_unset, [])
   \<and> so_interactive (m_instoverrides ex_interactive ! 0)
       \<noteq> so_interactive (m_instoverrides ex_unset ! 0)
   \<and> map_option everused_in_group (mastersymbol ex_interactive 0) = Some True
   \<and> mergeable ex_ss ex_interactive ex_unset = Some True
   \<and> mergeable ex_ss ex_interactive ex_interactive = Some True"
  by (simp add: merge_defs inst_defs ex_inst_defs)

end
